theory Spec2Isabelle
  imports Complex_Main "HOL-Library.AList"
begin

section \<open>External libraries\<close>

text \<open>
  The program calls Node's \<^verbatim>\<open>crypto\<close> module and the \<^verbatim>\<open>bloom-filters\<close> package.
  Their code is not part of the repository, so every function of the model takes them as
  a parameter:
  \<^item> \<open>sha256 s\<close> is \<^verbatim>\<open>crypto.createHash('sha256').update(s).digest('hex')\<close>;
  \<^item> \<open>sign d k\<close> is \<^verbatim>\<open>crypto.sign('sha256', Buffer.from(d), k).toString('base64')\<close>;
  \<^item> \<open>verify d s p\<close> is the body of \<^verbatim>\<open>Wallet.verifySignature\<close>, which returns false
    where the verifier throws;
  \<^item> \<open>bloom_idx x\<close> are the bit positions the Bloom filter derives from the element \<open>x\<close>.
\<close>

record extern =
  sha256 :: "string \<Rightarrow> string"
  sign :: "string \<Rightarrow> string \<Rightarrow> string"
  verify :: "string \<Rightarrow> string \<Rightarrow> string \<Rightarrow> bool"
  bloom_idx :: "string \<Rightarrow> nat list"

section \<open>Strings and JavaScript values\<close>

text \<open>
  Template literals print an integer in decimal. (A JavaScript number holds an integer
  exactly up to \<open>2^53\<close> and prints it in plain decimal below \<open>10^21\<close>; the coin values
  and clock readings of this development are far below both.)
\<close>

definition digit_char :: "nat \<Rightarrow> char" where
  "digit_char d = ''0123456789'' ! d"

fun show_nat :: "nat \<Rightarrow> string" where
  "show_nat n = (if n < 10 then [digit_char n] else show_nat (n div 10) @ [digit_char (n mod 10)])"

declare show_nat.simps [simp del]

definition show_int :: "int \<Rightarrow> string" where
  "show_int i = (if i < 0 then ''-'' @ show_nat (nat (- i)) else show_nat (nat i))"

text \<open>
  \<^verbatim>\<open>JSON.stringify\<close> of a string: quoted, with the quote and the backslash escaped, and a
  control character (below \<open>0x20\<close>) written as its short escape or as \<^verbatim>\<open>\u00XX\<close> in
  lower-case hexadecimal digits.
\<close>

definition hex_char :: "nat \<Rightarrow> char" where
  "hex_char d = ''0123456789abcdef'' ! d"

definition json_char :: "char \<Rightarrow> string" where
  "json_char c =
     (if c = CHR 0x22 \<or> c = CHR 0x5C then [CHR 0x5C, c]
      else if c = CHR 0x08 then [CHR 0x5C, CHR ''b'']
      else if c = CHR 0x09 then [CHR 0x5C, CHR ''t'']
      else if c = CHR 0x0A then [CHR 0x5C, CHR ''n'']
      else if c = CHR 0x0C then [CHR 0x5C, CHR ''f'']
      else if c = CHR 0x0D then [CHR 0x5C, CHR ''r'']
      else if (of_char c :: nat) < 32
      then [CHR 0x5C, CHR ''u'', CHR ''0'', CHR ''0'',
            hex_char ((of_char c :: nat) div 16), hex_char ((of_char c :: nat) mod 16)]
      else [c])"

definition json_string :: "string \<Rightarrow> string" where
  "json_string s = [CHR 0x22] @ concat (map json_char s) @ [CHR 0x22]"

definition json_key :: "string \<Rightarrow> string" where
  "json_key k = json_string k @ '':''"

text \<open>
  The values a field of parsed JSON can hold. Numbers are integers: the coin values of this
  program are integers (\<^verbatim>\<open>Math.floor(Math.random() * 10) + 1\<close>, sums and differences).
\<close>

datatype jsval = JUndefined | JNull | JBool bool | JNum int | JStr string

fun truthy :: "jsval \<Rightarrow> bool" where
  "truthy JUndefined = False"
| "truthy JNull = False"
| "truthy (JBool b) = b"
| "truthy (JNum n) = (n \<noteq> 0)"
| "truthy (JStr s) = (s \<noteq> [])"

text \<open>\<^verbatim>\<open>x || d\<close> on an optional number and on an optional string.\<close>

fun or_num :: "nat option \<Rightarrow> nat \<Rightarrow> nat" where
  "or_num None d = d"
| "or_num (Some n) d = (if n = 0 then d else n)"

fun or_str :: "string option \<Rightarrow> string \<Rightarrow> string" where
  "or_str None d = d"
| "or_str (Some s) d = (if s = [] then d else s)"

datatype error = Error string

section \<open>Coin\<close>

datatype coin_event =
    TransferEvent string string nat string "int list" string int
  | SplitEvent nat string string int int
  | MergeEvent nat string string int int

text \<open>\<^verbatim>\<open>event.hash\<close>: only a transfer entry has the property.\<close>

fun event_hash :: "coin_event \<Rightarrow> string option" where
  "event_hash (TransferEvent from to ts sig ws h v) = Some h"
| "event_hash (SplitEvent ts p c pv cv) = None"
| "event_hash (MergeEvent ts c1 c2 v1 v2) = None"

record metadata =
  md_expiryDate :: "nat option"

record coin =
  coin_id :: string
  ownerId :: string
  coin_value :: int
  history :: "coin_event list"
  created :: nat
  lastTransferred :: nat
  coin_metadata :: metadata
  version :: string
  status :: string
  expiryDate :: "nat option"
  hash :: string

text \<open>
  The string \<^verbatim>\<open>updateHash\<close> digests: \<^verbatim>\<open>JSON.stringify\<close> of the eight listed properties.
  \<^verbatim>\<open>lastHash\<close> is \<^verbatim>\<open>null\<close> for an empty history, the last entry's hash for a transfer
  entry, and left out by \<^verbatim>\<open>JSON.stringify\<close> where the last entry has no hash.
\<close>

definition hash_payload :: "coin \<Rightarrow> string" where
  "hash_payload c =
     ''{'' @ json_key ''id'' @ json_string (coin_id c)
     @ '','' @ json_key ''ownerId'' @ json_string (ownerId c)
     @ '','' @ json_key ''value'' @ show_int (coin_value c)
     @ '','' @ json_key ''created'' @ show_nat (created c)
     @ '','' @ json_key ''lastTransferred'' @ show_nat (lastTransferred c)
     @ '','' @ json_key ''historyLength'' @ show_nat (length (history c))
     @ '','' @ json_key ''status'' @ json_string (status c)
     @ (if history c = [] then '','' @ json_key ''lastHash'' @ ''null''
        else case event_hash (last (history c)) of
               Some h \<Rightarrow> '','' @ json_key ''lastHash'' @ json_string h
             | None \<Rightarrow> [])
     @ ''}''"

definition updateHash :: "extern \<Rightarrow> coin \<Rightarrow> coin" where
  "updateHash E c = c\<lparr>hash := sha256 E (hash_payload c)\<rparr>"

text \<open>
  \<^verbatim>\<open>verifyIntegrity\<close>: \<^verbatim>\<open>calculatedHash = this.updateHash()\<close> stores the new digest in
  \<^verbatim>\<open>this.hash\<close> and returns it; the comparison then reads \<^verbatim>\<open>this.hash\<close>. The result is
  the verdict and the coin as the call leaves it.
\<close>

definition verifyIntegrity :: "extern \<Rightarrow> coin \<Rightarrow> bool \<times> coin" where
  "verifyIntegrity E c =
     (let c' = updateHash E c;
          calculatedHash = hash c'
      in (calculatedHash = hash c', c'))"

definition getSignatureData :: "coin \<Rightarrow> string \<Rightarrow> nat \<Rightarrow> string" where
  "getSignatureData c recipientId timestamp =
     coin_id c @ ''-'' @ ownerId c @ ''-'' @ recipientId @ ''-'' @ show_nat timestamp
       @ ''-'' @ show_int (coin_value c) @ ''-'' @ hash c @ ''-'' @ status c"

text \<open>
  The constructor. \<open>now\<close> is the reading of \<^verbatim>\<open>Date.now()\<close>, \<open>uuid\<close> the result of
  \<^verbatim>\<open>uuidv4()\<close>; an undefined value takes the default 1.
\<close>

definition new_Coin ::
  "extern \<Rightarrow> nat \<Rightarrow> string \<Rightarrow> string \<Rightarrow> jsval \<Rightarrow> string option \<Rightarrow> metadata \<Rightarrow> error + coin" where
  "new_Coin E now uuid initialOwnerId val ident md =
     (let v = (if val = JUndefined then JNum 1 else val) in
      case v of
        JNum n \<Rightarrow>
          if n \<le> 0 then Inl (Error ''Coin value must be a positive number'')
          else Inr (updateHash E
                 \<lparr>coin_id = or_str ident uuid, ownerId = initialOwnerId, coin_value = n,
                  history = [], created = now, lastTransferred = now, coin_metadata = md,
                  version = ''1.0.0'', status = ''active'',
                  expiryDate = (case md_expiryDate md of None \<Rightarrow> None
                                | Some d \<Rightarrow> if d = 0 then None else Some d),
                  hash = []\<rparr>)
      | _ \<Rightarrow> Inl (Error ''Coin value must be a positive number''))"

text \<open>\<^verbatim>\<open>coin.expiryDate && Date.now() > coin.expiryDate\<close>.\<close>

definition expired :: "nat \<Rightarrow> coin \<Rightarrow> bool" where
  "expired now c = (case expiryDate c of None \<Rightarrow> False | Some d \<Rightarrow> d \<noteq> 0 \<and> now > d)"

text \<open>
  \<^verbatim>\<open>Coin.transfer\<close>. An expired coin has its status set before the exception is thrown, so
  the failure carries the coin as the call leaves it.
\<close>

definition Coin_transfer ::
  "extern \<Rightarrow> nat \<Rightarrow> coin \<Rightarrow> string \<Rightarrow> string \<Rightarrow> int list \<Rightarrow> (error \<times> coin) + coin" where
  "Coin_transfer E now c newOwnerId signature witnesses =
     (if newOwnerId = [] then Inl (Error ''Invalid recipient ID'', c)
      else if signature = [] then Inl (Error ''Signature required for transfer'', c)
      else if status c \<noteq> ''active'' then
        Inl (Error (''Cannot transfer coin with status: '' @ status c), c)
      else if coin_value c \<le> 0 then
        Inl (Error ''Cannot transfer coin with zero or negative value'', c)
      else if expired now c then
        Inl (Error ''Cannot transfer expired coin'', c\<lparr>status := ''expired''\<rparr>)
      else
        Inr (updateHash E
               (c\<lparr>history := history c @
                     [TransferEvent (ownerId c) newOwnerId now signature witnesses (hash c)
                        (coin_value c)],
                  ownerId := newOwnerId,
                  lastTransferred := now\<rparr>)))"

subsection \<open>Serialisation\<close>

record coin_json =
  j_id :: "string option"
  j_ownerId :: string
  j_value :: jsval
  j_created :: "nat option"
  j_lastTransferred :: "nat option"
  j_hash :: "string option"
  j_history :: "coin_event list option"
  j_metadata :: "metadata option"
  j_version :: "string option"
  j_status :: "string option"
  j_expiryDate :: "nat option"

definition toJSON :: "coin \<Rightarrow> coin_json" where
  "toJSON c =
     \<lparr>j_id = Some (coin_id c), j_ownerId = ownerId c, j_value = JNum (coin_value c),
      j_created = Some (created c), j_lastTransferred = Some (lastTransferred c),
      j_hash = Some (hash c), j_history = Some (history c),
      j_metadata = Some (coin_metadata c), j_version = Some (version c),
      j_status = Some (status c), j_expiryDate = expiryDate c\<rparr>"

text \<open>
  \<^verbatim>\<open>Coin.fromJSON\<close>. The second component of the result tells whether the hash-mismatch
  warning was printed.
\<close>

definition fromJSON :: "extern \<Rightarrow> nat \<Rightarrow> string \<Rightarrow> coin_json \<Rightarrow> error + (coin \<times> bool)" where
  "fromJSON E now uuid d =
     (case new_Coin E now uuid (j_ownerId d)
             (if truthy (j_value d) then j_value d else JNum 1)
             (j_id d)
             (case j_metadata d of None \<Rightarrow> \<lparr>md_expiryDate = None\<rparr> | Some m \<Rightarrow> m) of
        Inl e \<Rightarrow> Inl e
      | Inr c0 \<Rightarrow>
          (let c1 = c0\<lparr>created := or_num (j_created d) now\<rparr>;
               c2 = c1\<lparr>lastTransferred := or_num (j_lastTransferred d) (created c1)\<rparr>;
               c3 = c2\<lparr>history := (case j_history d of None \<Rightarrow> [] | Some h \<Rightarrow> h)\<rparr>;
               c4 = c3\<lparr>hash := (case j_hash d of None \<Rightarrow> [] | Some h \<Rightarrow> h)\<rparr>;
               c5 = c4\<lparr>version := or_str (j_version d) ''1.0.0''\<rparr>;
               c6 = c5\<lparr>status := or_str (j_status d) ''active''\<rparr>;
               c7 = c6\<lparr>expiryDate := (case j_expiryDate d of None \<Rightarrow> None
                                        | Some x \<Rightarrow> if x = 0 then None else Some x)\<rparr>;
               c8 = updateHash E c7;
               calculatedHash = hash c8
           in Inr (c8, Some calculatedHash \<noteq> j_hash d)))"


section \<open>Wallet\<close>

record wallet_tx =
  wt_type :: string
  wt_coinId :: string
  wt_timestamp :: nat
  wt_recipient :: string
  wt_value :: int

record wallet =
  coins :: "coin list"
  transactions :: "wallet_tx list"
  publicKey :: string
  privateKey :: string

text \<open>The transfer intent \<^verbatim>\<open>Wallet.transferCoin\<close> returns and a witness validates.\<close>

record transfer_intent =
  tr_coin :: "coin option"
  tr_signature :: string
  tr_sender :: string
  tr_recipient :: string
  tr_timestamp :: nat

definition getId :: "extern \<Rightarrow> wallet \<Rightarrow> string" where
  "getId E w = take 16 (sha256 E (publicKey w))"

definition recordTransaction :: "nat \<Rightarrow> string \<Rightarrow> coin \<Rightarrow> string option \<Rightarrow> wallet \<Rightarrow> wallet" where
  "recordTransaction now ty c recipient w =
     w\<lparr>transactions := transactions w @
         [\<lparr>wt_type = ty, wt_coinId = coin_id c, wt_timestamp = now,
           wt_recipient = or_str recipient ''self'',
           wt_value = (if coin_value c = 0 then 1 else coin_value c)\<rparr>]\<rparr>"

definition addCoin :: "extern \<Rightarrow> nat \<Rightarrow> coin \<Rightarrow> wallet \<Rightarrow> bool \<times> wallet" where
  "addCoin E now c w =
     (if ownerId c = getId E w
      then (True, recordTransaction now ''receive'' c None (w\<lparr>coins := coins w @ [c]\<rparr>))
      else (False, w))"

text \<open>
  \<^verbatim>\<open>Wallet.transferCoin\<close>. The readings of \<^verbatim>\<open>Date.now()\<close> within one call are taken to be
  the same instant \<open>now\<close>.
\<close>

definition signData :: "extern \<Rightarrow> wallet \<Rightarrow> coin \<Rightarrow> string \<Rightarrow> nat \<Rightarrow> string" where
  "signData E w c recipientPublicKey now =
     coin_id c @ ''-'' @ getId E w @ ''-'' @ recipientPublicKey @ ''-'' @ show_nat now"

definition Wallet_transferCoin ::
  "extern \<Rightarrow> nat \<Rightarrow> wallet \<Rightarrow> int \<Rightarrow> string \<Rightarrow> transfer_intent option \<times> wallet" where
  "Wallet_transferCoin E now w coinIndex recipientPublicKey =
     (if coinIndex \<ge> 0 \<and> coinIndex < int (length (coins w)) then
        (let i = nat coinIndex;
             c = coins w ! i;
             signature = sign E (signData E w c recipientPublicKey now) (privateKey w);
             w1 = w\<lparr>coins := take i (coins w) @ drop (Suc i) (coins w)\<rparr>;
             w2 = recordTransaction now ''send'' c (Some recipientPublicKey) w1
         in (Some \<lparr>tr_coin = Some c, tr_signature = signature, tr_sender = getId E w,
                    tr_recipient = recipientPublicKey, tr_timestamp = now\<rparr>, w2))
      else (None, w))"

definition getCoinCount :: "wallet \<Rightarrow> nat" where
  "getCoinCount w = length (coins w)"

section \<open>Agent\<close>

datatype cache_entry =
    CoinEntry nat string string string int
  | TxEntry nat string

fun entry_timestamp :: "cache_entry \<Rightarrow> nat" where
  "entry_timestamp (CoinEntry ts h s r v) = ts"
| "entry_timestamp (TxEntry ts c) = ts"

record reputation_change =
  rc_timestamp :: nat
  rc_wasSuccessful :: bool
  rc_previousScore :: real
  rc_importance :: real
  rc_newScore :: real
  rc_change :: real

record reputation =
  score :: real
  successfulValidations :: nat
  failedValidations :: nat
  lastUpdated :: nat
  rep_history :: "reputation_change list"

record stats =
  validationsPerformed :: nat
  doubleSpendsPrevented :: nat
  zeroBalancePrevented :: nat
  validSignatures :: nat
  invalidSignatures :: nat
  st_bannedWallets :: nat
  lastReset :: nat

text \<open>
  The witness. \<open>seenCoins\<close> is the bit set of the Bloom filter; the recency cache is a
  JavaScript \<^verbatim>\<open>Map\<close>, kept in insertion order. Scores are real numbers (the program
  computes them in floating point).
\<close>

record agent =
  agent_id :: int
  agent_wallet :: wallet
  seenCoins :: "nat set"
  recentTransactionCache :: "(string \<times> cache_entry) list"
  maxCacheSize :: nat
  validatedValues :: "string \<rightharpoonup> int"
  validationFailures :: "string \<rightharpoonup> nat"
  maxFailuresBeforeBan :: nat
  bannedWallets :: "string set"
  publicKeyDirectory :: "string \<rightharpoonup> string"
  reputation :: reputation
  agent_stats :: stats

definition bloom_has :: "extern \<Rightarrow> nat set \<Rightarrow> string \<Rightarrow> bool" where
  "bloom_has E bits x = list_all (\<lambda>i. i \<in> bits) (bloom_idx E x)"

definition bloom_add :: "extern \<Rightarrow> nat set \<Rightarrow> string \<Rightarrow> nat set" where
  "bloom_add E bits x = bits \<union> set (bloom_idx E x)"

text \<open>The constructor without persistence; the wallet's key pair is generated outside.\<close>

definition new_Agent :: "nat \<Rightarrow> int \<Rightarrow> string \<Rightarrow> string \<Rightarrow> agent" where
  "new_Agent now ident pub priv =
     \<lparr>agent_id = ident,
      agent_wallet = \<lparr>coins = [], transactions = [], publicKey = pub, privateKey = priv\<rparr>,
      seenCoins = {},
      recentTransactionCache = [],
      maxCacheSize = 100000,
      validatedValues = Map.empty,
      validationFailures = Map.empty,
      maxFailuresBeforeBan = 5,
      bannedWallets = {},
      publicKeyDirectory = Map.empty,
      reputation = \<lparr>score = 100, successfulValidations = 0, failedValidations = 0,
                    lastUpdated = now, rep_history = []\<rparr>,
      agent_stats = \<lparr>validationsPerformed = 0, doubleSpendsPrevented = 0,
                     zeroBalancePrevented = 0, validSignatures = 0, invalidSignatures = 0,
                     st_bannedWallets = 0, lastReset = now\<rparr>\<rparr>"

definition registerPublicKey :: "string \<Rightarrow> string \<Rightarrow> agent \<Rightarrow> agent" where
  "registerPublicKey walletId pk a =
     a\<lparr>publicKeyDirectory := (publicKeyDirectory a)(walletId \<mapsto> pk)\<rparr>"

definition isWalletBanned :: "agent \<Rightarrow> string \<Rightarrow> bool" where
  "isWalletBanned a walletId = (walletId \<in> bannedWallets a)"

definition recordValidationFailure :: "string \<Rightarrow> agent \<Rightarrow> agent" where
  "recordValidationFailure walletId a =
     (case validationFailures a walletId of
        None \<Rightarrow> a\<lparr>validationFailures := (validationFailures a)(walletId \<mapsto> 1)\<rparr>
      | Some currentCount \<Rightarrow>
          (let a1 = a\<lparr>validationFailures := (validationFailures a)(walletId \<mapsto> currentCount + 1)\<rparr>
           in if currentCount + 1 \<ge> maxFailuresBeforeBan a1
              then a1\<lparr>bannedWallets := insert walletId (bannedWallets a1),
                      agent_stats := (agent_stats a1)
                        \<lparr>st_bannedWallets := st_bannedWallets (agent_stats a1) + 1\<rparr>\<rparr>
              else a1))"

definition resetValidationFailures :: "string \<Rightarrow> agent \<Rightarrow> agent" where
  "resetValidationFailures walletId a =
     a\<lparr>validationFailures := (validationFailures a)(walletId := None)\<rparr>"

definition unbanWallet :: "string \<Rightarrow> agent \<Rightarrow> bool \<times> agent" where
  "unbanWallet walletId a =
     (if walletId \<in> bannedWallets a
      then (True, a\<lparr>bannedWallets := bannedWallets a - {walletId},
                    validationFailures := (validationFailures a)(walletId := None)\<rparr>)
      else (False, a))"

definition getPublicKeyForWallet :: "extern \<Rightarrow> string \<Rightarrow> agent \<Rightarrow> string option \<times> agent" where
  "getPublicKeyForWallet E walletId a =
     (case publicKeyDirectory a walletId of
        Some k \<Rightarrow> (Some k, a)
      | None \<Rightarrow>
          if getId E (agent_wallet a) = walletId
          then (Some (publicKey (agent_wallet a)),
                a\<lparr>publicKeyDirectory := (publicKeyDirectory a)(walletId \<mapsto> publicKey (agent_wallet a))\<rparr>)
          else (None, a))"

definition getReputationScore :: "agent \<Rightarrow> real" where
  "getReputationScore a = score (reputation a)"

text \<open>
  \<^verbatim>\<open>updateReputation\<close>: the score moves, the history is cut to its last 100 entries when
  it is longer than 100, and then the change is appended.
\<close>

definition updateReputation :: "nat \<Rightarrow> bool \<Rightarrow> real \<Rightarrow> agent \<Rightarrow> agent" where
  "updateReputation now wasSuccessful importance a =
     (let rep = reputation a;
          previousScore = score rep;
          rep1 = (if wasSuccessful
                  then rep\<lparr>successfulValidations := successfulValidations rep + 1,
                           score := min 100 (score rep + importance * (1/2 + ((100 - score rep) / 200)))\<rparr>
                  else rep\<lparr>failedValidations := failedValidations rep + 1,
                           score := max 0 (score rep - importance * (1/2 + (score rep / 200)) * 2)\<rparr>);
          reputationChange =
            \<lparr>rc_timestamp = now, rc_wasSuccessful = wasSuccessful,
             rc_previousScore = previousScore, rc_importance = importance,
             rc_newScore = score rep1, rc_change = score rep1 - previousScore\<rparr>;
          h = (if length (rep_history rep1) > 100
               then drop (length (rep_history rep1) - 100) (rep_history rep1)
               else rep_history rep1)
      in a\<lparr>reputation := rep1\<lparr>rep_history := h @ [reputationChange], lastUpdated := now\<rparr>\<rparr>)"

text \<open>
  \<^verbatim>\<open>_pruneCache\<close>: the entries are sorted by timestamp (the sort is stable) and the oldest
  are deleted until the cache is back at its maximum size.
\<close>

definition pruneCache :: "agent \<Rightarrow> agent" where
  "pruneCache a =
     (if length (recentTransactionCache a) \<le> maxCacheSize a then a
      else
        (let entries = sort_key (\<lambda>e. entry_timestamp (snd e)) (recentTransactionCache a);
             toRemove = take (length entries - maxCacheSize a) entries
         in a\<lparr>recentTransactionCache :=
                 fold (\<lambda>e c. AList.delete (fst e) c) toRemove (recentTransactionCache a)\<rparr>))"


subsection \<open>The validation pipeline\<close>

text \<open>
  The reasons of a negative verdict, in the order of the stages that give them:
  \<^item> \<open>MissingData\<close>: \<^verbatim>\<open>missing required transfer data\<close>;
  \<^item> \<open>Banned\<close>: \<^verbatim>\<open>sender wallet is banned due to suspicious activity\<close>;
  \<^item> \<open>IntegrityFailed\<close>: \<^verbatim>\<open>coin integrity check failed\<close>;
  \<^item> \<open>StatusNotActive s\<close>: \<^verbatim>\<open>coin status is s, not active\<close>;
  \<^item> \<open>ZeroValue\<close>: \<^verbatim>\<open>zero or negative value coin detected\<close>;
  \<^item> \<open>Inflated x y\<close>: \<^verbatim>\<open>coin value has been inflated from x to y\<close>;
  \<^item> \<open>ConfirmedDoubleSpend ts\<close>: \<^verbatim>\<open>confirmed double-spend detected (previous transfer: ...)\<close>,
    with \<^verbatim>\<open>previousTimestamp\<close> \<open>ts\<close>;
  \<^item> \<open>PossibleDoubleSpend\<close>: \<^verbatim>\<open>possible double-spend detected\<close>;
  \<^item> \<open>Expired\<close>: \<^verbatim>\<open>coin has expired\<close>;
  \<^item> \<open>Replay\<close>: \<^verbatim>\<open>transaction replay detected\<close>;
  \<^item> \<open>NoPublicKey\<close>: \<^verbatim>\<open>unable to retrieve sender public key\<close>;
  \<^item> \<open>InvalidSignature\<close>: \<^verbatim>\<open>invalid signature\<close>.
  A positive verdict carries the witness's wallet id, the time and its reputation score.
\<close>

datatype reason =
    MissingData | Banned | IntegrityFailed | StatusNotActive string | ZeroValue
  | Inflated int int | ConfirmedDoubleSpend nat | PossibleDoubleSpend | Expired | Replay
  | NoPublicKey | InvalidSignature

datatype validation = Valid string nat real | Invalid reason

fun valid :: "validation \<Rightarrow> bool" where
  "valid (Valid w ts r) = True"
| "valid (Invalid r) = False"

definition txHash_of :: "extern \<Rightarrow> coin \<Rightarrow> string \<Rightarrow> string \<Rightarrow> string \<Rightarrow> nat \<Rightarrow> string" where
  "txHash_of E c sender recipient signature timestamp =
     sha256 E (coin_id c @ ''-'' @ sender @ ''-'' @ recipient @ ''-'' @ signature @ ''-''
               @ show_nat timestamp @ ''-'' @ show_int (coin_value c))"

text \<open>The increments of the counters in \<^verbatim>\<open>this.stats\<close>.\<close>

definition bump_validations :: "agent \<Rightarrow> agent" where
  "bump_validations a =
     a\<lparr>agent_stats := (agent_stats a)
         \<lparr>validationsPerformed := validationsPerformed (agent_stats a) + 1\<rparr>\<rparr>"

definition bump_doubleSpends :: "agent \<Rightarrow> agent" where
  "bump_doubleSpends a =
     a\<lparr>agent_stats := (agent_stats a)
         \<lparr>doubleSpendsPrevented := doubleSpendsPrevented (agent_stats a) + 1\<rparr>\<rparr>"

definition bump_zeroBalance :: "agent \<Rightarrow> agent" where
  "bump_zeroBalance a =
     a\<lparr>agent_stats := (agent_stats a)
         \<lparr>zeroBalancePrevented := zeroBalancePrevented (agent_stats a) + 1\<rparr>\<rparr>"

definition bump_validSignatures :: "agent \<Rightarrow> agent" where
  "bump_validSignatures a =
     a\<lparr>agent_stats := (agent_stats a)
         \<lparr>validSignatures := validSignatures (agent_stats a) + 1\<rparr>\<rparr>"

definition bump_invalidSignatures :: "agent \<Rightarrow> agent" where
  "bump_invalidSignatures a =
     a\<lparr>agent_stats := (agent_stats a)
         \<lparr>invalidSignatures := invalidSignatures (agent_stats a) + 1\<rparr>\<rparr>"

text \<open>Stage 9 to 11 of the source: the accepting path, after the signature has verified.\<close>

definition accept ::
  "extern \<Rightarrow> nat \<Rightarrow> agent \<Rightarrow> coin \<Rightarrow> string \<Rightarrow> string \<Rightarrow> string \<Rightarrow> agent" where
  "accept E now a c sender recipient txHash =
     (let a1 = bump_validSignatures a;
          a2 = a1\<lparr>seenCoins := bloom_add E (seenCoins a1) (coin_id c)\<rparr>;
          a3 = a2\<lparr>recentTransactionCache :=
                    AList.update (coin_id c) (CoinEntry now txHash sender recipient (coin_value c))
                      (recentTransactionCache a2)\<rparr>;
          a4 = a3\<lparr>recentTransactionCache :=
                    AList.update txHash (TxEntry now (coin_id c)) (recentTransactionCache a3)\<rparr>;
          a5 = a4\<lparr>validatedValues := (validatedValues a4)(coin_id c \<mapsto> coin_value c)\<rparr>;
          a6 = pruneCache a5;
          a7 = resetValidationFailures sender a6
      in updateReputation now True 1 a7)"

text \<open>
  \<^verbatim>\<open>validateTransfer\<close>. The result is the verdict, the witness afterwards, and the intent
  with its coin as the call leaves it (\<^verbatim>\<open>verifyIntegrity\<close> rewrites the coin's hash). On
  intents of this type one expression of the source can throw: the text of the confirmed
  double-spend reason prints the cached time with \<^verbatim>\<open>toISOString\<close>, which raises a
  \<^verbatim>\<open>RangeError\<close> for a time beyond \<open>8.64 * 10^15\<close> milliseconds. The cached times are
  readings of \<^verbatim>\<open>Date.now()\<close>, which are below that bound; the clock readings \<open>now\<close> of
  this development stand for such readings, and the \<^verbatim>\<open>catch\<close> block of the source has no
  branch here.
\<close>

definition validateTransfer ::
  "extern \<Rightarrow> nat \<Rightarrow> agent \<Rightarrow> transfer_intent \<Rightarrow> validation \<times> agent \<times> transfer_intent" where
  "validateTransfer E now a0 t =
     (let a = bump_validations a0;
          signature = tr_signature t;
          sender = tr_sender t;
          recipient = tr_recipient t;
          timestamp = tr_timestamp t
      in
      case tr_coin t of
        None \<Rightarrow> (Invalid MissingData, a, t)
      | Some c0 \<Rightarrow>
        if signature = [] \<or> sender = [] \<or> recipient = [] then (Invalid MissingData, a, t)
        else if isWalletBanned a sender then (Invalid Banned, a, t)
        else
          (let intact = fst (verifyIntegrity E c0);
               c = snd (verifyIntegrity E c0);
               t' = t\<lparr>tr_coin := Some c\<rparr>
           in
           if \<not> intact then (Invalid IntegrityFailed, recordValidationFailure sender a, t')
           else if status c \<noteq> ''active'' then
             (Invalid (StatusNotActive (status c)), recordValidationFailure sender a, t')
           else if coin_value c \<le> 0 then
             (Invalid ZeroValue,
              recordValidationFailure sender (bump_zeroBalance a), t')
           else
             (case (case validatedValues a (coin_id c) of
                      None \<Rightarrow> None
                    | Some lastKnownValue \<Rightarrow>
                        if coin_value c > lastKnownValue then Some lastKnownValue else None) of
                Some lastKnownValue \<Rightarrow>
                  (Invalid (Inflated lastKnownValue (coin_value c)),
                   recordValidationFailure sender a, t')
              | None \<Rightarrow>
                if bloom_has E (seenCoins a) (coin_id c) then
                  (case map_of (recentTransactionCache a) (coin_id c) of
                     Some previous \<Rightarrow>
                       (Invalid (ConfirmedDoubleSpend (entry_timestamp previous)),
                        updateReputation now True 2
                          (recordValidationFailure sender (bump_doubleSpends a)), t')
                   | None \<Rightarrow>
                       (Invalid PossibleDoubleSpend,
                        updateReputation now True (3/2)
                          (recordValidationFailure sender (bump_doubleSpends a)), t'))
                else if expired now c then (Invalid Expired, a, t')
                else
                  (let txHash = txHash_of E c sender recipient signature timestamp in
                   if map_of (recentTransactionCache a) txHash \<noteq> None then
                     (Invalid Replay, recordValidationFailure sender a, t')
                   else
                     (let senderPublicKey = fst (getPublicKeyForWallet E sender a);
                          a1 = snd (getPublicKeyForWallet E sender a)
                      in
                      case senderPublicKey of
                        None \<Rightarrow> (Invalid NoPublicKey, a1, t')
                      | Some pk \<Rightarrow>
                          if pk = [] then (Invalid NoPublicKey, a1, t')
                          else if \<not> verify E (getSignatureData c recipient timestamp) signature pk
                          then
                            (Invalid InvalidSignature,
                             recordValidationFailure sender (bump_invalidSignatures a1), t')
                          else
                            (let a9 = accept E now a1 c sender recipient txHash
                             in (Valid (getId E (agent_wallet a9)) now (score (reputation a9)),
                                 a9, t')))))))"

text \<open>
  A witness validating one intent after another: the verdicts in order, and the witness
  at the end. Each step is an instant and the intent presented then.
\<close>

fun validate_seq ::
  "extern \<Rightarrow> agent \<Rightarrow> (nat \<times> transfer_intent) list \<Rightarrow> validation list \<times> agent" where
  "validate_seq E a [] = ([], a)"
| "validate_seq E a (s # ss) =
     (let r = validateTransfer E (fst s) a (snd s);
          rest = validate_seq E (fst (snd r)) ss
      in (fst r # fst rest, snd rest))"


section \<open>Network\<close>

datatype net_event =
    TransactionNew string
  | TransactionInvalid string reason
  | TransactionConfirmed string "int list"

record pending_validation =
  pv_validation :: validation
  pv_witnessId :: int
  pv_timestamp :: nat

record pending_tx =
  pt_transaction :: transfer_intent
  pt_witnesses :: "(int \<times> nat) list"
  pt_validations :: "pending_validation list"
  pt_timestamp :: nat
  pt_retries :: nat
  pt_status :: "string option"
  pt_failReason :: "reason option"

text \<open>
  The state of the orchestrator that transfers read and write: the roster, the pending
  transactions, the quorum size and the events emitted so far. Peers, timers and
  persistence are left out.
\<close>

record network =
  agents :: "agent list"
  pendingTransactions :: "string \<rightharpoonup> pending_tx"
  requiredWitnesses :: nat
  emitted :: "net_event list"

text \<open>
  What one call draws from \<^verbatim>\<open>Math.random()\<close>: the successive readings used by the weighted
  selection, and the order in which \<^verbatim>\<open>sort(() => 0.5 - Math.random())\<close> leaves a list.
\<close>

record random_source =
  draws :: "nat \<Rightarrow> real"
  shuffle :: "nat list \<Rightarrow> nat list"

fun findIndex :: "('a \<Rightarrow> bool) \<Rightarrow> 'a list \<Rightarrow> int" where
  "findIndex P [] = - 1"
| "findIndex P (x # xs) =
     (if P x then 0 else (let i = findIndex P xs in if i < 0 then - 1 else i + 1))"

text \<open>
  The loop of \<^verbatim>\<open>_weightedRandomSelection\<close>, and the function itself. The weights are
  reputation scores over their sum and so never negative. When they sum to 0 they are all
  0 (or all \<^verbatim>\<open>NaN\<close>, when the scores sum to 0), every quotient \<^verbatim>\<open>weight / sum\<close> is \<^verbatim>\<open>NaN\<close>,
  no comparison with \<^verbatim>\<open>NaN\<close> holds, and the loop falls through to the last index; a
  division by 0 being 0 in HOL, this case is written out.
\<close>

fun scan_weights :: "real list \<Rightarrow> real \<Rightarrow> nat \<Rightarrow> nat option" where
  "scan_weights [] random i = None"
| "scan_weights (w # ws) random i =
     (if random - w \<le> 0 then Some i else scan_weights ws (random - w) (Suc i))"

definition weightedRandomSelection :: "real list \<Rightarrow> real \<Rightarrow> int" where
  "weightedRandomSelection weights r =
     (let s = foldl (+) 0 weights;
          normalizedWeights = map (\<lambda>w. w / s) weights
      in if s = 0 then int (length normalizedWeights) - 1
         else case scan_weights normalizedWeights r 0 of
                Some i \<Rightarrow> int i
              | None \<Rightarrow> int (length normalizedWeights) - 1)"

text \<open>
  Witnesses are positions in the roster. The first loop of
  \<^verbatim>\<open>_getReputationBasedWitnesses\<close>: \<open>n\<close> rounds are left, \<open>k\<close> readings have been drawn.
\<close>

fun reputation_rounds ::
  "random_source \<Rightarrow> agent list \<Rightarrow> real \<Rightarrow> nat \<Rightarrow> nat \<Rightarrow> nat list \<Rightarrow> nat list
     \<Rightarrow> nat list \<times> nat list" where
  "reputation_rounds R ags totalPoints k 0 remaining selected = (selected, remaining)"
| "reputation_rounds R ags totalPoints k (Suc n) remaining selected =
     (if remaining = [] then (selected, remaining)
      else
        (let weights = map (\<lambda>p. getReputationScore (ags ! p) / totalPoints) remaining;
             selectedIndex = nat (weightedRandomSelection weights (draws R k))
         in reputation_rounds R ags totalPoints (Suc k) n
              (take selectedIndex remaining @ drop (Suc selectedIndex) remaining)
              (selected @ [remaining ! selectedIndex])))"

definition getReputationBasedWitnesses ::
  "random_source \<Rightarrow> agent list \<Rightarrow> nat list \<Rightarrow> nat \<Rightarrow> nat list" where
  "getReputationBasedWitnesses R ags availableAgents count =
     (if length availableAgents \<le> count then availableAgents
      else
        (let totalReputationPoints =
               foldl (\<lambda>s p. s + getReputationScore (ags ! p)) 0 availableAgents;
             reputationBasedCount = nat \<lceil>real count * 7 / 10\<rceil>;
             randomCount = count - reputationBasedCount;
             sel = reputation_rounds R ags totalReputationPoints 0 reputationBasedCount
                     availableAgents []
         in if randomCount > 0 \<and> snd sel \<noteq> []
            then fst sel @ take randomCount (shuffle R (snd sel))
            else fst sel))"

definition getRandomWitnesses ::
  "random_source \<Rightarrow> agent list \<Rightarrow> nat \<Rightarrow> int list \<Rightarrow> nat list" where
  "getRandomWitnesses R ags count exclude =
     (let availableAgents = filter (\<lambda>p. agent_id (ags ! p) \<notin> set exclude) [0..<length ags]
      in if length availableAgents \<le> count then availableAgents
         else getReputationBasedWitnesses R ags availableAgents count)"

text \<open>
  What \<^verbatim>\<open>_processTransaction\<close> returns: the bare transaction id (a string) when the quorum
  was already there or a witness said no, an object with status \<^verbatim>\<open>confirmed\<close> or
  \<^verbatim>\<open>pending\<close> otherwise. The three functions below read the properties \<^verbatim>\<open>status\<close>,
  \<^verbatim>\<open>txId\<close> and \<^verbatim>\<open>failReason\<close> as JavaScript does: a string has none of them.
\<close>

datatype process_result = TxIdOnly string | Confirmed string "int list" | Pending string nat

datatype 'a outcome = Thrown error | Returned 'a

fun result_status :: "process_result \<Rightarrow> string option" where
  "result_status (TxIdOnly x) = None"
| "result_status (Confirmed x ws) = Some ''confirmed''"
| "result_status (Pending x n) = Some ''pending''"

fun result_txId :: "process_result \<Rightarrow> string option" where
  "result_txId (TxIdOnly x) = None"
| "result_txId (Confirmed x ws) = Some x"
| "result_txId (Pending x n) = Some x"

fun result_failReason :: "process_result \<Rightarrow> reason option" where
  "result_failReason (TxIdOnly x) = None"
| "result_failReason (Confirmed x ws) = None"
| "result_failReason (Pending x n) = None"

definition txId_of :: "extern \<Rightarrow> coin \<Rightarrow> string \<Rightarrow> string \<Rightarrow> nat \<Rightarrow> string" where
  "txId_of E c sender recipient timestamp =
     sha256 E (coin_id c @ ''-'' @ sender @ ''-'' @ recipient @ ''-'' @ show_nat timestamp)"

text \<open>
  The loop over the selected witnesses. It stops at the first negative verdict, whose
  reason it returns with the roster, the pending record and the intent as they are then.
\<close>

fun consult ::
  "extern \<Rightarrow> nat \<Rightarrow> nat list \<Rightarrow> agent list \<Rightarrow> pending_tx \<Rightarrow> transfer_intent
     \<Rightarrow> reason option \<times> agent list \<times> pending_tx \<times> transfer_intent" where
  "consult E now [] ags ptx t = (None, ags, ptx, t)"
| "consult E now (w # ws) ags ptx t =
     (let witness = ags ! w;
          ptx1 = ptx\<lparr>pt_witnesses := pt_witnesses ptx @ [(agent_id witness, now)]\<rparr>;
          r = validateTransfer E now witness t;
          validation = fst r;
          ags' = ags[w := fst (snd r)];
          t' = snd (snd r);
          ptx2 = ptx1\<lparr>pt_validations := pt_validations ptx1 @
                   [\<lparr>pv_validation = validation, pv_witnessId = agent_id witness,
                     pv_timestamp = now\<rparr>]\<rparr>
      in case validation of
           Invalid why \<Rightarrow>
             (Some why, ags', ptx2\<lparr>pt_status := Some ''failed'', pt_failReason := Some why\<rparr>, t')
         | Valid wid ts sc \<Rightarrow> consult E now ws ags' ptx2 t')"

definition processTransaction ::
  "extern \<Rightarrow> nat \<Rightarrow> random_source \<Rightarrow> network \<Rightarrow> transfer_intent
     \<Rightarrow> process_result outcome \<times> network \<times> transfer_intent" where
  "processTransaction E now R net t =
     (case tr_coin t of
        None \<Rightarrow> (Thrown (Error ''TypeError''), net, t)
      | Some c \<Rightarrow>
        (let sender = tr_sender t;
             recipient = tr_recipient t;
             txId = txId_of E c sender recipient (tr_timestamp t);
             fresh = \<lparr>pt_transaction = t, pt_witnesses = [], pt_validations = [],
                      pt_timestamp = now, pt_retries = 0, pt_status = None,
                      pt_failReason = None\<rparr>;
             net1 = (case pendingTransactions net txId of
                       None \<Rightarrow> net\<lparr>pendingTransactions := (pendingTransactions net)(txId \<mapsto> fresh),
                                   emitted := emitted net @ [TransactionNew txId]\<rparr>
                     | Some p \<Rightarrow> net);
             pendingTx = (case pendingTransactions net txId of None \<Rightarrow> fresh | Some p \<Rightarrow> p)
         in
         if length (filter (\<lambda>v. valid (pv_validation v)) (pt_validations pendingTx))
              \<ge> requiredWitnesses net1
         then (Returned (TxIdOnly txId), net1, t)
         else
           (let senderAgentIndex = findIndex (\<lambda>a. getId E (agent_wallet a) = sender) (agents net1);
                recipientAgentIndex =
                  findIndex (\<lambda>a. getId E (agent_wallet a) = recipient) (agents net1);
                witnesses = getRandomWitnesses R (agents net1) (requiredWitnesses net1)
                              ([senderAgentIndex, recipientAgentIndex] @ map fst (pt_witnesses pendingTx));
                res = consult E now witnesses (agents net1) pendingTx t;
                ags' = fst (snd res);
                ptx' = fst (snd (snd res));
                t' = snd (snd (snd res));
                net2 = net1\<lparr>agents := ags',
                            pendingTransactions := (pendingTransactions net1)(txId \<mapsto> ptx')\<rparr>
            in
            case fst res of
              Some why \<Rightarrow>
                (Returned (TxIdOnly txId),
                 net2\<lparr>emitted := emitted net2 @ [TransactionInvalid txId why]\<rparr>, t')
            | None \<Rightarrow>
                (let validWitnesses = filter (\<lambda>v. valid (pv_validation v)) (pt_validations ptx') in
                 if length validWitnesses \<ge> requiredWitnesses net2 then
                   (let witnessIds = map pv_witnessId validWitnesses in
                    case tr_coin t' of
                      None \<Rightarrow> (Thrown (Error ''TypeError''), net2, t')
                    | Some c' \<Rightarrow>
                       (case Coin_transfer E now c' recipient (tr_signature t') witnessIds of
                          Inl ec \<Rightarrow> (Thrown (fst ec), net2, t'\<lparr>tr_coin := Some (snd ec)\<rparr>)
                        | Inr c'' \<Rightarrow>
                            (let i = findIndex (\<lambda>a. getId E (agent_wallet a) = recipient) ags';
                                 ags'' = (if i < 0 then ags'
                                          else ags'[nat i := (ags' ! nat i)
                                                 \<lparr>agent_wallet :=
                                                    snd (addCoin E now c'' (agent_wallet (ags' ! nat i)))\<rparr>])
                             in (Returned (Confirmed txId witnessIds),
                                 net2\<lparr>agents := ags'',
                                      pendingTransactions := (pendingTransactions net2)(txId := None),
                                      emitted := emitted net2 @ [TransactionConfirmed txId witnessIds]\<rparr>,
                                 t'\<lparr>tr_coin := Some c''\<rparr>))))
                 else (Returned (Pending txId (length validWitnesses)), net2, t')))))"

datatype transfer_reason =
  InvalidAgentIds | CoinNotFound | TransactionFailed | WitnessReason reason

record transfer_result =
  success :: bool
  res_txId :: "string option"
  res_reason :: "transfer_reason option"

text \<open>
  \<^verbatim>\<open>Network.transferCoin\<close>. The rollback branch is taken when the result of
  \<^verbatim>\<open>_processTransaction\<close> has the property \<^verbatim>\<open>status\<close> equal to \<^verbatim>\<open>failed\<close>.
\<close>

definition Network_transferCoin ::
  "extern \<Rightarrow> nat \<Rightarrow> random_source \<Rightarrow> network \<Rightarrow> nat \<Rightarrow> nat \<Rightarrow> int
     \<Rightarrow> transfer_result outcome \<times> network" where
  "Network_transferCoin E now R net fromAgentId toAgentId coinIndex =
     (if \<not> (fromAgentId < length (agents net) \<and> toAgentId < length (agents net)) then
        (Returned \<lparr>success = False, res_txId = None, res_reason = Some InvalidAgentIds\<rparr>, net)
      else
        (let sender = agents net ! fromAgentId;
             recipient = agents net ! toAgentId;
             recipientId = getId E (agent_wallet recipient);
             tw = Wallet_transferCoin E now (agent_wallet sender) coinIndex recipientId
         in
         case fst tw of
           None \<Rightarrow>
             (Returned \<lparr>success = False, res_txId = None, res_reason = Some CoinNotFound\<rparr>, net)
         | Some t \<Rightarrow>
             (let net1 = net\<lparr>agents := (agents net)[fromAgentId := sender\<lparr>agent_wallet := snd tw\<rparr>]\<rparr>;
                  pr = processTransaction E now R net1 t;
                  net2 = fst (snd pr);
                  t' = snd (snd pr)
              in
              case fst pr of
                Thrown e \<Rightarrow> (Thrown e, net2)
              | Returned result \<Rightarrow>
                  if result_status result = Some ''failed'' then
                    (let s = agents net2 ! fromAgentId;
                         w' = (case tr_coin t' of
                                 None \<Rightarrow> agent_wallet s
                               | Some c \<Rightarrow> snd (addCoin E now c (agent_wallet s)))
                     in (Returned \<lparr>success = False, res_txId = None,
                                   res_reason = Some (case result_failReason result of
                                                        Some why \<Rightarrow> WitnessReason why
                                                      | None \<Rightarrow> TransactionFailed)\<rparr>,
                         net2\<lparr>agents := (agents net2)[fromAgentId := s\<lparr>agent_wallet := w'\<rparr>]\<rparr>))
                  else
                    (Returned \<lparr>success = True, res_txId = result_txId result, res_reason = None\<rparr>,
                     net2))))"

text \<open>
  The registration loop of \<^verbatim>\<open>initialize\<close>: the public key of every agent is registered,
  under its wallet id, with every agent of the roster.
\<close>

definition register_all_keys :: "extern \<Rightarrow> agent list \<Rightarrow> agent list" where
  "register_all_keys E ags =
     fold (\<lambda>a acc. map (registerPublicKey (getId E (agent_wallet a)) (publicKey (agent_wallet a))) acc)
       ags ags"

section \<open>Test fixtures\<close>

text \<open>
  An idealised environment for running the model on concrete inputs: digests are
  collision-free (the digest of \<open>s\<close> is \<open>h(s)\<close>), the key pair number \<open>n\<close> is
  \<open>pkn\<close>/\<open>skn\<close>, a signature spells out the private key (after its length) and the
  signed text, and verifies only against that text and the matching public key; the Bloom
  filter keeps one bit per element.
\<close>

definition ideal_sign :: "string \<Rightarrow> string \<Rightarrow> string" where
  "ideal_sign d k = show_nat (length k) @ '':'' @ k @ '':'' @ d"

definition ideal :: extern where
  "ideal =
     \<lparr>sha256 = (\<lambda>s. ''h('' @ s @ '')''),
      sign = ideal_sign,
      verify = (\<lambda>d s p. take 2 p = ''pk'' \<and> s = ideal_sign d (''sk'' @ drop 2 p)),
      bloom_idx = (\<lambda>x. [foldl (\<lambda>n c. 256 * n + of_char c) 1 x])\<rparr>"

text \<open>Agent number \<open>k\<close> as the constructor leaves it, at time 0.\<close>

definition agent_k :: "nat \<Rightarrow> agent" where
  "agent_k k = new_Agent 0 (int k) (''pk'' @ show_nat k) (''sk'' @ show_nat k)"

text \<open>The coin \<^verbatim>\<open>new Coin(agents[0].wallet.getId(), 5, 'X')\<close> made at time 1000.\<close>

definition coinX :: coin where
  "coinX =
     updateHash ideal
       \<lparr>coin_id = ''X'', ownerId = getId ideal (agent_wallet (agent_k 0)), coin_value = 5,
        history = [], created = 1000, lastTransferred = 1000,
        coin_metadata = \<lparr>md_expiryDate = None\<rparr>, version = ''1.0.0'', status = ''active'',
        expiryDate = None, hash = []\<rparr>"

text \<open>A sequence of \<^verbatim>\<open>updateReputation\<close> calls: the time, the outcome and the importance of each.\<close>

fun apply_updates :: "agent \<Rightarrow> (nat \<times> bool \<times> real) list \<Rightarrow> agent" where
  "apply_updates a [] = a"
| "apply_updates a (u # us) =
     apply_updates (updateReputation (fst u) (fst (snd u)) (snd (snd u)) a) us"

text \<open>Serialised data with every property present, a value of 5 and no stored hash.\<close>

definition dataX :: coin_json where
  "dataX = (toJSON coinX)\<lparr>j_hash := None\<rparr>"

section \<open>Notions used in the statements\<close>

text \<open>
  The reasons whose stage calls \<^verbatim>\<open>recordValidationFailure\<close> before it returns (the
  counter-bumping failures).
\<close>

fun counter_bumping :: "validation \<Rightarrow> bool" where
  "counter_bumping (Valid w ts sc) = False"
| "counter_bumping (Invalid MissingData) = False"
| "counter_bumping (Invalid Banned) = False"
| "counter_bumping (Invalid IntegrityFailed) = True"
| "counter_bumping (Invalid (StatusNotActive s)) = True"
| "counter_bumping (Invalid ZeroValue) = True"
| "counter_bumping (Invalid (Inflated x y)) = True"
| "counter_bumping (Invalid (ConfirmedDoubleSpend ts)) = True"
| "counter_bumping (Invalid PossibleDoubleSpend) = True"
| "counter_bumping (Invalid Expired) = False"
| "counter_bumping (Invalid Replay) = True"
| "counter_bumping (Invalid NoPublicKey) = False"
| "counter_bumping (Invalid InvalidSignature) = True"

text \<open>
  In a run of validations with its verdicts: the number of counter-bumping failures of
  intents sent by \<open>W\<close>, and the number of intents sent by \<open>W\<close> that were found valid.
\<close>

fun bumps_for :: "string \<Rightarrow> (nat \<times> transfer_intent) list \<Rightarrow> validation list \<Rightarrow> nat" where
  "bumps_for W (s # ss) (r # rs) =
     (if tr_sender (snd s) = W \<and> counter_bumping r then 1 else 0) + bumps_for W ss rs"
| "bumps_for W ss rs = 0"

fun successes_for :: "string \<Rightarrow> (nat \<times> transfer_intent) list \<Rightarrow> validation list \<Rightarrow> nat" where
  "successes_for W (s # ss) (r # rs) =
     (if tr_sender (snd s) = W \<and> valid r then 1 else 0) + successes_for W ss rs"
| "successes_for W ss rs = 0"

text \<open>The shape check of stage 1: coin, signature, sender and recipient are present.\<close>

definition shape_ok :: "transfer_intent \<Rightarrow> bool" where
  "shape_ok t =
     (tr_coin t \<noteq> None \<and> tr_signature t \<noteq> [] \<and> tr_sender t \<noteq> [] \<and> tr_recipient t \<noteq> [])"

text \<open>The failure count a witness holds for a wallet (0 when it holds none).\<close>

definition failure_count :: "agent \<Rightarrow> string \<Rightarrow> nat" where
  "failure_count a W = (case validationFailures a W of None \<Rightarrow> 0 | Some n \<Rightarrow> n)"

text \<open>
  The intent \<open>t\<close> carries the coin \<open>c\<close> and passes the stages before the replay check at
  witness \<open>a\<close>: shape, ban, status, value, inflation, double spend and expiry.
\<close>

definition not_inflated :: "agent \<Rightarrow> coin \<Rightarrow> bool" where
  "not_inflated a c =
     (case validatedValues a (coin_id c) of None \<Rightarrow> True | Some v \<Rightarrow> coin_value c \<le> v)"

definition fresh_for :: "extern \<Rightarrow> nat \<Rightarrow> agent \<Rightarrow> transfer_intent \<Rightarrow> coin \<Rightarrow> bool" where
  "fresh_for E now a t c =
     (shape_ok t \<and> tr_coin t = Some c \<and> tr_sender t \<notin> bannedWallets a
      \<and> status c = ''active'' \<and> 0 < coin_value c \<and> not_inflated a c
      \<and> \<not> bloom_has E (seenCoins a) (coin_id c) \<and> \<not> expired now c)"

section \<open>Concrete witnesses and intents\<close>

text \<open>
  Agent 2 as a witness that has the sender's public key in its directory (registered under
  the wallet id of agent 0, as \<^verbatim>\<open>registerPublicKey\<close> does).
\<close>

definition witness2 :: agent where
  "witness2 = registerPublicKey (getId ideal (agent_wallet (agent_k 0))) ''pk0'' (agent_k 2)"

text \<open>
  An intent for \<open>coinX\<close> from agent 0 to agent 1 whose signature was made over the payload
  that a witness verifies, \<^verbatim>\<open>coin.getSignatureData(recipient, timestamp)\<close>.
\<close>

definition signed_intent :: transfer_intent where
  "signed_intent =
     \<lparr>tr_coin = Some coinX,
      tr_signature = sign ideal (getSignatureData coinX (getId ideal (agent_wallet (agent_k 1))) 2000)
                       ''sk0'',
      tr_sender = getId ideal (agent_wallet (agent_k 0)),
      tr_recipient = getId ideal (agent_wallet (agent_k 1)),
      tr_timestamp = 2000\<rparr>"

text \<open>The same intent with the coin's value overwritten to 50.\<close>

definition inflated_intent :: transfer_intent where
  "inflated_intent = signed_intent\<lparr>tr_coin := Some (coinX\<lparr>coin_value := 50\<rparr>)\<rparr>"

text \<open>The same, with the coin's status overwritten as well.\<close>

definition spent_inflated_intent :: transfer_intent where
  "spent_inflated_intent =
     signed_intent\<lparr>tr_coin := Some (coinX\<lparr>coin_value := 50, status := ''spent''\<rparr>)\<rparr>"

text \<open>An intent of agent 0 for a coin whose value was overwritten to 0, and one without a signature.\<close>

definition zero_intent :: transfer_intent where
  "zero_intent = signed_intent\<lparr>tr_coin := Some (coinX\<lparr>coin_value := 0\<rparr>)\<rparr>"

definition unsigned_intent :: transfer_intent where
  "unsigned_intent = signed_intent\<lparr>tr_signature := []\<rparr>"

text \<open>Five presentations of the zero-value intent, at the times 2001 to 2005.\<close>

definition five_failures :: "(nat \<times> transfer_intent) list" where
  "five_failures =
     [(2001, zero_intent), (2002, zero_intent), (2003, zero_intent), (2004, zero_intent),
      (2005, zero_intent)]"

text \<open>The witness after it has accepted \<open>signed_intent\<close> at time 2000.\<close>

definition witness2_after :: agent where
  "witness2_after = fst (snd (validateTransfer ideal 2000 witness2 signed_intent))"

text \<open>The witness after the five failures.\<close>

definition witness2_banning :: agent where
  "witness2_banning = snd (validate_seq ideal witness2 five_failures)"

text \<open>
  The witness after it has accepted \<open>signed_intent\<close> and then rejected the inflated intent
  at time 2500, and after it has accepted \<open>signed_intent\<close> and then seen the five failures.
\<close>

definition witness2_later :: agent where
  "witness2_later = snd (validate_seq ideal witness2_after [(2500, inflated_intent)])"

definition witness2_after_banning :: agent where
  "witness2_after_banning = snd (validate_seq ideal witness2_after five_failures)"

text \<open>The inflated intent without a signature.\<close>

definition unsigned_inflated_intent :: transfer_intent where
  "unsigned_inflated_intent = inflated_intent\<lparr>tr_signature := []\<rparr>"

text \<open>
  A witness whose table of validated values holds \<open>-1\<close> for coin X. No validation
  writes such an entry (only a positive value is ever recorded); the state serves to
  evaluate the zero-value stage on a coin whose value exceeds the recorded one.
\<close>

definition witness2_negative :: agent where
  "witness2_negative = witness2\<lparr>validatedValues := (validatedValues witness2)(''X'' \<mapsto> - 1)\<rparr>"

section \<open>Concrete networks\<close>

text \<open>Agent 0 holding the given coins.\<close>

definition holder :: "coin list \<Rightarrow> agent" where
  "holder cs = (agent_k 0)\<lparr>agent_wallet := (agent_wallet (agent_k 0))\<lparr>coins := cs\<rparr>\<rparr>"

text \<open>
  Scenario A: five agents, quorum 3, every public key registered with every agent;
  agent 0 holds \<open>coinX\<close>, received through \<^verbatim>\<open>addCoin\<close> at time 1000.
\<close>

definition first_holder :: agent where
  "first_holder =
     (agent_k 0)\<lparr>agent_wallet := snd (addCoin ideal 1000 coinX (agent_wallet (agent_k 0)))\<rparr>"

definition happy_net :: network where
  "happy_net =
     \<lparr>agents = register_all_keys ideal (first_holder # map agent_k [1, 2, 3, 4]),
      pendingTransactions = Map.empty, requiredWitnesses = 3, emitted = []\<rparr>"

text \<open>
  The same network where the coin agent 0 holds has had its value overwritten to 0 (the
  zero-value attack of the simulation: \<^verbatim>\<open>coin.value = 0\<close>).
\<close>

definition zero_net :: network where
  "zero_net =
     \<lparr>agents = register_all_keys ideal (holder [coinX\<lparr>coin_value := 0\<rparr>] # map agent_k [1, 2, 3, 4]),
      pendingTransactions = Map.empty, requiredWitnesses = 3, emitted = []\<rparr>"

text \<open>
  Scenario D: all five agents at score 100 with no history; the malicious agent 0 holds
  30 forged coins of value 0 and sends them to agent 1 one after the other, the transfer
  number \<open>k\<close> at time \<open>2000 + k\<close>.
\<close>

definition drift_net :: network where
  "drift_net =
     \<lparr>agents = register_all_keys ideal
        (holder (replicate 30 (coinX\<lparr>coin_value := 0\<rparr>)) # map agent_k [1, 2, 3, 4]),
      pendingTransactions = Map.empty, requiredWitnesses = 3, emitted = []\<rparr>"

fun forged_run :: "random_source \<Rightarrow> nat \<Rightarrow> network" where
  "forged_run R 0 = drift_net"
| "forged_run R (Suc k) = snd (Network_transferCoin ideal (2000 + k) R (forged_run R k) 0 1 0)"

fun is_invalid_event :: "net_event \<Rightarrow> bool" where
  "is_invalid_event (TransactionInvalid x why) = True"
| "is_invalid_event e = False"

fun is_confirmed_event :: "net_event \<Rightarrow> bool" where
  "is_confirmed_event (TransactionConfirmed x ws) = True"
| "is_confirmed_event e = False"

text \<open>What holds of the network of scenario D after \<open>k\<close> of the transfers.\<close>

definition drift_state :: "nat \<Rightarrow> network \<Rightarrow> bool" where
  "drift_state k net =
     (\<exists>m b1 w b3 b4.
        agents net = [m, b1, w, b3, b4]
        \<and> agent_id m = 0 \<and> agent_id b1 = 1 \<and> agent_id w = 2 \<and> agent_id b3 = 3 \<and> agent_id b4 = 4
        \<and> getId ideal (agent_wallet m) = ''h(pk0)'' \<and> getId ideal (agent_wallet b1) = ''h(pk1)''
        \<and> coins (agent_wallet m) = replicate (30 - k) (coinX\<lparr>coin_value := 0\<rparr>)
        \<and> map (\<lambda>a. score (reputation a)) [m, b1, w, b3, b4] = [100, 100, 100, 100, 100]
        \<and> requiredWitnesses net = 3
        \<and> (\<forall>x. pendingTransactions net x \<noteq> None \<longrightarrow>
               (\<exists>j<k. x = txId_of ideal (coinX\<lparr>coin_value := 0\<rparr>) ''h(pk0)'' ''h(pk1)'' (2000 + j)))
        \<and> length (filter is_invalid_event (emitted net)) = k
        \<and> filter is_confirmed_event (emitted net) = [])"

text \<open>An agent after the public keys of the five agents have been registered with it.\<close>

definition keyed :: "agent \<Rightarrow> agent" where
  "keyed a =
     fold (\<lambda>k. registerPublicKey (getId ideal (agent_wallet (agent_k k)))
                 (publicKey (agent_wallet (agent_k k))))
       [0, 1, 2, 3, 4] a"

text \<open>The intent \<^verbatim>\<open>Wallet.transferCoin\<close> makes for coin \<open>c\<close> of agent 0, to agent 1.\<close>

definition wallet_intent :: "coin \<Rightarrow> nat \<Rightarrow> transfer_intent" where
  "wallet_intent c now =
     \<lparr>tr_coin = Some c,
      tr_signature = sign ideal (signData ideal (agent_wallet (agent_k 0)) c ''h(pk1)'' now) ''sk0'',
      tr_sender = ''h(pk0)'', tr_recipient = ''h(pk1)'', tr_timestamp = now\<rparr>"

section \<open>Properties of the coin\<close>

lemma verifyIntegrity_true: "fst (verifyIntegrity E c)"
  by (simp add: verifyIntegrity_def Let_def)

lemma verifyIntegrity_coin: "snd (verifyIntegrity E c) = updateHash E c"
  by (simp add: verifyIntegrity_def Let_def)

lemma new_Coin_coinX:
  "new_Coin ideal 1000 u (getId ideal (agent_wallet (agent_k 0))) (JNum 5) (Some ''X'')
     \<lparr>md_expiryDate = None\<rparr> = Inr coinX"
  by (simp add: new_Coin_def coinX_def)

text \<open>
  C3 (the code departs from the claim). The coin \<open>coinX\<close> with its value overwritten from 5
  to 500, as a direct assignment to \<^verbatim>\<open>coin.value\<close> leaves it: the stored hash differs from
  the hash recomputed over the current fields, and \<^verbatim>\<open>verifyIntegrity\<close> returns true all the
  same. Its serialisation carries the stale hash; \<^verbatim>\<open>fromJSON\<close> prints the mismatch warning,
  and the integrity check of the deserialised coin passes although the serialised hash did
  not match.
\<close>

theorem verifyIntegrity_accepts_tampered_coin:
  "hash (coinX\<lparr>coin_value := 500\<rparr>) \<noteq> sha256 ideal (hash_payload (coinX\<lparr>coin_value := 500\<rparr>))
   \<and> fst (verifyIntegrity ideal (coinX\<lparr>coin_value := 500\<rparr>))
   \<and> (\<exists>c. fromJSON ideal 3000 u (toJSON (coinX\<lparr>coin_value := 500\<rparr>)) = Inr (c, True)
          \<and> fst (verifyIntegrity ideal c))"
proof -
  have stale:
    "hash (coinX\<lparr>coin_value := 500\<rparr>) \<noteq> sha256 ideal (hash_payload (coinX\<lparr>coin_value := 500\<rparr>))"
    by (simp add: coinX_def updateHash_def hash_payload_def ideal_def json_key_def
        json_string_def json_char_def show_int_def show_nat.simps digit_char_def)
  have "\<exists>c. fromJSON ideal 3000 u (toJSON (coinX\<lparr>coin_value := 500\<rparr>)) = Inr (c, True)"
    using stale
    by (simp add: fromJSON_def toJSON_def new_Coin_def Let_def updateHash_def hash_payload_def
        coinX_def)
  then show ?thesis
    using stale verifyIntegrity_true by blast
qed

text \<open>
  C10. \<^verbatim>\<open>Coin.fromJSON\<close> never returns a coin whose value is zero or negative; data whose
  value is 0, missing (undefined) or null deserialises to a coin of value 1 and no error;
  data with a negative value \<open>n\<close> makes the constructor throw
  \<^verbatim>\<open>Coin value must be a positive number\<close>.
\<close>

theorem fromJSON_value_positive:
  assumes "n < 0"
  shows "(\<forall>c w. fromJSON E now uuid d = Inr (c, w) \<longrightarrow> 0 < coin_value c)
       \<and> (\<exists>c w. fromJSON E now uuid (d\<lparr>j_value := JNum 0\<rparr>) = Inr (c, w) \<and> coin_value c = 1)
       \<and> (\<exists>c w. fromJSON E now uuid (d\<lparr>j_value := JUndefined\<rparr>) = Inr (c, w) \<and> coin_value c = 1)
       \<and> (\<exists>c w. fromJSON E now uuid (d\<lparr>j_value := JNull\<rparr>) = Inr (c, w) \<and> coin_value c = 1)
       \<and> fromJSON E now uuid (d\<lparr>j_value := JNum n\<rparr>)
           = Inl (Error ''Coin value must be a positive number'')"
proof -
  have pos: "\<forall>c w. fromJSON E now uuid d = Inr (c, w) \<longrightarrow> 0 < coin_value c"
    by (auto simp: fromJSON_def new_Coin_def Let_def updateHash_def
        split: sum.splits jsval.splits if_splits)
  have zero: "\<exists>c w. fromJSON E now uuid (d\<lparr>j_value := JNum 0\<rparr>) = Inr (c, w) \<and> coin_value c = 1"
    by (simp add: fromJSON_def new_Coin_def Let_def updateHash_def)
  have undef:
    "\<exists>c w. fromJSON E now uuid (d\<lparr>j_value := JUndefined\<rparr>) = Inr (c, w) \<and> coin_value c = 1"
    by (simp add: fromJSON_def new_Coin_def Let_def updateHash_def)
  have null: "\<exists>c w. fromJSON E now uuid (d\<lparr>j_value := JNull\<rparr>) = Inr (c, w) \<and> coin_value c = 1"
    by (simp add: fromJSON_def new_Coin_def Let_def updateHash_def)
  have neg: "fromJSON E now uuid (d\<lparr>j_value := JNum n\<rparr>)
               = Inl (Error ''Coin value must be a positive number'')"
    using assms by (simp add: fromJSON_def new_Coin_def Let_def)
  from pos zero undef null neg show ?thesis by blast
qed

theorem fromJSON_value_positive_witness:
  "(- 3 :: int) < 0
   \<and> (\<exists>c. fromJSON ideal 3000 ''u'' dataX = Inr (c, True) \<and> 0 < coin_value c)
   \<and> fromJSON ideal 3000 ''u'' (dataX\<lparr>j_value := JNum (- 3)\<rparr>)
       = Inl (Error ''Coin value must be a positive number'')"
proof -
  have neg: "(- 3 :: int) < 0" by simp
  have ok: "\<exists>c. fromJSON ideal 3000 ''u'' dataX = Inr (c, True)"
    by (simp add: fromJSON_def dataX_def toJSON_def new_Coin_def Let_def coinX_def updateHash_def)
  show ?thesis
    using neg ok fromJSON_value_positive [OF neg, of ideal 3000 "''u''" dataX] by auto
qed

section \<open>Properties of the reputation score\<close>

lemma updateReputation_score_bounds:
  assumes "0 \<le> score (reputation a)" and "score (reputation a) \<le> 100" and "0 \<le> importance"
  shows "0 \<le> score (reputation (updateReputation now ok importance a))
       \<and> score (reputation (updateReputation now ok importance a)) \<le> 100"
proof (cases ok)
  case True
  have "0 \<le> importance * (1 / 2 + (100 - score (reputation a)) / 200)"
    using assms by (intro mult_nonneg_nonneg) auto
  then show ?thesis
    using True assms by (simp add: updateReputation_def Let_def)
next
  case False
  have "0 \<le> importance * (1 / 2 + score (reputation a) / 200)"
    using assms by (intro mult_nonneg_nonneg) auto
  then have "score (reputation a) - importance * (1 / 2 + score (reputation a) / 200) * 2 \<le> 100"
    using assms(2) by linarith
  then show ?thesis
    using False by (simp add: updateReputation_def Let_def)
qed

text \<open>
  C7. Starting from any score in [0, 100], the score is in [0, 100] after any sequence of
  \<^verbatim>\<open>updateReputation\<close> calls whose importance is not negative; the validation pipeline
  calls it with the importances 2, 1.5, 1 (success) and 0.5 (failure).
\<close>

theorem reputation_score_bounded:
  assumes "0 \<le> score (reputation a)" and "score (reputation a) \<le> 100"
    and "\<forall>u \<in> set us. 0 \<le> snd (snd u)"
  shows "0 \<le> score (reputation (apply_updates a us))
       \<and> score (reputation (apply_updates a us)) \<le> 100"
  using assms
proof (induction us arbitrary: a)
  case Nil
  then show ?case by simp
next
  case (Cons u us)
  have "0 \<le> snd (snd u)" using Cons.prems(3) by simp
  then have step: "0 \<le> score (reputation (updateReputation (fst u) (fst (snd u)) (snd (snd u)) a))
      \<and> score (reputation (updateReputation (fst u) (fst (snd u)) (snd (snd u)) a)) \<le> 100"
    using updateReputation_score_bounds Cons.prems(1,2) by blast
  have "\<forall>u \<in> set us. 0 \<le> snd (snd u)" using Cons.prems(3) by simp
  then show ?case
    using Cons.IH step by simp
qed

theorem reputation_score_bounded_witness:
  "0 \<le> score (reputation (agent_k 0)) \<and> score (reputation (agent_k 0)) \<le> 100
   \<and> 0 \<le> score (reputation (apply_updates (agent_k 0)
              [(1, True, 2), (2, True, 3 / 2), (3, True, 1), (4, False, 1 / 2)]))
   \<and> score (reputation (apply_updates (agent_k 0)
              [(1, True, 2), (2, True, 3 / 2), (3, True, 1), (4, False, 1 / 2)])) \<le> 100"
proof -
  have lo: "0 \<le> score (reputation (agent_k 0))"
    by (simp add: agent_k_def new_Agent_def)
  have hi: "score (reputation (agent_k 0)) \<le> 100"
    by (simp add: agent_k_def new_Agent_def)
  have imp: "\<forall>u \<in> set [(1::nat, True, 2::real), (2, True, 3 / 2), (3, True, 1), (4, False, 1 / 2)].
               0 \<le> snd (snd u)"
    by simp
  show ?thesis
    using lo hi reputation_score_bounded [OF lo hi imp] by simp
qed

lemma updateReputation_history_length:
  "length (rep_history (reputation (updateReputation now ok importance a)))
     = min (length (rep_history (reputation a))) 100 + 1"
  by (simp add: updateReputation_def Let_def)

lemma apply_updates_history_length:
  "us \<noteq> [] \<Longrightarrow>
   length (rep_history (reputation (apply_updates a us)))
     = min (length (rep_history (reputation a)) + length us) 101"
proof (induction us arbitrary: a)
  case Nil
  then show ?case by simp
next
  case (Cons u us)
  show ?case
  proof (cases "us = []")
    case True
    then show ?thesis by (simp add: updateReputation_history_length)
  next
    case False
    then show ?thesis
      using Cons.IH [of "updateReputation (fst u) (fst (snd u)) (snd (snd u)) a"]
      by (simp add: updateReputation_history_length)
  qed
qed

text \<open>
  C9 (the code departs from the claim). A new agent after 101 calls of
  \<^verbatim>\<open>updateReputation\<close> has 101 entries in its reputation history: the history is cut to
  100 entries only when it is longer than 100, and the new entry is appended after the cut.
\<close>

theorem reputation_history_reaches_101:
  "length (rep_history (reputation (apply_updates (agent_k 0) (replicate 101 (1, True, 1))))) = 101"
proof -
  have "rep_history (reputation (agent_k 0)) = []"
    by (simp add: agent_k_def new_Agent_def)
  moreover have "replicate 101 (1::nat, True, 1::real) \<noteq> []"
    by simp
  ultimately show ?thesis
    using apply_updates_history_length
      [of "replicate 101 (1::nat, True, 1::real)" "agent_k 0"]
    by simp
qed

section \<open>Properties of the decimal rendering\<close>

lemma digit_char_inj:
  assumes "d < 10" and "d' < 10" and "digit_char d = digit_char d'"
  shows "d = d'"
proof -
  have "distinct ''0123456789''" by simp
  moreover have "d < length ''0123456789''" "d' < length ''0123456789''"
    using assms(1,2) by simp_all
  ultimately show ?thesis
    using assms(3) by (simp only: digit_char_def nth_eq_iff_index_eq)
qed

lemma digit_char_in_digits: "d < 10 \<Longrightarrow> digit_char d \<in> set ''0123456789''"
  unfolding digit_char_def by (rule nth_mem) simp

lemma show_nat_last: "show_nat n \<noteq> [] \<and> last (show_nat n) = digit_char (n mod 10)"
  by (subst (1 2) show_nat.simps) simp

lemma show_nat_inj: "show_nat m = show_nat n \<Longrightarrow> m = n"
proof (induction m arbitrary: n rule: show_nat.induct)
  case (1 m)
  have lm: "digit_char (m mod 10) = digit_char (n mod 10)"
    using "1.prems" show_nat_last [of m] show_nat_last [of n] by simp
  have units: "m mod 10 = n mod 10"
    using lm by (intro digit_char_inj) simp_all
  show ?case
  proof (cases "m < 10")
    case small: True
    show ?thesis
    proof (cases "n < 10")
      case True
      then show ?thesis using small units by simp
    next
      case False
      then have "show_nat n = show_nat (n div 10) @ [digit_char (n mod 10)]"
        by (subst show_nat.simps) simp
      moreover have "show_nat m = [digit_char m]"
        using small by (subst show_nat.simps) simp
      ultimately show ?thesis
        using "1.prems" show_nat_last [of "n div 10"] by simp
    qed
  next
    case big: False
    then have m: "show_nat m = show_nat (m div 10) @ [digit_char (m mod 10)]"
      by (subst show_nat.simps) simp
    show ?thesis
    proof (cases "n < 10")
      case True
      then have "show_nat n = [digit_char n]"
        by (subst show_nat.simps) simp
      then show ?thesis
        using m "1.prems" show_nat_last [of "m div 10"] by simp
    next
      case False
      then have "show_nat n = show_nat (n div 10) @ [digit_char (n mod 10)]"
        by (subst show_nat.simps) simp
      then have "show_nat (m div 10) = show_nat (n div 10)"
        using m "1.prems" by simp
      then have "m div 10 = n div 10"
        using "1.IH" big by blast
      then show ?thesis
        using units by (metis div_mult_mod_eq)
    qed
  qed
qed

text \<open>
  The text \<^verbatim>\<open>Wallet.transferCoin\<close> signs ends in the last digit of the time; the text a
  witness verifies for an active coin ends in the status \<^verbatim>\<open>active\<close>. They are never the
  same text.
\<close>

lemma signed_text_is_not_verified_text:
  assumes "status c' = ''active''"
  shows "signData E w c r now \<noteq> getSignatureData c' r' ts"
proof
  assume eq: "signData E w c r now = getSignatureData c' r' ts"
  have "last (signData E w c r now) = digit_char (now mod 10)"
    using show_nat_last [of now] by (simp add: signData_def)
  moreover have "last (getSignatureData c' r' ts) = CHR ''e''"
    using assms by (simp add: getSignatureData_def)
  ultimately have "digit_char (now mod 10) = CHR ''e''"
    using eq by simp
  moreover have "digit_char (now mod 10) \<in> set ''0123456789''"
    by (rule digit_char_in_digits) simp
  ultimately show False by simp
qed

section \<open>Properties of the validation pipeline\<close>

subsection \<open>What each helper leaves unchanged\<close>

lemma updateHash_fields [simp]:
  "coin_id (updateHash E c) = coin_id c"
  "status (updateHash E c) = status c"
  "coin_value (updateHash E c) = coin_value c"
  "expiryDate (updateHash E c) = expiryDate c"
  "ownerId (updateHash E c) = ownerId c"
  "history (updateHash E c) = history c"
  by (simp_all add: updateHash_def)

lemma updateReputation_fields [simp]:
  "bannedWallets (updateReputation now ok i a) = bannedWallets a"
  "seenCoins (updateReputation now ok i a) = seenCoins a"
  "validatedValues (updateReputation now ok i a) = validatedValues a"
  "validationFailures (updateReputation now ok i a) = validationFailures a"
  "maxFailuresBeforeBan (updateReputation now ok i a) = maxFailuresBeforeBan a"
  "recentTransactionCache (updateReputation now ok i a) = recentTransactionCache a"
  "agent_wallet (updateReputation now ok i a) = agent_wallet a"
  "agent_id (updateReputation now ok i a) = agent_id a"
  by (simp_all add: updateReputation_def Let_def)

lemma recordValidationFailure_fields [simp]:
  "seenCoins (recordValidationFailure w a) = seenCoins a"
  "validatedValues (recordValidationFailure w a) = validatedValues a"
  "maxFailuresBeforeBan (recordValidationFailure w a) = maxFailuresBeforeBan a"
  "recentTransactionCache (recordValidationFailure w a) = recentTransactionCache a"
  "reputation (recordValidationFailure w a) = reputation a"
  "agent_wallet (recordValidationFailure w a) = agent_wallet a"
  "agent_id (recordValidationFailure w a) = agent_id a"
  by (simp_all add: recordValidationFailure_def Let_def split: option.splits)

lemma recordValidationFailure_banned:
  "bannedWallets (recordValidationFailure w a) =
     (case validationFailures a w of
        None \<Rightarrow> bannedWallets a
      | Some n \<Rightarrow> if maxFailuresBeforeBan a \<le> n + 1 then insert w (bannedWallets a)
                  else bannedWallets a)"
  by (simp add: recordValidationFailure_def Let_def split: option.splits)

lemma recordValidationFailure_failures:
  "validationFailures (recordValidationFailure w a) =
     (validationFailures a)(w \<mapsto> (case validationFailures a w of None \<Rightarrow> 1 | Some n \<Rightarrow> n + 1))"
  by (simp add: recordValidationFailure_def Let_def split: option.splits)

lemma pruneCache_fields [simp]:
  "bannedWallets (pruneCache a) = bannedWallets a"
  "seenCoins (pruneCache a) = seenCoins a"
  "validatedValues (pruneCache a) = validatedValues a"
  "validationFailures (pruneCache a) = validationFailures a"
  "maxFailuresBeforeBan (pruneCache a) = maxFailuresBeforeBan a"
  "reputation (pruneCache a) = reputation a"
  "agent_wallet (pruneCache a) = agent_wallet a"
  "agent_id (pruneCache a) = agent_id a"
  by (simp_all add: pruneCache_def Let_def)

lemma resetValidationFailures_fields [simp]:
  "bannedWallets (resetValidationFailures w a) = bannedWallets a"
  "seenCoins (resetValidationFailures w a) = seenCoins a"
  "validatedValues (resetValidationFailures w a) = validatedValues a"
  "validationFailures (resetValidationFailures w a) = (validationFailures a)(w := None)"
  "maxFailuresBeforeBan (resetValidationFailures w a) = maxFailuresBeforeBan a"
  "recentTransactionCache (resetValidationFailures w a) = recentTransactionCache a"
  "reputation (resetValidationFailures w a) = reputation a"
  "agent_wallet (resetValidationFailures w a) = agent_wallet a"
  "agent_id (resetValidationFailures w a) = agent_id a"
  by (simp_all add: resetValidationFailures_def)

lemma getPublicKeyForWallet_fields [simp]:
  "bannedWallets (snd (getPublicKeyForWallet E w a)) = bannedWallets a"
  "seenCoins (snd (getPublicKeyForWallet E w a)) = seenCoins a"
  "validatedValues (snd (getPublicKeyForWallet E w a)) = validatedValues a"
  "validationFailures (snd (getPublicKeyForWallet E w a)) = validationFailures a"
  "maxFailuresBeforeBan (snd (getPublicKeyForWallet E w a)) = maxFailuresBeforeBan a"
  "recentTransactionCache (snd (getPublicKeyForWallet E w a)) = recentTransactionCache a"
  "reputation (snd (getPublicKeyForWallet E w a)) = reputation a"
  "agent_wallet (snd (getPublicKeyForWallet E w a)) = agent_wallet a"
  "agent_id (snd (getPublicKeyForWallet E w a)) = agent_id a"
  "agent_stats (snd (getPublicKeyForWallet E w a)) = agent_stats a"
  by (simp_all add: getPublicKeyForWallet_def split: option.splits)

lemma bump_validations_fields [simp]:
  "bannedWallets (bump_validations a) = bannedWallets a"
  "seenCoins (bump_validations a) = seenCoins a"
  "validatedValues (bump_validations a) = validatedValues a"
  "validationFailures (bump_validations a) = validationFailures a"
  "maxFailuresBeforeBan (bump_validations a) = maxFailuresBeforeBan a"
  "recentTransactionCache (bump_validations a) = recentTransactionCache a"
  "reputation (bump_validations a) = reputation a"
  "agent_wallet (bump_validations a) = agent_wallet a"
  "agent_id (bump_validations a) = agent_id a"
  by (simp_all add: bump_validations_def)

lemma bump_doubleSpends_fields [simp]:
  "bannedWallets (bump_doubleSpends a) = bannedWallets a"
  "seenCoins (bump_doubleSpends a) = seenCoins a"
  "validatedValues (bump_doubleSpends a) = validatedValues a"
  "validationFailures (bump_doubleSpends a) = validationFailures a"
  "maxFailuresBeforeBan (bump_doubleSpends a) = maxFailuresBeforeBan a"
  "recentTransactionCache (bump_doubleSpends a) = recentTransactionCache a"
  "reputation (bump_doubleSpends a) = reputation a"
  "agent_wallet (bump_doubleSpends a) = agent_wallet a"
  "agent_id (bump_doubleSpends a) = agent_id a"
  by (simp_all add: bump_doubleSpends_def)

lemma bump_zeroBalance_fields [simp]:
  "bannedWallets (bump_zeroBalance a) = bannedWallets a"
  "seenCoins (bump_zeroBalance a) = seenCoins a"
  "validatedValues (bump_zeroBalance a) = validatedValues a"
  "validationFailures (bump_zeroBalance a) = validationFailures a"
  "maxFailuresBeforeBan (bump_zeroBalance a) = maxFailuresBeforeBan a"
  "recentTransactionCache (bump_zeroBalance a) = recentTransactionCache a"
  "reputation (bump_zeroBalance a) = reputation a"
  "agent_wallet (bump_zeroBalance a) = agent_wallet a"
  "agent_id (bump_zeroBalance a) = agent_id a"
  by (simp_all add: bump_zeroBalance_def)

lemma bump_validSignatures_fields [simp]:
  "bannedWallets (bump_validSignatures a) = bannedWallets a"
  "seenCoins (bump_validSignatures a) = seenCoins a"
  "validatedValues (bump_validSignatures a) = validatedValues a"
  "validationFailures (bump_validSignatures a) = validationFailures a"
  "maxFailuresBeforeBan (bump_validSignatures a) = maxFailuresBeforeBan a"
  "recentTransactionCache (bump_validSignatures a) = recentTransactionCache a"
  "reputation (bump_validSignatures a) = reputation a"
  "agent_wallet (bump_validSignatures a) = agent_wallet a"
  "agent_id (bump_validSignatures a) = agent_id a"
  by (simp_all add: bump_validSignatures_def)

lemma bump_invalidSignatures_fields [simp]:
  "bannedWallets (bump_invalidSignatures a) = bannedWallets a"
  "seenCoins (bump_invalidSignatures a) = seenCoins a"
  "validatedValues (bump_invalidSignatures a) = validatedValues a"
  "validationFailures (bump_invalidSignatures a) = validationFailures a"
  "maxFailuresBeforeBan (bump_invalidSignatures a) = maxFailuresBeforeBan a"
  "recentTransactionCache (bump_invalidSignatures a) = recentTransactionCache a"
  "reputation (bump_invalidSignatures a) = reputation a"
  "agent_wallet (bump_invalidSignatures a) = agent_wallet a"
  "agent_id (bump_invalidSignatures a) = agent_id a"
  by (simp_all add: bump_invalidSignatures_def)

lemma accept_fields [simp]:
  "bannedWallets (accept E now a c s r h) = bannedWallets a"
  "seenCoins (accept E now a c s r h) = bloom_add E (seenCoins a) (coin_id c)"
  "validatedValues (accept E now a c s r h) = (validatedValues a)(coin_id c \<mapsto> coin_value c)"
  "validationFailures (accept E now a c s r h) = (validationFailures a)(s := None)"
  "maxFailuresBeforeBan (accept E now a c s r h) = maxFailuresBeforeBan a"
  "agent_wallet (accept E now a c s r h) = agent_wallet a"
  "agent_id (accept E now a c s r h) = agent_id a"
  by (simp_all add: accept_def Let_def)

lemmas vt_unfold = validateTransfer_def Let_def verifyIntegrity_def isWalletBanned_def


lemma txHash_of_updateHash [simp]:
  "txHash_of E (updateHash E c) s r sg ts = txHash_of E c s r sg ts"
  by (simp add: txHash_of_def)

lemma expired_updateHash [simp]: "expired now (updateHash E c) = expired now c"
  by (simp add: expired_def)

subsection \<open>The branches of the pipeline, one lemma each\<close>

lemma vt_missing:
  "\<not> shape_ok t \<Longrightarrow>
   validateTransfer E now a0 t = (Invalid MissingData, bump_validations a0, t)"
  by (cases "tr_coin t") (auto simp: vt_unfold shape_ok_def)

lemma vt_banned:
  "shape_ok t \<Longrightarrow> tr_sender t \<in> bannedWallets a0 \<Longrightarrow>
   validateTransfer E now a0 t = (Invalid Banned, bump_validations a0, t)"
  by (auto simp: vt_unfold shape_ok_def)

lemma vt_status:
  "shape_ok t \<Longrightarrow> tr_sender t \<notin> bannedWallets a0 \<Longrightarrow> tr_coin t = Some c \<Longrightarrow>
   status c \<noteq> ''active'' \<Longrightarrow>
   validateTransfer E now a0 t =
     (Invalid (StatusNotActive (status c)),
      recordValidationFailure (tr_sender t) (bump_validations a0),
      t\<lparr>tr_coin := Some (updateHash E c)\<rparr>)"
  by (simp add: vt_unfold shape_ok_def)

lemma vt_zero:
  "shape_ok t \<Longrightarrow> tr_sender t \<notin> bannedWallets a0 \<Longrightarrow> tr_coin t = Some c \<Longrightarrow>
   status c = ''active'' \<Longrightarrow> coin_value c \<le> 0 \<Longrightarrow>
   validateTransfer E now a0 t =
     (Invalid ZeroValue,
      recordValidationFailure (tr_sender t) (bump_zeroBalance (bump_validations a0)),
      t\<lparr>tr_coin := Some (updateHash E c)\<rparr>)"
  by (simp add: vt_unfold shape_ok_def)

lemma vt_inflated:
  "shape_ok t \<Longrightarrow> tr_sender t \<notin> bannedWallets a0 \<Longrightarrow> tr_coin t = Some c \<Longrightarrow>
   status c = ''active'' \<Longrightarrow> 0 < coin_value c \<Longrightarrow>
   validatedValues a0 (coin_id c) = Some v \<Longrightarrow> v < coin_value c \<Longrightarrow>
   validateTransfer E now a0 t =
     (Invalid (Inflated v (coin_value c)),
      recordValidationFailure (tr_sender t) (bump_validations a0),
      t\<lparr>tr_coin := Some (updateHash E c)\<rparr>)"
  by (simp add: vt_unfold shape_ok_def)

lemma vt_double_spend:
  "shape_ok t \<Longrightarrow> tr_sender t \<notin> bannedWallets a0 \<Longrightarrow> tr_coin t = Some c \<Longrightarrow>
   status c = ''active'' \<Longrightarrow> 0 < coin_value c \<Longrightarrow> not_inflated a0 c \<Longrightarrow>
   bloom_has E (seenCoins a0) (coin_id c) \<Longrightarrow>
   validateTransfer E now a0 t =
     (Invalid (case map_of (recentTransactionCache a0) (coin_id c) of
                 Some previous \<Rightarrow> ConfirmedDoubleSpend (entry_timestamp previous)
               | None \<Rightarrow> PossibleDoubleSpend),
      updateReputation now True
        (case map_of (recentTransactionCache a0) (coin_id c) of Some previous \<Rightarrow> 2 | None \<Rightarrow> 3 / 2)
        (recordValidationFailure (tr_sender t) (bump_doubleSpends (bump_validations a0))),
      t\<lparr>tr_coin := Some (updateHash E c)\<rparr>)"
  by (cases "validatedValues a0 (coin_id c)"; cases "map_of (recentTransactionCache a0) (coin_id c)")
     (simp_all add: vt_unfold shape_ok_def not_inflated_def)

lemma vt_expired:
  "shape_ok t \<Longrightarrow> tr_sender t \<notin> bannedWallets a0 \<Longrightarrow> tr_coin t = Some c \<Longrightarrow>
   status c = ''active'' \<Longrightarrow> 0 < coin_value c \<Longrightarrow> not_inflated a0 c \<Longrightarrow>
   \<not> bloom_has E (seenCoins a0) (coin_id c) \<Longrightarrow> expired now c \<Longrightarrow>
   validateTransfer E now a0 t =
     (Invalid Expired, bump_validations a0, t\<lparr>tr_coin := Some (updateHash E c)\<rparr>)"
  by (cases "validatedValues a0 (coin_id c)")
     (simp_all add: vt_unfold shape_ok_def not_inflated_def)

lemma vt_replay:
  "fresh_for E now a0 t c \<Longrightarrow>
   map_of (recentTransactionCache a0)
     (txHash_of E c (tr_sender t) (tr_recipient t) (tr_signature t) (tr_timestamp t)) \<noteq> None \<Longrightarrow>
   validateTransfer E now a0 t =
     (Invalid Replay, recordValidationFailure (tr_sender t) (bump_validations a0),
      t\<lparr>tr_coin := Some (updateHash E c)\<rparr>)"
  by (cases "validatedValues a0 (coin_id c)")
     (auto simp: vt_unfold shape_ok_def not_inflated_def fresh_for_def)

lemma vt_no_key:
  "fresh_for E now a0 t c \<Longrightarrow>
   map_of (recentTransactionCache a0)
     (txHash_of E c (tr_sender t) (tr_recipient t) (tr_signature t) (tr_timestamp t)) = None \<Longrightarrow>
   fst (getPublicKeyForWallet E (tr_sender t) (bump_validations a0)) = None
     \<or> fst (getPublicKeyForWallet E (tr_sender t) (bump_validations a0)) = Some [] \<Longrightarrow>
   validateTransfer E now a0 t =
     (Invalid NoPublicKey, snd (getPublicKeyForWallet E (tr_sender t) (bump_validations a0)),
      t\<lparr>tr_coin := Some (updateHash E c)\<rparr>)"
  by (cases "validatedValues a0 (coin_id c)")
     (auto simp: vt_unfold shape_ok_def not_inflated_def fresh_for_def)

lemma vt_bad_signature:
  "fresh_for E now a0 t c \<Longrightarrow>
   map_of (recentTransactionCache a0)
     (txHash_of E c (tr_sender t) (tr_recipient t) (tr_signature t) (tr_timestamp t)) = None \<Longrightarrow>
   fst (getPublicKeyForWallet E (tr_sender t) (bump_validations a0)) = Some pk \<Longrightarrow> pk \<noteq> [] \<Longrightarrow>
   \<not> verify E (getSignatureData (updateHash E c) (tr_recipient t) (tr_timestamp t))
        (tr_signature t) pk \<Longrightarrow>
   validateTransfer E now a0 t =
     (Invalid InvalidSignature,
      recordValidationFailure (tr_sender t)
        (bump_invalidSignatures (snd (getPublicKeyForWallet E (tr_sender t) (bump_validations a0)))),
      t\<lparr>tr_coin := Some (updateHash E c)\<rparr>)"
  by (cases "validatedValues a0 (coin_id c)")
     (auto simp: vt_unfold shape_ok_def not_inflated_def fresh_for_def)

lemma vt_valid:
  "fresh_for E now a0 t c \<Longrightarrow>
   map_of (recentTransactionCache a0)
     (txHash_of E c (tr_sender t) (tr_recipient t) (tr_signature t) (tr_timestamp t)) = None \<Longrightarrow>
   fst (getPublicKeyForWallet E (tr_sender t) (bump_validations a0)) = Some pk \<Longrightarrow> pk \<noteq> [] \<Longrightarrow>
   verify E (getSignatureData (updateHash E c) (tr_recipient t) (tr_timestamp t))
        (tr_signature t) pk \<Longrightarrow>
   a9 = accept E now (snd (getPublicKeyForWallet E (tr_sender t) (bump_validations a0)))
          (updateHash E c) (tr_sender t) (tr_recipient t)
          (txHash_of E c (tr_sender t) (tr_recipient t) (tr_signature t) (tr_timestamp t)) \<Longrightarrow>
   validateTransfer E now a0 t =
     (Valid (getId E (agent_wallet a9)) now (score (reputation a9)), a9,
      t\<lparr>tr_coin := Some (updateHash E c)\<rparr>)"
  by (cases "validatedValues a0 (coin_id c)")
     (auto simp: vt_unfold shape_ok_def not_inflated_def fresh_for_def)

text \<open>Every call of \<^verbatim>\<open>validateTransfer\<close> takes one of the branches above.\<close>

lemma validateTransfer_cases:
  obtains
    (missing) "\<not> shape_ok t"
      "validateTransfer E now a0 t = (Invalid MissingData, bump_validations a0, t)"
  | (banned) "shape_ok t" "tr_sender t \<in> bannedWallets a0"
      "validateTransfer E now a0 t = (Invalid Banned, bump_validations a0, t)"
  | (status) c where "shape_ok t" "tr_sender t \<notin> bannedWallets a0" "tr_coin t = Some c"
      "status c \<noteq> ''active''"
      "validateTransfer E now a0 t =
         (Invalid (StatusNotActive (status c)),
          recordValidationFailure (tr_sender t) (bump_validations a0),
          t\<lparr>tr_coin := Some (updateHash E c)\<rparr>)"
  | (zero) c where "shape_ok t" "tr_sender t \<notin> bannedWallets a0" "tr_coin t = Some c"
      "status c = ''active''" "coin_value c \<le> 0"
      "validateTransfer E now a0 t =
         (Invalid ZeroValue,
          recordValidationFailure (tr_sender t) (bump_zeroBalance (bump_validations a0)),
          t\<lparr>tr_coin := Some (updateHash E c)\<rparr>)"
  | (inflated) c v where "shape_ok t" "tr_sender t \<notin> bannedWallets a0" "tr_coin t = Some c"
      "status c = ''active''" "0 < coin_value c"
      "validatedValues a0 (coin_id c) = Some v" "v < coin_value c"
      "validateTransfer E now a0 t =
         (Invalid (Inflated v (coin_value c)),
          recordValidationFailure (tr_sender t) (bump_validations a0),
          t\<lparr>tr_coin := Some (updateHash E c)\<rparr>)"
  | (double_spend) c where "shape_ok t" "tr_sender t \<notin> bannedWallets a0" "tr_coin t = Some c"
      "status c = ''active''" "0 < coin_value c" "not_inflated a0 c"
      "bloom_has E (seenCoins a0) (coin_id c)"
      "validateTransfer E now a0 t =
         (Invalid (case map_of (recentTransactionCache a0) (coin_id c) of
                     Some previous \<Rightarrow> ConfirmedDoubleSpend (entry_timestamp previous)
                   | None \<Rightarrow> PossibleDoubleSpend),
          updateReputation now True
            (case map_of (recentTransactionCache a0) (coin_id c) of
               Some previous \<Rightarrow> 2 | None \<Rightarrow> 3 / 2)
            (recordValidationFailure (tr_sender t) (bump_doubleSpends (bump_validations a0))),
          t\<lparr>tr_coin := Some (updateHash E c)\<rparr>)"
  | (expired) c where "tr_coin t = Some c" "\<not> bloom_has E (seenCoins a0) (coin_id c)"
      "not_inflated a0 c"
      "validateTransfer E now a0 t =
         (Invalid Expired, bump_validations a0, t\<lparr>tr_coin := Some (updateHash E c)\<rparr>)"
  | (replay) c where "fresh_for E now a0 t c"
      "validateTransfer E now a0 t =
         (Invalid Replay, recordValidationFailure (tr_sender t) (bump_validations a0),
          t\<lparr>tr_coin := Some (updateHash E c)\<rparr>)"
  | (no_key) c where "fresh_for E now a0 t c"
      "validateTransfer E now a0 t =
         (Invalid NoPublicKey, snd (getPublicKeyForWallet E (tr_sender t) (bump_validations a0)),
          t\<lparr>tr_coin := Some (updateHash E c)\<rparr>)"
  | (bad_signature) c where "fresh_for E now a0 t c"
      "validateTransfer E now a0 t =
         (Invalid InvalidSignature,
          recordValidationFailure (tr_sender t)
            (bump_invalidSignatures
               (snd (getPublicKeyForWallet E (tr_sender t) (bump_validations a0)))),
          t\<lparr>tr_coin := Some (updateHash E c)\<rparr>)"
  | (accepted) c a9 pk where "fresh_for E now a0 t c"
      "verify E (getSignatureData (updateHash E c) (tr_recipient t) (tr_timestamp t))
         (tr_signature t) pk"
      "a9 = accept E now (snd (getPublicKeyForWallet E (tr_sender t) (bump_validations a0)))
              (updateHash E c) (tr_sender t) (tr_recipient t)
              (txHash_of E c (tr_sender t) (tr_recipient t) (tr_signature t) (tr_timestamp t))"
      "validateTransfer E now a0 t =
         (Valid (getId E (agent_wallet a9)) now (score (reputation a9)), a9,
          t\<lparr>tr_coin := Some (updateHash E c)\<rparr>)"
proof (cases "shape_ok t")
  case False
  then show ?thesis using missing vt_missing by blast
next
  case shape: True
  then obtain c where c: "tr_coin t = Some c"
    by (auto simp: shape_ok_def)
  show ?thesis
  proof (cases "tr_sender t \<in> bannedWallets a0")
    case True
    then show ?thesis using banned shape vt_banned by blast
  next
    case nb: False
    show ?thesis
    proof (cases "status c = ''active''")
      case False
      then show ?thesis using status [OF shape nb c] vt_status [OF shape nb c] by blast
    next
      case act: True
      show ?thesis
      proof (cases "coin_value c \<le> 0")
        case True
        then show ?thesis using zero [OF shape nb c act] vt_zero [OF shape nb c act] by blast
      next
        case False
        then have pos: "0 < coin_value c" by simp
        show ?thesis
        proof (cases "not_inflated a0 c")
          case False
          then obtain v where v: "validatedValues a0 (coin_id c) = Some v" "v < coin_value c"
            by (auto simp: not_inflated_def split: option.splits)
          show ?thesis
            using inflated [OF shape nb c act pos v] vt_inflated [OF shape nb c act pos v] by blast
        next
          case ni: True
          show ?thesis
          proof (cases "bloom_has E (seenCoins a0) (coin_id c)")
            case True
            then show ?thesis
              using double_spend [OF shape nb c act pos ni]
                vt_double_spend [OF shape nb c act pos ni] by blast
          next
            case unseen: False
            show ?thesis
            proof (cases "expired now c")
              case True
              then show ?thesis
                using expired [OF c unseen ni] vt_expired [OF shape nb c act pos ni unseen] by blast
            next
              case False
              then have fresh: "fresh_for E now a0 t c"
                using shape nb c act pos ni unseen by (simp add: fresh_for_def)
              show ?thesis
              proof (cases "map_of (recentTransactionCache a0)
                  (txHash_of E c (tr_sender t) (tr_recipient t) (tr_signature t) (tr_timestamp t))
                  = None")
                case False
                then show ?thesis using replay [OF fresh] vt_replay [OF fresh] by blast
              next
                case nr: True
                show ?thesis
                proof (cases "fst (getPublicKeyForWallet E (tr_sender t) (bump_validations a0))")
                  case None
                  then show ?thesis using no_key [OF fresh] vt_no_key [OF fresh nr] by blast
                next
                  case (Some pk)
                  show ?thesis
                  proof (cases "pk = []")
                    case True
                    then show ?thesis
                      using Some no_key [OF fresh] vt_no_key [OF fresh nr] by blast
                  next
                    case pk: False
                    show ?thesis
                    proof (cases "verify E
                        (getSignatureData (updateHash E c) (tr_recipient t) (tr_timestamp t))
                        (tr_signature t) pk")
                      case False
                      then show ?thesis
                        using bad_signature [OF fresh] vt_bad_signature [OF fresh nr Some pk]
                        by blast
                    next
                      case True
                      then show ?thesis
                        using accepted [OF fresh True refl] vt_valid [OF fresh nr Some pk True refl]
                        by blast
                    qed
                  qed
                qed
              qed
            qed
          qed
        qed
      qed
    qed
  qed
qed

subsection \<open>One validation\<close>

lemma bloom_has_mono: "bits \<subseteq> bits' \<Longrightarrow> bloom_has E bits x \<Longrightarrow> bloom_has E bits' x"
  by (auto simp: bloom_has_def list_all_iff)

lemma bloom_has_add: "bloom_has E (bloom_add E bits x) x"
  by (auto simp: bloom_has_def bloom_add_def list_all_iff)

lemma validateTransfer_banned_mono:
  "bannedWallets a \<subseteq> bannedWallets (fst (snd (validateTransfer E now a t)))"
  by (cases rule: validateTransfer_cases [of t E now a])
     (auto simp: recordValidationFailure_banned split: option.splits if_splits)

lemma validateTransfer_seen_mono:
  "seenCoins a \<subseteq> seenCoins (fst (snd (validateTransfer E now a t)))"
  by (cases rule: validateTransfer_cases [of t E now a]) (auto simp: bloom_add_def)

lemma validateTransfer_max:
  "maxFailuresBeforeBan (fst (snd (validateTransfer E now a t))) = maxFailuresBeforeBan a"
  by (cases rule: validateTransfer_cases [of t E now a]) auto

lemma validateTransfer_valid_seen:
  assumes "valid (fst (validateTransfer E now a t))" and "tr_coin t = Some c"
  shows "bloom_has E (seenCoins (fst (snd (validateTransfer E now a t)))) (coin_id c)"
  using assms
  by (cases rule: validateTransfer_cases [of t E now a])
     (auto simp: bloom_has_add fresh_for_def split: option.splits)

lemma validateTransfer_seen_invalid:
  assumes "tr_coin t = Some c" and "bloom_has E (seenCoins a) (coin_id c)"
  shows "\<not> valid (fst (validateTransfer E now a t))"
  using assms
  by (cases rule: validateTransfer_cases [of t E now a])
     (auto simp: fresh_for_def split: option.splits)

lemma validateTransfer_bump:
  assumes "counter_bumping (fst (validateTransfer E now a t))" and "tr_sender t = W"
  shows "failure_count (fst (snd (validateTransfer E now a t))) W = failure_count a W + 1
       \<and> (2 \<le> maxFailuresBeforeBan a \<and> maxFailuresBeforeBan a \<le> failure_count a W + 1
            \<longrightarrow> W \<in> bannedWallets (fst (snd (validateTransfer E now a t))))"
  using assms
  by (cases rule: validateTransfer_cases [of t E now a])
     (auto simp: failure_count_def recordValidationFailure_banned
        recordValidationFailure_failures split: option.splits)

lemma validateTransfer_no_bump:
  assumes "\<not> (tr_sender t = W \<and> (counter_bumping (fst (validateTransfer E now a t))
                 \<or> valid (fst (validateTransfer E now a t))))"
  shows "validationFailures (fst (snd (validateTransfer E now a t))) W = validationFailures a W"
  using assms
  by (cases rule: validateTransfer_cases [of t E now a])
     (auto simp: recordValidationFailure_failures split: option.splits)

lemma validateTransfer_values_mono:
  assumes "validatedValues a cid = Some v"
  shows "\<exists>v'. validatedValues (fst (snd (validateTransfer E now a t))) cid = Some v' \<and> v' \<le> v"
  using assms
  by (cases rule: validateTransfer_cases [of t E now a])
     (auto simp: fresh_for_def not_inflated_def split: option.splits)

lemma validateTransfer_inflated_invalid:
  assumes "tr_coin t = Some c" and "validatedValues a (coin_id c) = Some v" and "v < coin_value c"
  shows "\<not> valid (fst (validateTransfer E now a t))"
  using assms
  by (cases rule: validateTransfer_cases [of t E now a])
     (auto simp: fresh_for_def not_inflated_def split: option.splits)

lemma validateTransfer_identity:
  "agent_id (fst (snd (validateTransfer E now a t))) = agent_id a
   \<and> agent_wallet (fst (snd (validateTransfer E now a t))) = agent_wallet a"
  by (cases rule: validateTransfer_cases [of t E now a]) auto

subsection \<open>The reason each stage returns\<close>

lemma reason_missing:
  "\<not> shape_ok t \<Longrightarrow> fst (validateTransfer E now a t) = Invalid MissingData"
  by (simp add: vt_missing)

lemma reason_banned:
  "shape_ok t \<Longrightarrow> tr_sender t \<in> bannedWallets a \<Longrightarrow>
   fst (validateTransfer E now a t) = Invalid Banned"
  by (simp add: vt_banned)

lemma reason_status:
  assumes "shape_ok t" and "tr_sender t \<notin> bannedWallets a" and "tr_coin t = Some c"
    and "status c \<noteq> ''active''"
  shows "fst (validateTransfer E now a t) = Invalid (StatusNotActive (status c))"
  using vt_status [OF assms, of E now] by (simp only: fst_conv)

lemma reason_zero:
  assumes "shape_ok t" and "tr_sender t \<notin> bannedWallets a" and "tr_coin t = Some c"
    and "status c = ''active''" and "coin_value c \<le> 0"
  shows "fst (validateTransfer E now a t) = Invalid ZeroValue"
  using vt_zero [OF assms, of E now] by (simp only: fst_conv)

lemma reason_inflated:
  assumes "shape_ok t" and "tr_sender t \<notin> bannedWallets a" and "tr_coin t = Some c"
    and "status c = ''active''" and "0 < coin_value c"
    and "validatedValues a (coin_id c) = Some v" and "v < coin_value c"
  shows "fst (validateTransfer E now a t) = Invalid (Inflated v (coin_value c))"
  using vt_inflated [OF assms, of E now] by (simp only: fst_conv)

lemma reason_double_spend:
  assumes "shape_ok t" and "tr_sender t \<notin> bannedWallets a" and "tr_coin t = Some c"
    and "status c = ''active''" and "0 < coin_value c" and "not_inflated a c"
    and "bloom_has E (seenCoins a) (coin_id c)"
  shows "fst (validateTransfer E now a t)
       = Invalid (case map_of (recentTransactionCache a) (coin_id c) of
                    Some previous \<Rightarrow> ConfirmedDoubleSpend (entry_timestamp previous)
                  | None \<Rightarrow> PossibleDoubleSpend)"
  using vt_double_spend [OF assms, of now] by (simp only: fst_conv)

subsection \<open>A run of validations\<close>

lemma validate_seq_banned_mono:
  "bannedWallets a \<subseteq> bannedWallets (snd (validate_seq E a steps))"
proof (induction steps arbitrary: a)
  case Nil
  then show ?case by simp
next
  case (Cons s steps)
  have "bannedWallets a \<subseteq> bannedWallets (fst (snd (validateTransfer E (fst s) a (snd s))))"
    by (rule validateTransfer_banned_mono)
  also have "\<dots> \<subseteq> bannedWallets
      (snd (validate_seq E (fst (snd (validateTransfer E (fst s) a (snd s)))) steps))"
    by (rule Cons.IH)
  finally show ?case by (simp add: Let_def)
qed

lemma validate_seq_seen_mono:
  "seenCoins a \<subseteq> seenCoins (snd (validate_seq E a steps))"
proof (induction steps arbitrary: a)
  case Nil
  then show ?case by simp
next
  case (Cons s steps)
  have "seenCoins a \<subseteq> seenCoins (fst (snd (validateTransfer E (fst s) a (snd s))))"
    by (rule validateTransfer_seen_mono)
  also have "\<dots> \<subseteq> seenCoins
      (snd (validate_seq E (fst (snd (validateTransfer E (fst s) a (snd s)))) steps))"
    by (rule Cons.IH)
  finally show ?case by (simp add: Let_def)
qed

lemma validate_seq_max:
  "maxFailuresBeforeBan (snd (validate_seq E a steps)) = maxFailuresBeforeBan a"
  by (induction steps arbitrary: a) (simp_all add: Let_def validateTransfer_max)

lemma validate_seq_values_mono:
  "validatedValues a cid = Some v \<Longrightarrow>
   \<exists>v'. validatedValues (snd (validate_seq E a steps)) cid = Some v' \<and> v' \<le> v"
proof (induction steps arbitrary: a v)
  case Nil
  then show ?case by simp
next
  case (Cons s steps)
  obtain v1 where v1:
    "validatedValues (fst (snd (validateTransfer E (fst s) a (snd s)))) cid = Some v1" "v1 \<le> v"
    using validateTransfer_values_mono [OF Cons.prems] by blast
  obtain v2 where
    "validatedValues
       (snd (validate_seq E (fst (snd (validateTransfer E (fst s) a (snd s)))) steps)) cid = Some v2"
    "v2 \<le> v1"
    using Cons.IH [OF v1(1)] by blast
  then show ?case using v1(2) by (auto simp: Let_def)
qed

text \<open>
  While no intent of \<open>W\<close> is found valid, the failure count of \<open>W\<close> grows by one with
  every counter-bumping failure, and \<open>W\<close> is banned once the count has reached the limit
  in such a failure.
\<close>

lemma validate_seq_failure_count:
  assumes "successes_for W steps (fst (validate_seq E a steps)) = 0"
  shows "failure_count (snd (validate_seq E a steps)) W
           = failure_count a W + bumps_for W steps (fst (validate_seq E a steps))"
  using assms
proof (induction steps arbitrary: a)
  case Nil
  then show ?case by simp
next
  case (Cons s steps)
  let ?r = "validateTransfer E (fst s) a (snd s)"
  let ?a1 = "fst (snd ?r)"
  have rest: "successes_for W steps (fst (validate_seq E ?a1 steps)) = 0"
    using Cons.prems by (simp add: Let_def)
  have nosucc: "\<not> (tr_sender (snd s) = W \<and> valid (fst ?r))"
    using Cons.prems by (auto simp: Let_def split: if_splits)
  have step: "failure_count ?a1 W
      = failure_count a W + (if tr_sender (snd s) = W \<and> counter_bumping (fst ?r) then 1 else 0)"
  proof (cases "tr_sender (snd s) = W \<and> counter_bumping (fst ?r)")
    case True
    then show ?thesis using validateTransfer_bump [of E "fst s" a "snd s" W] by simp
  next
    case False
    then have "validationFailures ?a1 W = validationFailures a W"
      using nosucc validateTransfer_no_bump [of "snd s" W E "fst s" a] by blast
    then show ?thesis using False by (simp add: failure_count_def)
  qed
  show ?case
    using Cons.IH [OF rest] step by (simp add: Let_def)
qed

lemma validate_seq_ban:
  assumes "2 \<le> maxFailuresBeforeBan a"
    and "successes_for W steps (fst (validate_seq E a steps)) = 0"
    and "1 \<le> bumps_for W steps (fst (validate_seq E a steps))"
    and "maxFailuresBeforeBan a
           \<le> failure_count a W + bumps_for W steps (fst (validate_seq E a steps))"
  shows "W \<in> bannedWallets (snd (validate_seq E a steps))"
  using assms
proof (induction steps arbitrary: a)
  case Nil
  then show ?case by simp
next
  case (Cons s steps)
  let ?r = "validateTransfer E (fst s) a (snd s)"
  let ?a1 = "fst (snd ?r)"
  let ?k = "bumps_for W steps (fst (validate_seq E ?a1 steps))"
  have max1: "maxFailuresBeforeBan ?a1 = maxFailuresBeforeBan a"
    by (rule validateTransfer_max)
  have rest: "successes_for W steps (fst (validate_seq E ?a1 steps)) = 0"
    using Cons.prems(2) by (simp add: Let_def)
  have nosucc: "\<not> (tr_sender (snd s) = W \<and> valid (fst ?r))"
    using Cons.prems(2) by (auto simp: Let_def split: if_splits)
  have count1: "failure_count ?a1 W
      = failure_count a W + (if tr_sender (snd s) = W \<and> counter_bumping (fst ?r) then 1 else 0)"
    using validate_seq_failure_count [of W "[s]" E a] nosucc by (simp add: Let_def)
  show ?case
  proof (cases "1 \<le> ?k")
    case True
    have "maxFailuresBeforeBan ?a1 \<le> failure_count ?a1 W + ?k"
      using Cons.prems(4) count1 max1 by (simp add: Let_def split: if_splits)
    then have "W \<in> bannedWallets (snd (validate_seq E ?a1 steps))"
      using Cons.IH [of ?a1] Cons.prems(1) max1 rest True by simp
    then show ?thesis by (simp add: Let_def)
  next
    case False
    then have k0: "?k = 0" by simp
    then have bump: "tr_sender (snd s) = W \<and> counter_bumping (fst ?r)"
      using Cons.prems(3) by (simp add: Let_def split: if_splits)
    have "maxFailuresBeforeBan a \<le> failure_count a W + 1"
      using Cons.prems(4) k0 bump by (simp add: Let_def)
    then have "W \<in> bannedWallets ?a1"
      using validateTransfer_bump [of E "fst s" a "snd s" W] bump Cons.prems(1) by simp
    then have "W \<in> bannedWallets (snd (validate_seq E ?a1 steps))"
      using validate_seq_banned_mono by blast
    then show ?thesis by (simp add: Let_def)
  qed
qed

subsection \<open>The idealised environment\<close>

lemma show_nat_digits: "set (show_nat n) \<subseteq> set ''0123456789''"
proof (induction n rule: show_nat.induct)
  case (1 n)
  have d: "digit_char (n mod 10) \<in> set ''0123456789''"
    by (rule digit_char_in_digits) simp
  show ?case
  proof (cases "n < 10")
    case True
    then have "show_nat n = [digit_char (n mod 10)]"
      by (subst show_nat.simps) simp
    then show ?thesis using d by simp
  next
    case False
    then have "show_nat n = show_nat (n div 10) @ [digit_char (n mod 10)]"
      by (subst show_nat.simps) simp
    then show ?thesis using d "1.IH" False by simp
  qed
qed

lemma split_at_first:
  assumes "xs @ c # ys = xs' @ c # ys'" and "c \<notin> set xs" and "c \<notin> set xs'"
  shows "xs = xs' \<and> ys = ys'"
proof -
  have "takeWhile (\<lambda>x. x \<noteq> c) (xs @ c # ys) = xs"
    using assms(2) by (induction xs) auto
  moreover have "takeWhile (\<lambda>x. x \<noteq> c) (xs' @ c # ys') = xs'"
    using assms(3) by (induction xs') auto
  ultimately have "xs = xs'" using assms(1) by simp
  then show ?thesis using assms(1) by simp
qed

lemma ideal_sign_inj:
  assumes "ideal_sign d k = ideal_sign d' k'"
  shows "d = d' \<and> k = k'"
proof -
  have colon: "CHR '':'' \<notin> set (show_nat (length k))" "CHR '':'' \<notin> set (show_nat (length k'))"
    using show_nat_digits [of "length k"] show_nat_digits [of "length k'"] by auto
  have "show_nat (length k) @ CHR '':'' # (k @ '':'' @ d)
      = show_nat (length k') @ CHR '':'' # (k' @ '':'' @ d')"
    using assms by (simp add: ideal_sign_def)
  then have "show_nat (length k) = show_nat (length k') \<and> k @ '':'' @ d = k' @ '':'' @ d'"
    using colon by (rule split_at_first)
  then have "length k = length k'" and rest: "k @ '':'' @ d = k' @ '':'' @ d'"
    using show_nat_inj by blast+
  then show ?thesis by simp
qed

text \<open>In the idealised environment a signature verifies only against the signed text.\<close>

lemma ideal_sound:
  assumes "verify ideal d (sign ideal d' k) p"
  shows "d = d'"
proof -
  have "ideal_sign d' k = ideal_sign d (''sk'' @ drop 2 p)"
    using assms by (simp add: ideal_def)
  then show ?thesis
    using ideal_sign_inj by blast
qed

lemma ideal_sign_not_empty [simp]: "ideal_sign d k \<noteq> []"
  using show_nat_last [of "length k"] by (simp add: ideal_sign_def)

subsection \<open>The concrete witness\<close>

lemma ideal_fields [simp]:
  "sha256 ideal s = ''h('' @ s @ '')''"
  "sign ideal d k = ideal_sign d k"
  "verify ideal d sg p = (take 2 p = ''pk'' \<and> sg = ideal_sign d (''sk'' @ drop 2 p))"
  "bloom_idx ideal x = [foldl (\<lambda>n c. 256 * n + of_char c) 1 x]"
  by (simp_all add: ideal_def)

lemma wallet_ids [simp]:
  "getId ideal (agent_wallet (agent_k 0)) = ''h(pk0)''"
  "getId ideal (agent_wallet (agent_k 1)) = ''h(pk1)''"
  "getId ideal (agent_wallet (agent_k (Suc 0))) = ''h(pk1)''"
  "getId ideal (agent_wallet (agent_k 2)) = ''h(pk2)''"
  "getId ideal (agent_wallet (agent_k 3)) = ''h(pk3)''"
  "getId ideal (agent_wallet (agent_k 4)) = ''h(pk4)''"
  by (simp_all add: getId_def agent_k_def new_Agent_def show_nat.simps digit_char_def)

lemma coinX_fields [simp]:
  "coin_id coinX = ''X''" "ownerId coinX = ''h(pk0)''" "coin_value coinX = 5"
  "status coinX = ''active''" "expiryDate coinX = None" "history coinX = []"
  "updateHash ideal coinX = coinX"
  by (simp_all add: coinX_def updateHash_def hash_payload_def)

lemma witness2_eq: "witness2 = registerPublicKey ''h(pk0)'' ''pk0'' (agent_k 2)"
  by (simp add: witness2_def)

lemma witness2_fields [simp]:
  "bannedWallets witness2 = {}" "seenCoins witness2 = {}" "validatedValues witness2 = Map.empty"
  "validationFailures witness2 = Map.empty" "maxFailuresBeforeBan witness2 = 5"
  "recentTransactionCache witness2 = []" "maxCacheSize witness2 = 100000"
  "publicKeyDirectory witness2 = [''h(pk0)'' \<mapsto> ''pk0'']"
  "score (reputation witness2) = 100"
  "agent_wallet witness2 = agent_wallet (agent_k 2)"
  by (simp_all add: witness2_eq registerPublicKey_def) (simp_all add: agent_k_def new_Agent_def)

lemma signed_intent_fields [simp]:
  "tr_coin signed_intent = Some coinX" "tr_sender signed_intent = ''h(pk0)''"
  "tr_recipient signed_intent = ''h(pk1)''" "tr_timestamp signed_intent = 2000"
  "tr_signature signed_intent = ideal_sign (getSignatureData coinX ''h(pk1)'' 2000) ''sk0''"
  by (simp_all add: signed_intent_def)

text \<open>The witness accepts the intent signed over the payload it verifies.\<close>

lemma witness2_accepts:
  "validateTransfer ideal 2000 witness2 signed_intent =
     (Valid ''h(pk2)'' 2000 100,
      accept ideal 2000 (bump_validations witness2) coinX ''h(pk0)'' ''h(pk1)''
        (txHash_of ideal coinX ''h(pk0)'' ''h(pk1)'' (tr_signature signed_intent) 2000),
      signed_intent)"
proof -
  have fresh: "fresh_for ideal 2000 witness2 signed_intent coinX"
    by (simp add: fresh_for_def shape_ok_def not_inflated_def bloom_has_def expired_def)
  have key: "getPublicKeyForWallet ideal ''h(pk0)'' (bump_validations witness2)
      = (Some ''pk0'', bump_validations witness2)"
    by (simp add: getPublicKeyForWallet_def bump_validations_def)
  have r: "validateTransfer ideal 2000 witness2 signed_intent =
     (Valid (getId ideal (agent_wallet (accept ideal 2000 (bump_validations witness2) coinX
                ''h(pk0)'' ''h(pk1)''
                (txHash_of ideal coinX ''h(pk0)'' ''h(pk1)'' (tr_signature signed_intent) 2000))))
        2000
        (score (reputation (accept ideal 2000 (bump_validations witness2) coinX
                ''h(pk0)'' ''h(pk1)''
                (txHash_of ideal coinX ''h(pk0)'' ''h(pk1)'' (tr_signature signed_intent) 2000)))),
      accept ideal 2000 (bump_validations witness2) coinX ''h(pk0)'' ''h(pk1)''
        (txHash_of ideal coinX ''h(pk0)'' ''h(pk1)'' (tr_signature signed_intent) 2000),
      signed_intent\<lparr>tr_coin := Some (updateHash ideal coinX)\<rparr>)"
    by (rule vt_valid [OF fresh, where pk = "''pk0''"]) (simp_all add: key)
  have w: "agent_wallet (bump_validations witness2) = agent_wallet (agent_k 2)"
    by simp
  have sc: "\<And>h. score (reputation (accept ideal 2000 (bump_validations witness2) coinX
                ''h(pk0)'' ''h(pk1)'' h)) = 100"
    by (simp add: accept_def Let_def updateReputation_def pruneCache_def
        resetValidationFailures_def bump_validSignatures_def bump_validations_def)
  have t: "signed_intent\<lparr>tr_coin := Some (updateHash ideal coinX)\<rparr> = signed_intent"
    by (simp add: signed_intent_def)
  show ?thesis
    using r by (simp add: w sc t)
qed

lemma witness2_after_eq:
  "witness2_after =
     accept ideal 2000 (bump_validations witness2) coinX ''h(pk0)'' ''h(pk1)''
        (txHash_of ideal coinX ''h(pk0)'' ''h(pk1)'' (tr_signature signed_intent) 2000)"
  by (simp add: witness2_after_def witness2_accepts del: signed_intent_fields)

lemma witness2_after_fields:
  "bannedWallets witness2_after = {}"
  "validatedValues witness2_after ''X'' = Some 5"
  "bloom_has ideal (seenCoins witness2_after) ''X''"
  by (simp_all add: witness2_after_eq bloom_has_add del: signed_intent_fields)

lemma witness2_after_cache:
  "\<exists>h. map_of (recentTransactionCache witness2_after) ''X''
         = Some (CoinEntry 2000 h ''h(pk0)'' ''h(pk1)'' 5)"
  by (simp add: witness2_after_eq accept_def Let_def pruneCache_def AList.update_conv'
      txHash_of_def bump_validSignatures_def bump_validations_def
      del: signed_intent_fields)

lemma zero_intent_rejected:
  assumes "''h(pk0)'' \<notin> bannedWallets a"
  shows "validateTransfer ideal now a zero_intent =
     (Invalid ZeroValue,
      recordValidationFailure ''h(pk0)'' (bump_zeroBalance (bump_validations a)),
      zero_intent\<lparr>tr_coin := Some (updateHash ideal (coinX\<lparr>coin_value := 0\<rparr>))\<rparr>)"
proof -
  have "validateTransfer ideal now a zero_intent =
     (Invalid ZeroValue,
      recordValidationFailure (tr_sender zero_intent) (bump_zeroBalance (bump_validations a)),
      zero_intent\<lparr>tr_coin := Some (updateHash ideal (coinX\<lparr>coin_value := 0\<rparr>))\<rparr>)"
  proof (rule vt_zero)
    show "shape_ok zero_intent" by (simp add: zero_intent_def shape_ok_def)
    show "tr_sender zero_intent \<notin> bannedWallets a" using assms by (simp add: zero_intent_def)
    show "tr_coin zero_intent = Some (coinX\<lparr>coin_value := 0\<rparr>)" by (simp add: zero_intent_def)
    show "status (coinX\<lparr>coin_value := 0\<rparr>) = ''active''" by simp
    show "coin_value (coinX\<lparr>coin_value := 0\<rparr>) \<le> 0" by simp
  qed
  then show ?thesis by (simp add: zero_intent_def)
qed

lemma failed_once_fields:
  "validationFailures (recordValidationFailure W (bump_zeroBalance (bump_validations a)))
     = (validationFailures a)(W \<mapsto> (case validationFailures a W of None \<Rightarrow> 1 | Some n \<Rightarrow> n + 1))"
  "bannedWallets (recordValidationFailure W (bump_zeroBalance (bump_validations a)))
     = (case validationFailures a W of
          None \<Rightarrow> bannedWallets a
        | Some n \<Rightarrow> if maxFailuresBeforeBan a \<le> n + 1 then insert W (bannedWallets a)
                    else bannedWallets a)"
  "maxFailuresBeforeBan (recordValidationFailure W (bump_zeroBalance (bump_validations a)))
     = maxFailuresBeforeBan a"
  by (simp_all add: recordValidationFailure_failures recordValidationFailure_banned
      split: option.splits)

lemma inflated_intent_rejected:
  assumes "''h(pk0)'' \<notin> bannedWallets a" and "validatedValues a ''X'' = Some 5"
  shows "validateTransfer ideal now a inflated_intent =
     (Invalid (Inflated 5 50),
      recordValidationFailure ''h(pk0)'' (bump_validations a),
      inflated_intent\<lparr>tr_coin := Some (updateHash ideal (coinX\<lparr>coin_value := 50\<rparr>))\<rparr>)"
  using assms
    vt_inflated [of inflated_intent a "coinX\<lparr>coin_value := 50\<rparr>" 5 ideal now]
  by (simp add: inflated_intent_def shape_ok_def)

lemma witness2_after_failures: "validationFailures witness2_after ''h(pk0)'' = None"
  by (simp add: witness2_after_eq del: signed_intent_fields)

lemma witness2_later_eq:
  "witness2_later = recordValidationFailure ''h(pk0)'' (bump_validations witness2_after)"
  by (simp add: witness2_later_def Let_def inflated_intent_rejected witness2_after_fields)

lemma witness2_later_fields:
  "bannedWallets witness2_later = {}"
  "validatedValues witness2_later ''X'' = Some 5"
  "map_of (recentTransactionCache witness2_later) ''X''
     = map_of (recentTransactionCache witness2_after) ''X''"
  by (simp_all add: witness2_later_eq recordValidationFailure_banned witness2_after_failures
      witness2_after_fields)

text \<open>
  After the accepted intent the failure counter of the sender is clear, so the five
  failures that follow count from one and the fifth bans the sender.
\<close>

lemma witness2_after_banning_fields:
  "''h(pk0)'' \<in> bannedWallets witness2_after_banning"
  "validatedValues witness2_after_banning ''X'' = Some 5"
proof -
  have lim: "maxFailuresBeforeBan witness2_after = 5"
    by (simp add: witness2_after_eq del: signed_intent_fields)
  show "''h(pk0)'' \<in> bannedWallets witness2_after_banning"
    by (simp add: witness2_after_banning_def five_failures_def Let_def zero_intent_rejected
        failed_once_fields witness2_after_failures witness2_after_fields lim)
  show "validatedValues witness2_after_banning ''X'' = Some 5"
    by (simp add: witness2_after_banning_def five_failures_def Let_def zero_intent_rejected
        failed_once_fields witness2_after_failures witness2_after_fields lim)
qed

text \<open>
  C4 (amended). Once a witness has found an intent for coin \<open>c\<close> valid, the coin id stays
  in its seen-set through every later validation, and every later intent carrying a coin of
  the same id is rejected. The reason is that of the first stage of the pipeline the later
  intent fails:
  \<^item> \<^verbatim>\<open>missing required transfer data\<close> when the shape check fails;
  \<^item> else \<^verbatim>\<open>sender wallet is banned due to suspicious activity\<close> when the sender is banned;
  \<^item> else (the integrity stage cannot fail) \<^verbatim>\<open>coin status is s, not active\<close> when the
    status \<open>s\<close> of the coin is not active;
  \<^item> else \<^verbatim>\<open>zero or negative value coin detected\<close> when the value is 0 or less;
  \<^item> else \<^verbatim>\<open>coin value has been inflated from v to x\<close> when the value \<open>x\<close> is greater than
    the value \<open>v\<close> the witness holds for the id;
  \<^item> else, the intent having passed all the stages that come before the double-spend stage,
    a double-spend reason: \<^verbatim>\<open>confirmed double-spend detected\<close> when the id is in the
    recency cache, else \<^verbatim>\<open>possible double-spend detected\<close>.
\<close>

theorem seen_coin_is_rejected:
  assumes "valid (fst (validateTransfer E now a t))" and "tr_coin t = Some c"
    and "a2 = snd (validate_seq E (fst (snd (validateTransfer E now a t))) steps)"
    and "tr_coin t' = Some c'" and "coin_id c' = coin_id c"
  shows "bloom_has E (seenCoins a2) (coin_id c)
       \<and> \<not> valid (fst (validateTransfer E now' a2 t'))
       \<and> (shape_ok t' \<and> tr_sender t' \<notin> bannedWallets a2 \<and> status c' = ''active''
            \<and> 0 < coin_value c' \<and> not_inflated a2 c'
          \<longrightarrow> fst (validateTransfer E now' a2 t')
                = Invalid (case map_of (recentTransactionCache a2) (coin_id c) of
                             Some previous \<Rightarrow> ConfirmedDoubleSpend (entry_timestamp previous)
                           | None \<Rightarrow> PossibleDoubleSpend))
       \<and> (\<not> shape_ok t' \<longrightarrow> fst (validateTransfer E now' a2 t') = Invalid MissingData)
       \<and> (shape_ok t' \<and> tr_sender t' \<in> bannedWallets a2
          \<longrightarrow> fst (validateTransfer E now' a2 t') = Invalid Banned)
       \<and> (shape_ok t' \<and> tr_sender t' \<notin> bannedWallets a2 \<and> status c' \<noteq> ''active''
          \<longrightarrow> fst (validateTransfer E now' a2 t') = Invalid (StatusNotActive (status c')))
       \<and> (shape_ok t' \<and> tr_sender t' \<notin> bannedWallets a2 \<and> status c' = ''active''
            \<and> coin_value c' \<le> 0
          \<longrightarrow> fst (validateTransfer E now' a2 t') = Invalid ZeroValue)
       \<and> (shape_ok t' \<and> tr_sender t' \<notin> bannedWallets a2 \<and> status c' = ''active''
            \<and> 0 < coin_value c' \<and> validatedValues a2 (coin_id c) = Some v \<and> v < coin_value c'
          \<longrightarrow> fst (validateTransfer E now' a2 t') = Invalid (Inflated v (coin_value c')))"
proof -
  have first: "bloom_has E (seenCoins (fst (snd (validateTransfer E now a t)))) (coin_id c)"
    using assms(1,2) by (rule validateTransfer_valid_seen)
  have sub: "seenCoins (fst (snd (validateTransfer E now a t))) \<subseteq> seenCoins a2"
    unfolding assms(3) by (rule validate_seq_seen_mono)
  have seen: "bloom_has E (seenCoins a2) (coin_id c)"
    using sub first by (rule bloom_has_mono)
  have seen': "bloom_has E (seenCoins a2) (coin_id c')"
    using seen by (simp only: assms(5))
  have rejected: "\<not> valid (fst (validateTransfer E now' a2 t'))"
    using assms(4) seen' by (rule validateTransfer_seen_invalid)
  show ?thesis
  proof (intro conjI impI)
    show "bloom_has E (seenCoins a2) (coin_id c)" by (rule seen)
    show "\<not> valid (fst (validateTransfer E now' a2 t'))" by (rule rejected)
  next
    assume pre: "shape_ok t' \<and> tr_sender t' \<notin> bannedWallets a2 \<and> status c' = ''active''
            \<and> 0 < coin_value c' \<and> not_inflated a2 c'"
    have "fst (validateTransfer E now' a2 t')
          = Invalid (case map_of (recentTransactionCache a2) (coin_id c') of
                       Some previous \<Rightarrow> ConfirmedDoubleSpend (entry_timestamp previous)
                     | None \<Rightarrow> PossibleDoubleSpend)"
    proof (rule reason_double_spend)
      show "shape_ok t'" "tr_sender t' \<notin> bannedWallets a2" "status c' = ''active''"
        "0 < coin_value c'" "not_inflated a2 c'"
        using pre by blast+
      show "tr_coin t' = Some c'" by (rule assms(4))
      show "bloom_has E (seenCoins a2) (coin_id c')" by (rule seen')
    qed
    then show "fst (validateTransfer E now' a2 t')
          = Invalid (case map_of (recentTransactionCache a2) (coin_id c) of
                       Some previous \<Rightarrow> ConfirmedDoubleSpend (entry_timestamp previous)
                     | None \<Rightarrow> PossibleDoubleSpend)"
      by (simp only: assms(5))
  next
    assume "\<not> shape_ok t'"
    then show "fst (validateTransfer E now' a2 t') = Invalid MissingData"
      by (rule reason_missing)
  next
    assume pre: "shape_ok t' \<and> tr_sender t' \<in> bannedWallets a2"
    show "fst (validateTransfer E now' a2 t') = Invalid Banned"
    proof (rule reason_banned)
      show "shape_ok t'" "tr_sender t' \<in> bannedWallets a2" using pre by blast+
    qed
  next
    assume pre: "shape_ok t' \<and> tr_sender t' \<notin> bannedWallets a2 \<and> status c' \<noteq> ''active''"
    show "fst (validateTransfer E now' a2 t') = Invalid (StatusNotActive (status c'))"
    proof (rule reason_status)
      show "shape_ok t'" "tr_sender t' \<notin> bannedWallets a2" "status c' \<noteq> ''active''"
        using pre by blast+
      show "tr_coin t' = Some c'" by (rule assms(4))
    qed
  next
    assume pre: "shape_ok t' \<and> tr_sender t' \<notin> bannedWallets a2 \<and> status c' = ''active''
            \<and> coin_value c' \<le> 0"
    show "fst (validateTransfer E now' a2 t') = Invalid ZeroValue"
    proof (rule reason_zero)
      show "shape_ok t'" "tr_sender t' \<notin> bannedWallets a2" "status c' = ''active''"
        "coin_value c' \<le> 0"
        using pre by blast+
      show "tr_coin t' = Some c'" by (rule assms(4))
    qed
  next
    assume pre: "shape_ok t' \<and> tr_sender t' \<notin> bannedWallets a2 \<and> status c' = ''active''
            \<and> 0 < coin_value c' \<and> validatedValues a2 (coin_id c) = Some v \<and> v < coin_value c'"
    show "fst (validateTransfer E now' a2 t') = Invalid (Inflated v (coin_value c'))"
    proof (rule reason_inflated)
      show "shape_ok t'" "tr_sender t' \<notin> bannedWallets a2" "status c' = ''active''"
        "0 < coin_value c'" "v < coin_value c'"
        using pre by blast+
      show "tr_coin t' = Some c'" by (rule assms(4))
      have "validatedValues a2 (coin_id c) = Some v" using pre by blast
      then show "validatedValues a2 (coin_id c') = Some v" by (simp only: assms(5))
    qed
  qed
qed

text \<open>
  The theorem at work. The witness accepts the intent for coin X at time 2000 and rejects
  the inflated intent at time 2500; at time 3000 it rejects, each for the reason of the
  first stage that fails, the same intent again, the intent without its signature, the
  coin with the status \<^verbatim>\<open>spent\<close>, the coin with the value 0 and the coin with the value 50.
  When five failures follow the accepted intent instead, the sender is banned and the
  same intent is rejected for the ban.
\<close>

theorem seen_coin_is_rejected_witness:
  "valid (fst (validateTransfer ideal 2000 witness2 signed_intent))
   \<and> bloom_has ideal (seenCoins witness2_later) ''X''
   \<and> fst (validateTransfer ideal 3000 witness2_later signed_intent)
       = Invalid (ConfirmedDoubleSpend 2000)
   \<and> fst (validateTransfer ideal 3000 witness2_later unsigned_intent) = Invalid MissingData
   \<and> fst (validateTransfer ideal 3000 witness2_after_banning signed_intent) = Invalid Banned
   \<and> fst (validateTransfer ideal 3000 witness2_later spent_inflated_intent)
       = Invalid (StatusNotActive ''spent'')
   \<and> fst (validateTransfer ideal 3000 witness2_later zero_intent) = Invalid ZeroValue
   \<and> fst (validateTransfer ideal 3000 witness2_later inflated_intent) = Invalid (Inflated 5 50)"
proof -
  have v: "valid (fst (validateTransfer ideal 2000 witness2 signed_intent))"
    by (simp add: witness2_accepts del: signed_intent_fields)
  have c: "tr_coin signed_intent = Some coinX" by simp
  have later: "witness2_later
      = snd (validate_seq ideal (fst (snd (validateTransfer ideal 2000 witness2 signed_intent)))
               [(2500, inflated_intent)])"
    by (simp only: witness2_later_def witness2_after_def)
  have banning: "witness2_after_banning
      = snd (validate_seq ideal (fst (snd (validateTransfer ideal 2000 witness2 signed_intent)))
               five_failures)"
    by (simp only: witness2_after_banning_def witness2_after_def)
  obtain h where h: "map_of (recentTransactionCache witness2_later) ''X''
         = Some (CoinEntry 2000 h ''h(pk0)'' ''h(pk1)'' 5)"
    using witness2_after_cache by (auto simp: witness2_later_fields)
  have again: "bloom_has ideal (seenCoins witness2_later) ''X''
      \<and> fst (validateTransfer ideal 3000 witness2_later signed_intent)
          = Invalid (ConfirmedDoubleSpend 2000)"
    using h seen_coin_is_rejected [OF v c later c refl, where now' = 3000]
    by (simp add: shape_ok_def witness2_later_fields not_inflated_def)
  have unsigned: "fst (validateTransfer ideal 3000 witness2_later unsigned_intent)
      = Invalid MissingData"
    using seen_coin_is_rejected [OF v c later, where t' = unsigned_intent and c' = coinX
        and now' = 3000]
    by (simp add: unsigned_intent_def shape_ok_def)
  have banned: "fst (validateTransfer ideal 3000 witness2_after_banning signed_intent)
      = Invalid Banned"
    using seen_coin_is_rejected [OF v c banning c refl, where now' = 3000]
    by (simp add: shape_ok_def witness2_after_banning_fields)
  have spent: "fst (validateTransfer ideal 3000 witness2_later spent_inflated_intent)
      = Invalid (StatusNotActive ''spent'')"
    using seen_coin_is_rejected [OF v c later, where t' = spent_inflated_intent
        and c' = "coinX\<lparr>coin_value := 50, status := ''spent''\<rparr>" and now' = 3000]
    by (simp add: spent_inflated_intent_def shape_ok_def witness2_later_fields)
  have zero: "fst (validateTransfer ideal 3000 witness2_later zero_intent) = Invalid ZeroValue"
    using seen_coin_is_rejected [OF v c later, where t' = zero_intent
        and c' = "coinX\<lparr>coin_value := 0\<rparr>" and now' = 3000]
    by (simp add: zero_intent_def shape_ok_def witness2_later_fields)
  have inflated: "fst (validateTransfer ideal 3000 witness2_later inflated_intent)
      = Invalid (Inflated 5 50)"
    using seen_coin_is_rejected [OF v c later, where t' = inflated_intent
        and c' = "coinX\<lparr>coin_value := 50\<rparr>" and now' = 3000 and v = 5]
    by (simp add: inflated_intent_def shape_ok_def witness2_later_fields)
  show ?thesis
    using v again unsigned banned spent zero inflated by (intro conjI) simp_all
qed

text \<open>
  C4 as stated fails: the witness has accepted the intent for coin X; the same coin id
  presented again with the value 50 is rejected with the reason
  \<^verbatim>\<open>coin value has been inflated from 5 to 50\<close>, which is not a double-spend reason.
\<close>

theorem seen_coin_other_reason:
  "valid (fst (validateTransfer ideal 2000 witness2 signed_intent))
   \<and> tr_coin signed_intent = Some coinX
   \<and> tr_coin inflated_intent = Some (coinX\<lparr>coin_value := 50\<rparr>)
   \<and> coin_id (coinX\<lparr>coin_value := 50\<rparr>) = coin_id coinX
   \<and> fst (validateTransfer ideal 3000 witness2_after inflated_intent) = Invalid (Inflated 5 50)"
proof -
  have v: "valid (fst (validateTransfer ideal 2000 witness2 signed_intent))"
    by (simp add: witness2_accepts del: signed_intent_fields)
  have "fst (validateTransfer ideal 3000 witness2_after inflated_intent) = Invalid (Inflated 5 50)"
    using vt_inflated [of inflated_intent witness2_after "coinX\<lparr>coin_value := 50\<rparr>" 5 ideal 3000]
    by (simp add: inflated_intent_def shape_ok_def witness2_after_fields)
  then show ?thesis
    using v by (simp add: inflated_intent_def)
qed

subsection \<open>Banning\<close>

text \<open>The five failures: each is rejected for its zero value, and the fifth bans the sender.\<close>

lemma five_failures_run:
  "fst (validate_seq ideal witness2 five_failures)
     = [Invalid ZeroValue, Invalid ZeroValue, Invalid ZeroValue, Invalid ZeroValue, Invalid ZeroValue]"
  "''h(pk0)'' \<in> bannedWallets witness2_banning"
  by (simp_all add: witness2_banning_def five_failures_def Let_def zero_intent_rejected
      failed_once_fields)

text \<open>
  The first failure recorded for a wallet sets its counter to 1 and does not look at the
  limit (the first branch of \<^verbatim>\<open>recordValidationFailure\<close>); only a later failure compares
  the counter with \<^verbatim>\<open>maxFailuresBeforeBan\<close>. So a limit of 1 or 0 would not ban at the
  first failure, and the banning theorem below asks for a limit of at least 2. The
  constructor sets the limit to 5.
\<close>

lemma first_failure_does_not_ban:
  assumes "validationFailures a W = None"
  shows "bannedWallets (recordValidationFailure W a) = bannedWallets a"
    and "validationFailures (recordValidationFailure W a) W = Some 1"
  using assms by (simp_all add: recordValidationFailure_banned recordValidationFailure_failures)

lemma new_Agent_limit: "maxFailuresBeforeBan (new_Agent now ident pub priv) = 5"
  by (simp add: new_Agent_def)

text \<open>
  C5 (amended). Let a witness with a ban limit of at least 2 (it is 5; the bound comes from
  the first-failure branch of \<^verbatim>\<open>recordValidationFailure\<close>, see above) validate a run of
  intents in which no intent of wallet \<open>W\<close> is found valid and at least as many intents of
  \<open>W\<close> fail in a counter-bumping stage as the limit says. Then \<open>W\<close> is banned at the end
  of the run and stays banned through every later validation; every later intent with
  sender \<open>W\<close> is rejected, with the reason \<^verbatim>\<open>sender wallet is banned due to suspicious
  activity\<close> when it passes the shape check and the reason
  \<^verbatim>\<open>missing required transfer data\<close> when it does not.
\<close>

theorem banned_after_failures:
  assumes "2 \<le> maxFailuresBeforeBan a"
    and "successes_for W steps (fst (validate_seq E a steps)) = 0"
    and "maxFailuresBeforeBan a \<le> bumps_for W steps (fst (validate_seq E a steps))"
    and "a2 = snd (validate_seq E (snd (validate_seq E a steps)) later)"
    and "tr_sender t = W"
  shows "W \<in> bannedWallets (snd (validate_seq E a steps))
       \<and> W \<in> bannedWallets a2
       \<and> \<not> valid (fst (validateTransfer E now a2 t))
       \<and> (shape_ok t \<longrightarrow> fst (validateTransfer E now a2 t) = Invalid Banned)
       \<and> (\<not> shape_ok t \<longrightarrow> fst (validateTransfer E now a2 t) = Invalid MissingData)"
proof -
  have one: "1 \<le> bumps_for W steps (fst (validate_seq E a steps))"
    using assms(1,3) by linarith
  have enough: "maxFailuresBeforeBan a
      \<le> failure_count a W + bumps_for W steps (fst (validate_seq E a steps))"
    using assms(3) by linarith
  have b1: "W \<in> bannedWallets (snd (validate_seq E a steps))"
    using assms(1,2) one enough by (rule validate_seq_ban)
  have sub: "bannedWallets (snd (validate_seq E a steps)) \<subseteq> bannedWallets a2"
    unfolding assms(4) by (rule validate_seq_banned_mono)
  have b2: "W \<in> bannedWallets a2"
    using b1 sub by (rule rev_subsetD)
  have sender: "tr_sender t \<in> bannedWallets a2"
    using b2 by (simp only: assms(5))
  have banned: "fst (validateTransfer E now a2 t) = Invalid Banned" if "shape_ok t"
    using that sender by (rule reason_banned)
  have missing: "fst (validateTransfer E now a2 t) = Invalid MissingData" if "\<not> shape_ok t"
    using that by (rule reason_missing)
  have rejected: "\<not> valid (fst (validateTransfer E now a2 t))"
    using banned missing by (cases "shape_ok t") simp_all
  show ?thesis
    using b1 b2 rejected banned missing by (intro conjI impI)
qed

text \<open>
  The theorem at work. The witness, whose limit is 5, rejects the five zero-value intents
  of wallet \<open>h(pk0)\<close> and bans it. The next intent of the wallet is rejected for the ban
  when it has its signature and for the missing data when it has none, and so it is after
  two more validations.
\<close>

theorem banned_after_failures_witness:
  "(2::nat) \<le> maxFailuresBeforeBan witness2
   \<and> successes_for ''h(pk0)'' five_failures (fst (validate_seq ideal witness2 five_failures)) = 0
   \<and> bumps_for ''h(pk0)'' five_failures (fst (validate_seq ideal witness2 five_failures)) = 5
   \<and> ''h(pk0)'' \<in> bannedWallets witness2_banning
   \<and> shape_ok signed_intent
   \<and> fst (validateTransfer ideal 2006 witness2_banning signed_intent) = Invalid Banned
   \<and> \<not> shape_ok unsigned_intent
   \<and> fst (validateTransfer ideal 2006 witness2_banning unsigned_intent) = Invalid MissingData
   \<and> fst (validateTransfer ideal 2008
            (snd (validate_seq ideal witness2_banning
                    [(2006, unsigned_intent), (2007, signed_intent)]))
            signed_intent) = Invalid Banned
   \<and> fst (validateTransfer ideal 2008
            (snd (validate_seq ideal witness2_banning
                    [(2006, unsigned_intent), (2007, signed_intent)]))
            unsigned_intent) = Invalid MissingData"
proof -
  have lim: "2 \<le> maxFailuresBeforeBan witness2" by simp
  have succ: "successes_for ''h(pk0)'' five_failures
      (fst (validate_seq ideal witness2 five_failures)) = 0"
    by (simp add: five_failures_run) (simp add: five_failures_def)
  have bumps: "bumps_for ''h(pk0)'' five_failures
      (fst (validate_seq ideal witness2 five_failures)) = 5"
    by (simp add: five_failures_run) (simp add: five_failures_def zero_intent_def)
  have enough: "maxFailuresBeforeBan witness2
      \<le> bumps_for ''h(pk0)'' five_failures (fst (validate_seq ideal witness2 five_failures))"
    by (simp add: bumps)
  have a2: "witness2_banning
      = snd (validate_seq ideal (snd (validate_seq ideal witness2 five_failures)) [])"
    by (simp add: witness2_banning_def)
  have a3: "snd (validate_seq ideal witness2_banning
                   [(2006, unsigned_intent), (2007, signed_intent)])
      = snd (validate_seq ideal (snd (validate_seq ideal witness2 five_failures))
               [(2006, unsigned_intent), (2007, signed_intent)])"
    by (simp only: witness2_banning_def)
  have sender: "tr_sender signed_intent = ''h(pk0)''" by simp
  have sender': "tr_sender unsigned_intent = ''h(pk0)''" by (simp add: unsigned_intent_def)
  have shape: "shape_ok signed_intent" by (simp add: shape_ok_def)
  have shape': "\<not> shape_ok unsigned_intent" by (simp add: unsigned_intent_def shape_ok_def)
  have first: "''h(pk0)'' \<in> bannedWallets witness2_banning
      \<and> fst (validateTransfer ideal 2006 witness2_banning signed_intent) = Invalid Banned"
    using shape banned_after_failures [OF lim succ enough a2 sender, where now = 2006]
    by (simp add: witness2_banning_def)
  have second: "fst (validateTransfer ideal 2006 witness2_banning unsigned_intent)
      = Invalid MissingData"
    using shape' banned_after_failures [OF lim succ enough a2 sender', where now = 2006]
    by simp
  have third: "fst (validateTransfer ideal 2008
            (snd (validate_seq ideal witness2_banning
                    [(2006, unsigned_intent), (2007, signed_intent)]))
            signed_intent) = Invalid Banned"
    using shape banned_after_failures [OF lim succ enough a3 sender, where now = 2008]
    by simp
  have fourth: "fst (validateTransfer ideal 2008
            (snd (validate_seq ideal witness2_banning
                    [(2006, unsigned_intent), (2007, signed_intent)]))
            unsigned_intent) = Invalid MissingData"
    using shape' banned_after_failures [OF lim succ enough a3 sender', where now = 2008]
    by simp
  show ?thesis
    using lim succ bumps shape shape' first second third fourth by (intro conjI) simp_all
qed

text \<open>
  C5 as stated fails: wallet \<open>h(pk0)\<close> is banned at the witness after five failures, and
  its next intent, which lacks a signature, is rejected with the reason
  \<^verbatim>\<open>missing required transfer data\<close>, not with the ban reason.
\<close>

theorem banned_sender_other_reason:
  "fst (validate_seq ideal witness2 five_failures)
     = [Invalid ZeroValue, Invalid ZeroValue, Invalid ZeroValue, Invalid ZeroValue, Invalid ZeroValue]
   \<and> ''h(pk0)'' \<in> bannedWallets witness2_banning
   \<and> tr_sender unsigned_intent = ''h(pk0)''
   \<and> fst (validateTransfer ideal 2006 witness2_banning unsigned_intent) = Invalid MissingData"
proof -
  have "\<not> shape_ok unsigned_intent"
    by (simp add: unsigned_intent_def shape_ok_def)
  then have "fst (validateTransfer ideal 2006 witness2_banning unsigned_intent) = Invalid MissingData"
    by (simp add: vt_missing)
  then show ?thesis
    by (simp add: five_failures_run unsigned_intent_def)
qed

subsection \<open>Inflation\<close>

lemma witness2_negative_fields:
  "bannedWallets witness2_negative = {}"
  "validatedValues witness2_negative ''X'' = Some (- 1)"
  by (simp_all add: witness2_negative_def)

text \<open>
  C8 (amended). The value a witness holds for a coin id never grows: after any run of
  validations the recorded value is still there and not greater than before. An intent
  presenting the coin id with a value \<open>x\<close> strictly greater than the recorded value \<open>v\<close>
  is rejected, and the reason is that of the first stage of the pipeline it fails:
  \<^item> \<^verbatim>\<open>missing required transfer data\<close> when the shape check fails;
  \<^item> else \<^verbatim>\<open>sender wallet is banned due to suspicious activity\<close> when the sender is banned;
  \<^item> else (the integrity stage cannot fail) \<^verbatim>\<open>coin status is s, not active\<close> when the
    status \<open>s\<close> of the coin is not active;
  \<^item> else \<^verbatim>\<open>zero or negative value coin detected\<close> when \<open>x\<close> is 0 or less (the recorded value is
    negative then);
  \<^item> else, the intent having passed all the stages that come before the inflation stage,
    \<^verbatim>\<open>coin value has been inflated from v to x\<close>.
\<close>

theorem recorded_value_never_grows:
  assumes "validatedValues a cid = Some v"
    and "tr_coin t = Some c" and "coin_id c = cid" and "v < coin_value c"
  shows "(\<exists>v'. validatedValues (snd (validate_seq E a steps)) cid = Some v' \<and> v' \<le> v)
       \<and> \<not> valid (fst (validateTransfer E now a t))
       \<and> (shape_ok t \<and> tr_sender t \<notin> bannedWallets a \<and> status c = ''active'' \<and> 0 < coin_value c
            \<longrightarrow> fst (validateTransfer E now a t) = Invalid (Inflated v (coin_value c)))
       \<and> (\<not> shape_ok t \<longrightarrow> fst (validateTransfer E now a t) = Invalid MissingData)
       \<and> (shape_ok t \<and> tr_sender t \<in> bannedWallets a
            \<longrightarrow> fst (validateTransfer E now a t) = Invalid Banned)
       \<and> (shape_ok t \<and> tr_sender t \<notin> bannedWallets a \<and> status c \<noteq> ''active''
            \<longrightarrow> fst (validateTransfer E now a t) = Invalid (StatusNotActive (status c)))
       \<and> (shape_ok t \<and> tr_sender t \<notin> bannedWallets a \<and> status c = ''active''
            \<and> coin_value c \<le> 0
            \<longrightarrow> fst (validateTransfer E now a t) = Invalid ZeroValue)"
proof (intro conjI impI)
  show "\<exists>v'. validatedValues (snd (validate_seq E a steps)) cid = Some v' \<and> v' \<le> v"
    using assms(1) by (rule validate_seq_values_mono)
  have rec: "validatedValues a (coin_id c) = Some v"
    using assms(1) by (simp only: assms(3))
  show "\<not> valid (fst (validateTransfer E now a t))"
    using assms(2) rec assms(4) by (rule validateTransfer_inflated_invalid)
  assume pre: "shape_ok t \<and> tr_sender t \<notin> bannedWallets a \<and> status c = ''active''
      \<and> 0 < coin_value c"
  show "fst (validateTransfer E now a t) = Invalid (Inflated v (coin_value c))"
  proof (rule reason_inflated)
    show "shape_ok t" "tr_sender t \<notin> bannedWallets a" "status c = ''active''" "0 < coin_value c"
      using pre by blast+
    show "tr_coin t = Some c" by (rule assms(2))
    show "validatedValues a (coin_id c) = Some v" by (rule rec)
    show "v < coin_value c" by (rule assms(4))
  qed
next
  assume "\<not> shape_ok t"
  then show "fst (validateTransfer E now a t) = Invalid MissingData"
    by (rule reason_missing)
next
  assume pre: "shape_ok t \<and> tr_sender t \<in> bannedWallets a"
  show "fst (validateTransfer E now a t) = Invalid Banned"
  proof (rule reason_banned)
    show "shape_ok t" "tr_sender t \<in> bannedWallets a" using pre by blast+
  qed
next
  assume pre: "shape_ok t \<and> tr_sender t \<notin> bannedWallets a \<and> status c \<noteq> ''active''"
  show "fst (validateTransfer E now a t) = Invalid (StatusNotActive (status c))"
  proof (rule reason_status)
    show "shape_ok t" "tr_sender t \<notin> bannedWallets a" "status c \<noteq> ''active''"
      using pre by blast+
    show "tr_coin t = Some c" by (rule assms(2))
  qed
next
  assume pre: "shape_ok t \<and> tr_sender t \<notin> bannedWallets a \<and> status c = ''active''
      \<and> coin_value c \<le> 0"
  show "fst (validateTransfer E now a t) = Invalid ZeroValue"
  proof (rule reason_zero)
    show "shape_ok t" "tr_sender t \<notin> bannedWallets a" "status c = ''active''"
      "coin_value c \<le> 0"
      using pre by blast+
    show "tr_coin t = Some c" by (rule assms(2))
  qed
qed

text \<open>
  The theorem at work. The witness holds the value 5 for coin X and still holds a value
  of at most 5 after another validation. It rejects the coin presented with the value 50
  as inflated, for its status when the status is \<^verbatim>\<open>spent\<close>, and for the missing data
  when the intent has no signature; after the five failures that ban the sender it rejects
  it for the ban. A witness holding the value \<open>-1\<close> rejects the coin presented with the
  value 0 for its zero value.
\<close>

theorem recorded_value_never_grows_witness:
  "validatedValues witness2_after ''X'' = Some 5
   \<and> tr_coin inflated_intent = Some (coinX\<lparr>coin_value := 50\<rparr>)
   \<and> (\<exists>v'. validatedValues (snd (validate_seq ideal witness2_after [(3000, signed_intent)])) ''X''
              = Some v' \<and> v' \<le> 5)
   \<and> fst (validateTransfer ideal 4000 witness2_after inflated_intent) = Invalid (Inflated 5 50)
   \<and> fst (validateTransfer ideal 4000 witness2_after unsigned_inflated_intent)
       = Invalid MissingData
   \<and> validatedValues witness2_after_banning ''X'' = Some 5
   \<and> fst (validateTransfer ideal 4000 witness2_after_banning inflated_intent) = Invalid Banned
   \<and> fst (validateTransfer ideal 4000 witness2_after spent_inflated_intent)
       = Invalid (StatusNotActive ''spent'')
   \<and> validatedValues witness2_negative ''X'' = Some (- 1)
   \<and> fst (validateTransfer ideal 4000 witness2_negative zero_intent) = Invalid ZeroValue"
proof -
  have rec: "validatedValues witness2_after ''X'' = Some 5"
    by (rule witness2_after_fields)
  have rec_banning: "validatedValues witness2_after_banning ''X'' = Some 5"
    by (rule witness2_after_banning_fields)
  have rec_negative: "validatedValues witness2_negative ''X'' = Some (- 1)"
    by (rule witness2_negative_fields)
  have c: "tr_coin inflated_intent = Some (coinX\<lparr>coin_value := 50\<rparr>)"
    by (simp add: inflated_intent_def)
  have c_unsigned: "tr_coin unsigned_inflated_intent = Some (coinX\<lparr>coin_value := 50\<rparr>)"
    by (simp add: unsigned_inflated_intent_def inflated_intent_def)
  have c_spent: "tr_coin spent_inflated_intent
      = Some (coinX\<lparr>coin_value := 50, status := ''spent''\<rparr>)"
    by (simp add: spent_inflated_intent_def)
  have c_zero: "tr_coin zero_intent = Some (coinX\<lparr>coin_value := 0\<rparr>)"
    by (simp add: zero_intent_def)
  have cid: "coin_id (coinX\<lparr>coin_value := 50\<rparr>) = ''X''" by simp
  have cid_spent: "coin_id (coinX\<lparr>coin_value := 50, status := ''spent''\<rparr>) = ''X''" by simp
  have cid_zero: "coin_id (coinX\<lparr>coin_value := 0\<rparr>) = ''X''" by simp
  have more: "(5::int) < coin_value (coinX\<lparr>coin_value := 50\<rparr>)" by simp
  have more_spent: "(5::int) < coin_value (coinX\<lparr>coin_value := 50, status := ''spent''\<rparr>)"
    by simp
  have more_zero: "(- 1::int) < coin_value (coinX\<lparr>coin_value := 0\<rparr>)" by simp
  have pre: "shape_ok inflated_intent \<and> tr_sender inflated_intent \<notin> bannedWallets witness2_after
      \<and> status (coinX\<lparr>coin_value := 50\<rparr>) = ''active''
      \<and> 0 < coin_value (coinX\<lparr>coin_value := 50\<rparr>)"
    by (simp add: inflated_intent_def shape_ok_def witness2_after_fields)
  have inflated: "(\<exists>v'. validatedValues
         (snd (validate_seq ideal witness2_after [(3000, signed_intent)])) ''X'' = Some v' \<and> v' \<le> 5)
      \<and> fst (validateTransfer ideal 4000 witness2_after inflated_intent) = Invalid (Inflated 5 50)"
    using pre
      recorded_value_never_grows [OF rec c cid more, of ideal "[(3000, signed_intent)]" 4000]
    by simp
  have unsigned: "fst (validateTransfer ideal 4000 witness2_after unsigned_inflated_intent)
      = Invalid MissingData"
    using recorded_value_never_grows [OF rec c_unsigned cid more, where E = ideal and now = 4000]
    by (simp add: unsigned_inflated_intent_def inflated_intent_def shape_ok_def)
  have banned: "fst (validateTransfer ideal 4000 witness2_after_banning inflated_intent)
      = Invalid Banned"
    using recorded_value_never_grows [OF rec_banning c cid more, where E = ideal and now = 4000]
    by (simp add: inflated_intent_def shape_ok_def witness2_after_banning_fields)
  have spent: "fst (validateTransfer ideal 4000 witness2_after spent_inflated_intent)
      = Invalid (StatusNotActive ''spent'')"
    using recorded_value_never_grows [OF rec c_spent cid_spent more_spent,
        where E = ideal and now = 4000]
    by (simp add: spent_inflated_intent_def shape_ok_def witness2_after_fields)
  have zero: "fst (validateTransfer ideal 4000 witness2_negative zero_intent) = Invalid ZeroValue"
    using recorded_value_never_grows [OF rec_negative c_zero cid_zero more_zero,
        where E = ideal and now = 4000]
    by (simp add: zero_intent_def shape_ok_def witness2_negative_fields)
  show ?thesis
    using rec c inflated unsigned rec_banning banned spent rec_negative zero
    by (intro conjI) simp_all
qed

text \<open>
  C8 as stated fails: the witness holds the value 5 for coin X; the coin presented with
  the value 50 and the status \<^verbatim>\<open>spent\<close> is rejected with the reason
  \<^verbatim>\<open>coin status is spent, not active\<close>, not with the inflation reason.
\<close>

theorem inflated_coin_other_reason:
  "validatedValues witness2_after ''X'' = Some 5
   \<and> tr_coin spent_inflated_intent = Some (coinX\<lparr>coin_value := 50, status := ''spent''\<rparr>)
   \<and> coin_id (coinX\<lparr>coin_value := 50, status := ''spent''\<rparr>) = ''X''
   \<and> fst (validateTransfer ideal 4000 witness2_after spent_inflated_intent)
       = Invalid (StatusNotActive ''spent'')"
proof -
  have "validateTransfer ideal 4000 witness2_after spent_inflated_intent =
     (Invalid (StatusNotActive (status (coinX\<lparr>coin_value := 50, status := ''spent''\<rparr>))),
      recordValidationFailure (tr_sender spent_inflated_intent) (bump_validations witness2_after),
      spent_inflated_intent
        \<lparr>tr_coin := Some (updateHash ideal (coinX\<lparr>coin_value := 50, status := ''spent''\<rparr>))\<rparr>)"
    by (rule vt_status)
       (simp_all add: spent_inflated_intent_def shape_ok_def witness2_after_fields)
  then show ?thesis
    by (simp add: witness2_after_fields spent_inflated_intent_def)
qed

section \<open>Properties of the network\<close>

text \<open>
  A roster of five agents numbered by position, with five different wallet ids, quorum 3:
  agent 0 sends the coin at index 0 to agent 1, the transaction id is new, and the first
  witness consulted (agent 2) rejects. Then \<^verbatim>\<open>Network.transferCoin\<close> emits
  \<^verbatim>\<open>transaction:new\<close> and \<^verbatim>\<open>transaction:invalid\<close>, leaves the coin in no wallet and
  returns \<^verbatim>\<open>{success: true, txId: undefined}\<close>.
\<close>

lemma transfer_rejected:
  assumes roster: "agents net = [a0, a1, a2, a3, a4]"
    and ids: "agent_id a0 = 0" "agent_id a1 = 1" "agent_id a2 = 2" "agent_id a3 = 3"
      "agent_id a4 = 4"
    and wallets: "getId E (agent_wallet a0) = w0" "getId E (agent_wallet a1) = w1" "w0 \<noteq> w1"
    and held: "coins (agent_wallet a0) = c # rest"
    and quorum: "requiredWitnesses net = 3"
    and intent: "t = \<lparr>tr_coin = Some c,
                      tr_signature = sign E (signData E (agent_wallet a0) c w1 now)
                                       (privateKey (agent_wallet a0)),
                      tr_sender = w0, tr_recipient = w1, tr_timestamp = now\<rparr>"
    and new: "pendingTransactions net (txId_of E c w0 w1 now) = None"
    and verdict: "validateTransfer E now a2 t = (Invalid why, a2', t')"
  shows "fst (Network_transferCoin E now R net 0 1 0)
           = Returned \<lparr>success = True, res_txId = None, res_reason = None\<rparr>"
    and "agents (snd (Network_transferCoin E now R net 0 1 0))
           = [a0\<lparr>agent_wallet := recordTransaction now ''send'' c (Some w1)
                                    ((agent_wallet a0)\<lparr>coins := rest\<rparr>)\<rparr>, a1, a2', a3, a4]"
    and "emitted (snd (Network_transferCoin E now R net 0 1 0))
           = emitted net @ [TransactionNew (txId_of E c w0 w1 now),
                            TransactionInvalid (txId_of E c w0 w1 now) why]"
    and "requiredWitnesses (snd (Network_transferCoin E now R net 0 1 0)) = 3"
    and "\<And>x. x \<noteq> txId_of E c w0 w1 now \<Longrightarrow>
           pendingTransactions (snd (Network_transferCoin E now R net 0 1 0)) x
             = pendingTransactions net x"
    and "map_option pt_status
           (pendingTransactions (snd (Network_transferCoin E now R net 0 1 0))
              (txId_of E c w0 w1 now)) = Some (Some ''failed'')"
proof -
  have tf: "tr_coin t = Some c" "tr_sender t = w0" "tr_recipient t = w1" "tr_timestamp t = now"
    by (simp_all add: intent)
  have w: "Wallet_transferCoin E now (agent_wallet a0) 0 w1
      = (Some t, recordTransaction now ''send'' c (Some w1) ((agent_wallet a0)\<lparr>coins := rest\<rparr>))"
    by (simp add: Wallet_transferCoin_def Let_def held wallets intent)
  define a0' where "a0' = a0\<lparr>agent_wallet := recordTransaction now ''send'' c (Some w1)
                                    ((agent_wallet a0)\<lparr>coins := rest\<rparr>)\<rparr>"
  define net1 where "net1 = net\<lparr>agents := [a0', a1, a2, a3, a4]\<rparr>"
  have ids1: "getId E (agent_wallet a0') = w0"
    by (simp add: a0'_def getId_def recordTransaction_def wallets(1) [unfolded getId_def])
  have id0: "agent_id a0' = 0" by (simp add: a0'_def ids)
  have sel: "getRandomWitnesses R [a0', a1, a2, a3, a4] 3 [0, 1] = [2, 3, 4]"
    by (simp add: getRandomWitnesses_def Let_def upt_rec ids id0)
  have con: "consult E now [2, 3, 4] [a0', a1, a2, a3, a4]
        \<lparr>pt_transaction = t, pt_witnesses = [], pt_validations = [], pt_timestamp = now,
         pt_retries = 0, pt_status = None, pt_failReason = None\<rparr> t
      = (Some why, [a0', a1, a2', a3, a4],
         \<lparr>pt_transaction = t, pt_witnesses = [(2, now)],
          pt_validations = [\<lparr>pv_validation = Invalid why, pv_witnessId = 2, pv_timestamp = now\<rparr>],
          pt_timestamp = now, pt_retries = 0, pt_status = Some ''failed'',
          pt_failReason = Some why\<rparr>, t')"
    by (simp add: Let_def verdict ids)
  have pr: "processTransaction E now R net1 t
      = (Returned (TxIdOnly (txId_of E c w0 w1 now)),
         net1\<lparr>agents := [a0', a1, a2', a3, a4],
              pendingTransactions := (pendingTransactions net)(txId_of E c w0 w1 now \<mapsto>
                \<lparr>pt_transaction = t, pt_witnesses = [(2, now)],
                 pt_validations = [\<lparr>pv_validation = Invalid why, pv_witnessId = 2,
                                    pv_timestamp = now\<rparr>],
                 pt_timestamp = now, pt_retries = 0, pt_status = Some ''failed'',
                 pt_failReason = Some why\<rparr>),
              emitted := emitted net @ [TransactionNew (txId_of E c w0 w1 now),
                                        TransactionInvalid (txId_of E c w0 w1 now) why]\<rparr>, t')"
    by (simp add: processTransaction_def Let_def net1_def tf new quorum ids1 wallets sel con
        del: consult.simps)
  have nt: "Network_transferCoin E now R net 0 1 0
      = (Returned \<lparr>success = True, res_txId = None, res_reason = None\<rparr>,
         net1\<lparr>agents := [a0', a1, a2', a3, a4],
              pendingTransactions := (pendingTransactions net)(txId_of E c w0 w1 now \<mapsto>
                \<lparr>pt_transaction = t, pt_witnesses = [(2, now)],
                 pt_validations = [\<lparr>pv_validation = Invalid why, pv_witnessId = 2,
                                    pv_timestamp = now\<rparr>],
                 pt_timestamp = now, pt_retries = 0, pt_status = Some ''failed'',
                 pt_failReason = Some why\<rparr>),
              emitted := emitted net @ [TransactionNew (txId_of E c w0 w1 now),
                                        TransactionInvalid (txId_of E c w0 w1 now) why]\<rparr>)"
    by (simp add: Network_transferCoin_def Let_def roster wallets w
        net1_def [symmetric] a0'_def [symmetric] pr)
  show "fst (Network_transferCoin E now R net 0 1 0)
           = Returned \<lparr>success = True, res_txId = None, res_reason = None\<rparr>"
    unfolding nt by simp
  show "agents (snd (Network_transferCoin E now R net 0 1 0))
           = [a0\<lparr>agent_wallet := recordTransaction now ''send'' c (Some w1)
                                    ((agent_wallet a0)\<lparr>coins := rest\<rparr>)\<rparr>, a1, a2', a3, a4]"
    unfolding nt by (simp add: a0'_def)
  show "emitted (snd (Network_transferCoin E now R net 0 1 0))
           = emitted net @ [TransactionNew (txId_of E c w0 w1 now),
                            TransactionInvalid (txId_of E c w0 w1 now) why]"
    unfolding nt by simp
  show "requiredWitnesses (snd (Network_transferCoin E now R net 0 1 0)) = 3"
    unfolding nt by (simp add: net1_def quorum)
  show "\<And>x. x \<noteq> txId_of E c w0 w1 now \<Longrightarrow>
           pendingTransactions (snd (Network_transferCoin E now R net 0 1 0)) x
             = pendingTransactions net x"
    unfolding nt by simp
  show "map_option pt_status
           (pendingTransactions (snd (Network_transferCoin E now R net 0 1 0))
              (txId_of E c w0 w1 now)) = Some (Some ''failed'')"
    unfolding nt by simp
qed

subsection \<open>No intent made by the wallet is ever found valid\<close>

text \<open>
  Whatever the signature scheme, as long as a signature verifies only against the text that
  was signed: the intent \<^verbatim>\<open>Wallet.transferCoin\<close> returns is rejected by every witness, in
  every state, at every time.
\<close>

lemma wallet_intent_never_valid:
  assumes sound: "\<And>d d' k p. verify E d (sign E d' k) p \<Longrightarrow> d = d'"
    and made: "fst (Wallet_transferCoin E now w i r) = Some t"
  shows "\<not> valid (fst (validateTransfer E now' a t))"
proof -
  obtain c0 where sg: "tr_signature t = sign E (signData E w c0 r now) (privateKey w)"
    using made by (auto simp: Wallet_transferCoin_def Let_def split: if_splits)
  show ?thesis
  proof (cases rule: validateTransfer_cases [of t E now' a])
    case (accepted c a9 pk)
    have "getSignatureData (updateHash E c) (tr_recipient t) (tr_timestamp t)
        = signData E w c0 r now"
      using accepted(2) sound by (simp only: sg)
    moreover have "status (updateHash E c) = ''active''"
      using accepted(1) by (simp add: fresh_for_def)
    ultimately show ?thesis
      using signed_text_is_not_verified_text by metis
  qed simp_all
qed

subsection \<open>The concrete networks\<close>

lemma registerPublicKey_fields [simp]:
  "agent_id (registerPublicKey w k a) = agent_id a"
  "agent_wallet (registerPublicKey w k a) = agent_wallet a"
  "bannedWallets (registerPublicKey w k a) = bannedWallets a"
  "seenCoins (registerPublicKey w k a) = seenCoins a"
  "validatedValues (registerPublicKey w k a) = validatedValues a"
  "validationFailures (registerPublicKey w k a) = validationFailures a"
  "recentTransactionCache (registerPublicKey w k a) = recentTransactionCache a"
  "reputation (registerPublicKey w k a) = reputation a"
  "publicKeyDirectory (registerPublicKey w k a) = (publicKeyDirectory a)(w \<mapsto> k)"
  by (simp_all add: registerPublicKey_def)

lemma keyed_fields [simp]:
  "agent_id (keyed a) = agent_id a"
  "agent_wallet (keyed a) = agent_wallet a"
  "bannedWallets (keyed a) = bannedWallets a"
  "seenCoins (keyed a) = seenCoins a"
  "validatedValues (keyed a) = validatedValues a"
  "recentTransactionCache (keyed a) = recentTransactionCache a"
  "reputation (keyed a) = reputation a"
  "publicKeyDirectory (keyed a) ''h(pk0)'' = Some ''pk0''"
  by (simp_all add: keyed_def)
     (simp add: agent_k_def new_Agent_def show_nat.simps digit_char_def)

lemma agent_k_fields [simp]:
  "agent_id (agent_k k) = int k"
  "bannedWallets (agent_k k) = {}"
  "seenCoins (agent_k k) = {}"
  "validatedValues (agent_k k) = Map.empty"
  "recentTransactionCache (agent_k k) = []"
  "score (reputation (agent_k k)) = 100"
  "coins (agent_wallet (agent_k k)) = []"
  by (simp_all add: agent_k_def new_Agent_def)

lemma holder_fields [simp]:
  "agent_id (holder cs) = 0"
  "getId ideal (agent_wallet (holder cs)) = ''h(pk0)''"
  "privateKey (agent_wallet (holder cs)) = ''sk0''"
  "coins (agent_wallet (holder cs)) = cs"
  "score (reputation (holder cs)) = 100"
  by (simp_all add: holder_def getId_def)
     (simp_all add: agent_k_def new_Agent_def show_nat.simps digit_char_def)

lemma roster_with_keys:
  assumes "publicKey (agent_wallet a0) = ''pk0''"
  shows "register_all_keys ideal (a0 # map agent_k [1, 2, 3, 4])
     = [keyed a0, keyed (agent_k 1), keyed (agent_k 2), keyed (agent_k 3), keyed (agent_k 4)]"
  using assms
  by (simp add: register_all_keys_def keyed_def getId_def)
     (simp add: agent_k_def new_Agent_def show_nat.simps digit_char_def)

lemma signData_sender0:
  assumes "getId ideal w = ''h(pk0)''"
  shows "signData ideal w c r now = signData ideal (agent_wallet (agent_k 0)) c r now"
  using assms by (simp add: signData_def)

text \<open>
  At a witness that has seen nothing and banned nobody, the wallet's intent for an active
  coin of positive value without expiry reaches the signature stage and fails there.
\<close>

lemma wallet_intent_bad_signature:
  assumes "status c = ''active''" and "0 < coin_value c" and "expiryDate c = None"
  shows "validateTransfer ideal now (keyed (agent_k 2)) (wallet_intent c now)
     = (Invalid InvalidSignature,
        recordValidationFailure ''h(pk0)''
          (bump_invalidSignatures (bump_validations (keyed (agent_k 2)))),
        (wallet_intent c now)\<lparr>tr_coin := Some (updateHash ideal c)\<rparr>)"
proof -
  have fresh: "fresh_for ideal now (keyed (agent_k 2)) (wallet_intent c now) c"
    using assms
    by (simp add: fresh_for_def shape_ok_def wallet_intent_def not_inflated_def bloom_has_def
        expired_def)
  have key: "getPublicKeyForWallet ideal ''h(pk0)'' (bump_validations (keyed (agent_k 2)))
      = (Some ''pk0'', bump_validations (keyed (agent_k 2)))"
    by (simp add: getPublicKeyForWallet_def bump_validations_def)
  have differ: "signData ideal (agent_wallet (agent_k 0)) c ''h(pk1)'' now
      \<noteq> getSignatureData (updateHash ideal c) ''h(pk1)'' now"
    by (rule signed_text_is_not_verified_text) (simp add: assms)
  have bad: "\<not> verify ideal (getSignatureData (updateHash ideal c) ''h(pk1)'' now)
      (tr_signature (wallet_intent c now)) ''pk0''"
    unfolding wallet_intent_def transfer_intent.select_convs
  proof
    assume "verify ideal (getSignatureData (updateHash ideal c) ''h(pk1)'' now)
      (sign ideal (signData ideal (agent_wallet (agent_k 0)) c ''h(pk1)'' now) ''sk0'') ''pk0''"
    then have "getSignatureData (updateHash ideal c) ''h(pk1)'' now
        = signData ideal (agent_wallet (agent_k 0)) c ''h(pk1)'' now"
      by (rule ideal_sound)
    then show False using differ by simp
  qed
  have "validateTransfer ideal now (keyed (agent_k 2)) (wallet_intent c now)
     = (Invalid InvalidSignature,
        recordValidationFailure (tr_sender (wallet_intent c now))
          (bump_invalidSignatures
             (snd (getPublicKeyForWallet ideal (tr_sender (wallet_intent c now))
                     (bump_validations (keyed (agent_k 2)))))),
        (wallet_intent c now)\<lparr>tr_coin := Some (updateHash ideal c)\<rparr>)"
  proof (rule vt_bad_signature [OF fresh, where pk = "''pk0''"])
    show "map_of (recentTransactionCache (keyed (agent_k 2)))
        (txHash_of ideal c (tr_sender (wallet_intent c now)) (tr_recipient (wallet_intent c now))
           (tr_signature (wallet_intent c now)) (tr_timestamp (wallet_intent c now))) = None"
      by simp
    show "fst (getPublicKeyForWallet ideal (tr_sender (wallet_intent c now))
        (bump_validations (keyed (agent_k 2)))) = Some ''pk0''"
      by (simp add: wallet_intent_def key)
    show "''pk0'' \<noteq> []" by simp
    show "\<not> verify ideal
        (getSignatureData (updateHash ideal c) (tr_recipient (wallet_intent c now))
           (tr_timestamp (wallet_intent c now)))
        (tr_signature (wallet_intent c now)) ''pk0''"
      using bad by (simp add: wallet_intent_def)
  qed
  then show ?thesis
    by (simp add: wallet_intent_def key)
qed

text \<open>Agent 0 sends its first coin in a network like that of scenario A.\<close>

lemma sender0_rejected:
  assumes roster: "agents net = [keyed a0, keyed (agent_k 1), keyed (agent_k 2),
                                 keyed (agent_k 3), keyed (agent_k 4)]"
    and sender: "agent_id a0 = 0" "getId ideal (agent_wallet a0) = ''h(pk0)''"
      "privateKey (agent_wallet a0) = ''sk0''" "coins (agent_wallet a0) = c # rest"
    and quorum: "requiredWitnesses net = 3"
    and new: "pendingTransactions net (txId_of ideal c ''h(pk0)'' ''h(pk1)'' now) = None"
    and verdict: "validateTransfer ideal now (keyed (agent_k 2)) (wallet_intent c now)
                    = (Invalid why, a2', t')"
  shows "fst (Network_transferCoin ideal now R net 0 1 0)
           = Returned \<lparr>success = True, res_txId = None, res_reason = None\<rparr>"
    and "map (\<lambda>a. coins (agent_wallet a)) (agents (snd (Network_transferCoin ideal now R net 0 1 0)))
           = [rest, [], coins (agent_wallet a2'), [], []]"
    and "emitted (snd (Network_transferCoin ideal now R net 0 1 0))
           = emitted net @ [TransactionNew (txId_of ideal c ''h(pk0)'' ''h(pk1)'' now),
                            TransactionInvalid (txId_of ideal c ''h(pk0)'' ''h(pk1)'' now) why]"
    and "map_option pt_status
           (pendingTransactions (snd (Network_transferCoin ideal now R net 0 1 0))
              (txId_of ideal c ''h(pk0)'' ''h(pk1)'' now)) = Some (Some ''failed'')"
proof -
  have intent: "wallet_intent c now =
      \<lparr>tr_coin = Some c,
       tr_signature = sign ideal (signData ideal (agent_wallet (keyed a0)) c ''h(pk1)'' now)
                        (privateKey (agent_wallet (keyed a0))),
       tr_sender = ''h(pk0)'', tr_recipient = ''h(pk1)'', tr_timestamp = now\<rparr>"
    unfolding wallet_intent_def
    by (simp only: keyed_fields sender(3) signData_sender0 [OF sender(2)])
  note r = transfer_rejected [where net = net and ?a0.0 = "keyed a0"
      and ?a1.0 = "keyed (agent_k 1)" and ?a2.0 = "keyed (agent_k 2)"
      and ?a3.0 = "keyed (agent_k 3)" and ?a4.0 = "keyed (agent_k 4)" and E = ideal
      and ?w0.0 = "''h(pk0)''" and ?w1.0 = "''h(pk1)''" and c = c and rest = rest
      and t = "wallet_intent c now" and now = now and why = why and a2' = a2' and t' = t'
      and R = R,
      OF roster _ _ _ _ _ _ _ _ _ quorum intent new verdict]
  have side: "agent_id (keyed a0) = 0" "agent_id (keyed (agent_k 1)) = 1"
    "agent_id (keyed (agent_k 2)) = 2" "agent_id (keyed (agent_k 3)) = 3"
    "agent_id (keyed (agent_k 4)) = 4"
    "getId ideal (agent_wallet (keyed a0)) = ''h(pk0)''"
    "getId ideal (agent_wallet (keyed (agent_k 1))) = ''h(pk1)''"
    "''h(pk0)'' \<noteq> ''h(pk1)''"
    "coins (agent_wallet (keyed a0)) = c # rest"
    using sender by simp_all
  show "fst (Network_transferCoin ideal now R net 0 1 0)
           = Returned \<lparr>success = True, res_txId = None, res_reason = None\<rparr>"
    by (rule r(1) [OF side])
  show "map (\<lambda>a. coins (agent_wallet a)) (agents (snd (Network_transferCoin ideal now R net 0 1 0)))
           = [rest, [], coins (agent_wallet a2'), [], []]"
    unfolding r(2) [OF side] by (simp add: recordTransaction_def)
  show "emitted (snd (Network_transferCoin ideal now R net 0 1 0))
           = emitted net @ [TransactionNew (txId_of ideal c ''h(pk0)'' ''h(pk1)'' now),
                            TransactionInvalid (txId_of ideal c ''h(pk0)'' ''h(pk1)'' now) why]"
    by (rule r(3) [OF side])
  show "map_option pt_status
           (pendingTransactions (snd (Network_transferCoin ideal now R net 0 1 0))
              (txId_of ideal c ''h(pk0)'' ''h(pk1)'' now)) = Some (Some ''failed'')"
    by (rule r(6) [OF side])
qed

text \<open>So it is in the idealised environment.\<close>

lemma ideal_wallet_intent_never_valid:
  assumes "fst (Wallet_transferCoin ideal now w i r) = Some t"
  shows "\<not> valid (fst (validateTransfer ideal now' a t))"
  using ideal_sound assms by (rule wallet_intent_never_valid)

lemma wallet_intent_made:
  assumes "getId ideal w = ''h(pk0)''" and "privateKey w = ''sk0''" and "coins w = c # rest"
  shows "fst (Wallet_transferCoin ideal now w 0 ''h(pk1)'') = Some (wallet_intent c now)"
  using assms by (simp add: Wallet_transferCoin_def Let_def wallet_intent_def signData_def)

subsection \<open>Scenario A and the rollback\<close>

lemma first_holder_fields [simp]:
  "agent_id first_holder = 0"
  "publicKey (agent_wallet first_holder) = ''pk0''"
  "getId ideal (agent_wallet first_holder) = ''h(pk0)''"
  "privateKey (agent_wallet first_holder) = ''sk0''"
  "coins (agent_wallet first_holder) = [coinX]"
  by (simp_all add: first_holder_def addCoin_def recordTransaction_def getId_def)
     (simp_all add: agent_k_def new_Agent_def show_nat.simps digit_char_def)

lemma happy_roster:
  "agents happy_net
     = [keyed first_holder, keyed (agent_k 1), keyed (agent_k 2), keyed (agent_k 3),
        keyed (agent_k 4)]"
  unfolding happy_net_def
  by (simp only: network.select_convs roster_with_keys first_holder_fields)

text \<open>
  C1 (the code departs from the claim). Scenario A: five agents, quorum 3, all public keys
  registered everywhere, agent 0 holds the active, unexpired coin X of value 5 and
  transfers it to agent 1 at time 2000. The first witness consulted rejects the signature:
  the signature was made over \<^verbatim>\<open>X-h(pk0)-h(pk1)-2000\<close> and is verified against
  \<^verbatim>\<open>coin.getSignatureData(recipient, timestamp)\<close>. \<^verbatim>\<open>transaction:invalid\<close> is emitted and
  \<^verbatim>\<open>transaction:confirmed\<close> is not, and afterwards no wallet holds the coin.
\<close>

theorem happy_path_is_rejected:
  "map (\<lambda>a. coins (agent_wallet a)) (agents happy_net) = [[coinX], [], [], [], []]
   \<and> \<not> verify ideal (getSignatureData coinX ''h(pk1)'' 2000)
          (tr_signature (wallet_intent coinX 2000)) ''pk0''
   \<and> fst (Network_transferCoin ideal 2000 R happy_net 0 1 0)
       = Returned \<lparr>success = True, res_txId = None, res_reason = None\<rparr>
   \<and> emitted (snd (Network_transferCoin ideal 2000 R happy_net 0 1 0))
       = [TransactionNew (txId_of ideal coinX ''h(pk0)'' ''h(pk1)'' 2000),
          TransactionInvalid (txId_of ideal coinX ''h(pk0)'' ''h(pk1)'' 2000) InvalidSignature]
   \<and> map (\<lambda>a. coins (agent_wallet a)) (agents (snd (Network_transferCoin ideal 2000 R happy_net 0 1 0)))
       = [[], [], [], [], []]"
proof -
  have before: "map (\<lambda>a. coins (agent_wallet a)) (agents happy_net) = [[coinX], [], [], [], []]"
    by (simp add: happy_roster)
  have differ: "signData ideal (agent_wallet (agent_k 0)) coinX ''h(pk1)'' 2000
      \<noteq> getSignatureData coinX ''h(pk1)'' 2000"
    by (rule signed_text_is_not_verified_text) simp
  have bad: "\<not> verify ideal (getSignatureData coinX ''h(pk1)'' 2000)
          (tr_signature (wallet_intent coinX 2000)) ''pk0''"
    unfolding wallet_intent_def transfer_intent.select_convs
  proof
    assume "verify ideal (getSignatureData coinX ''h(pk1)'' 2000)
      (sign ideal (signData ideal (agent_wallet (agent_k 0)) coinX ''h(pk1)'' 2000) ''sk0'') ''pk0''"
    then have "getSignatureData coinX ''h(pk1)'' 2000
        = signData ideal (agent_wallet (agent_k 0)) coinX ''h(pk1)'' 2000"
      by (rule ideal_sound)
    then show False using differ by simp
  qed
  have verdict: "validateTransfer ideal 2000 (keyed (agent_k 2)) (wallet_intent coinX 2000)
     = (Invalid InvalidSignature,
        recordValidationFailure ''h(pk0)''
          (bump_invalidSignatures (bump_validations (keyed (agent_k 2)))),
        (wallet_intent coinX 2000)\<lparr>tr_coin := Some (updateHash ideal coinX)\<rparr>)"
    by (rule wallet_intent_bad_signature) simp_all
  have new: "pendingTransactions happy_net (txId_of ideal coinX ''h(pk0)'' ''h(pk1)'' 2000) = None"
    by (simp add: happy_net_def)
  have quorum: "requiredWitnesses happy_net = 3"
    by (simp add: happy_net_def)
  have none: "emitted happy_net = []"
    by (simp add: happy_net_def)
  note r = sender0_rejected [OF happy_roster first_holder_fields(1,3,4,5) quorum new verdict,
      of R]
  show ?thesis
    using before bad r(1) r(2) r(3) by (simp add: none)
qed

lemma holder_key: "publicKey (agent_wallet (holder cs)) = ''pk0''"
  by (simp add: holder_def agent_k_def new_Agent_def show_nat.simps digit_char_def)

lemma zero_roster:
  "agents zero_net
     = [keyed (holder [coinX\<lparr>coin_value := 0\<rparr>]), keyed (agent_k 1), keyed (agent_k 2),
        keyed (agent_k 3), keyed (agent_k 4)]"
  unfolding zero_net_def
  by (simp only: network.select_convs roster_with_keys holder_key)

lemma wallet_intent_zero:
  assumes "''h(pk0)'' \<notin> bannedWallets a"
  shows "validateTransfer ideal now a (wallet_intent (coinX\<lparr>coin_value := 0\<rparr>) now)
     = (Invalid ZeroValue,
        recordValidationFailure ''h(pk0)'' (bump_zeroBalance (bump_validations a)),
        (wallet_intent (coinX\<lparr>coin_value := 0\<rparr>) now)
          \<lparr>tr_coin := Some (updateHash ideal (coinX\<lparr>coin_value := 0\<rparr>))\<rparr>)"
proof -
  have "validateTransfer ideal now a (wallet_intent (coinX\<lparr>coin_value := 0\<rparr>) now)
     = (Invalid ZeroValue,
        recordValidationFailure (tr_sender (wallet_intent (coinX\<lparr>coin_value := 0\<rparr>) now))
          (bump_zeroBalance (bump_validations a)),
        (wallet_intent (coinX\<lparr>coin_value := 0\<rparr>) now)
          \<lparr>tr_coin := Some (updateHash ideal (coinX\<lparr>coin_value := 0\<rparr>))\<rparr>)"
    by (rule vt_zero) (simp_all add: wallet_intent_def shape_ok_def assms)
  then show ?thesis by (simp add: wallet_intent_def)
qed

text \<open>
  C2 (the code departs from the claim). Agent 0 transfers a coin whose value is 0. The
  first witness consulted rejects it, the transaction is marked failed in the pending
  record and \<^verbatim>\<open>transaction:invalid\<close> is emitted; yet \<^verbatim>\<open>Network.transferCoin\<close> returns
  \<^verbatim>\<open>{success: true}\<close> and the coin is not put back: the sender's wallet, which held the
  coin before the call, is empty after it.
\<close>

theorem failed_transfer_is_not_rolled_back:
  "map (\<lambda>a. coins (agent_wallet a)) (agents zero_net) = [[coinX\<lparr>coin_value := 0\<rparr>], [], [], [], []]
   \<and> emitted (snd (Network_transferCoin ideal 2000 R zero_net 0 1 0))
       = [TransactionNew (txId_of ideal (coinX\<lparr>coin_value := 0\<rparr>) ''h(pk0)'' ''h(pk1)'' 2000),
          TransactionInvalid (txId_of ideal (coinX\<lparr>coin_value := 0\<rparr>) ''h(pk0)'' ''h(pk1)'' 2000)
            ZeroValue]
   \<and> map_option pt_status
        (pendingTransactions (snd (Network_transferCoin ideal 2000 R zero_net 0 1 0))
           (txId_of ideal (coinX\<lparr>coin_value := 0\<rparr>) ''h(pk0)'' ''h(pk1)'' 2000))
       = Some (Some ''failed'')
   \<and> fst (Network_transferCoin ideal 2000 R zero_net 0 1 0)
       = Returned \<lparr>success = True, res_txId = None, res_reason = None\<rparr>
   \<and> map (\<lambda>a. coins (agent_wallet a)) (agents (snd (Network_transferCoin ideal 2000 R zero_net 0 1 0)))
       = [[], [], [], [], []]"
proof -
  have before: "map (\<lambda>a. coins (agent_wallet a)) (agents zero_net)
      = [[coinX\<lparr>coin_value := 0\<rparr>], [], [], [], []]"
    by (simp add: zero_roster)
  have verdict: "validateTransfer ideal 2000 (keyed (agent_k 2))
        (wallet_intent (coinX\<lparr>coin_value := 0\<rparr>) 2000)
     = (Invalid ZeroValue,
        recordValidationFailure ''h(pk0)'' (bump_zeroBalance (bump_validations (keyed (agent_k 2)))),
        (wallet_intent (coinX\<lparr>coin_value := 0\<rparr>) 2000)
          \<lparr>tr_coin := Some (updateHash ideal (coinX\<lparr>coin_value := 0\<rparr>))\<rparr>)"
    by (rule wallet_intent_zero) simp
  have new: "pendingTransactions zero_net
      (txId_of ideal (coinX\<lparr>coin_value := 0\<rparr>) ''h(pk0)'' ''h(pk1)'' 2000) = None"
    by (simp add: zero_net_def)
  have quorum: "requiredWitnesses zero_net = 3"
    by (simp add: zero_net_def)
  have none: "emitted zero_net = []"
    by (simp add: zero_net_def)
  have sender: "agent_id (holder [coinX\<lparr>coin_value := 0\<rparr>]) = 0"
    "getId ideal (agent_wallet (holder [coinX\<lparr>coin_value := 0\<rparr>])) = ''h(pk0)''"
    "privateKey (agent_wallet (holder [coinX\<lparr>coin_value := 0\<rparr>])) = ''sk0''"
    "coins (agent_wallet (holder [coinX\<lparr>coin_value := 0\<rparr>])) = [coinX\<lparr>coin_value := 0\<rparr>]"
    by simp_all
  note r = sender0_rejected [OF zero_roster sender quorum new verdict, of R]
  show ?thesis
    using before r(1) r(2) r(3) r(4) by (simp add: none)
qed

subsection \<open>Scenario D\<close>

lemma updateReputation_full_score:
  assumes "score (reputation a) = 100" and "0 \<le> importance"
  shows "score (reputation (updateReputation now True importance a)) = 100"
  using assms by (simp add: updateReputation_def Let_def)

lemma updateReputation_cong:
  "reputation a = reputation b \<Longrightarrow>
   reputation (updateReputation now ok i a) = reputation (updateReputation now ok i b)"
  by (simp add: updateReputation_def Let_def)

lemma accept_reputation:
  "reputation (accept E now a c s r h) = reputation (updateReputation now True 1 a)"
  unfolding accept_def Let_def
  by (rule updateReputation_cong) (simp add: bump_validSignatures_def)

text \<open>
  The pipeline updates the witness's own reputation, and only with successes: a witness at
  score 100 is at score 100 after any validation.
\<close>

lemma validateTransfer_full_score:
  assumes "score (reputation a) = 100"
  shows "score (reputation (fst (snd (validateTransfer E now a t)))) = 100"
proof (cases rule: validateTransfer_cases [of t E now a])
  case (double_spend c)
  then show ?thesis
    using assms
    by (simp add: updateReputation_full_score split: option.splits)
next
  case (accepted c a9 pk)
  then show ?thesis
    using assms by (simp add: accept_reputation updateReputation_full_score)
qed (simp_all add: assms)

lemma validateTransfer_zero_invalid:
  assumes "tr_coin t = Some c" and "coin_value c \<le> 0"
  shows "\<not> valid (fst (validateTransfer E now a t))"
  using assms
  by (cases rule: validateTransfer_cases [of t E now a]) (auto simp: fresh_for_def)

lemma txId_times:
  "txId_of ideal c s r ts = txId_of ideal c s r ts' \<Longrightarrow> ts = ts'"
  by (simp add: txId_of_def show_nat_inj)

lemma drift_roster:
  "agents drift_net
     = [keyed (holder (replicate 30 (coinX\<lparr>coin_value := 0\<rparr>))), keyed (agent_k 1),
        keyed (agent_k 2), keyed (agent_k 3), keyed (agent_k 4)]"
  unfolding drift_net_def
  by (simp only: network.select_convs roster_with_keys holder_key)

lemma drift_state_start: "drift_state 0 drift_net"
  unfolding drift_state_def
  by (simp add: drift_roster) (simp add: drift_net_def)

lemma drift_state_elim:
  assumes "drift_state k net"
  obtains m b1 w b3 b4 where
    "agents net = [m, b1, w, b3, b4]"
    "agent_id m = 0" "agent_id b1 = 1" "agent_id w = 2" "agent_id b3 = 3" "agent_id b4 = 4"
    "getId ideal (agent_wallet m) = ''h(pk0)''" "getId ideal (agent_wallet b1) = ''h(pk1)''"
    "coins (agent_wallet m) = replicate (30 - k) (coinX\<lparr>coin_value := 0\<rparr>)"
    "score (reputation m) = 100" "score (reputation b1) = 100"
      "score (reputation w) = 100" "score (reputation b3) = 100" "score (reputation b4) = 100"
    "requiredWitnesses net = 3"
    "\<And>x. pendingTransactions net x \<noteq> None \<Longrightarrow>
        \<exists>j<k. x = txId_of ideal (coinX\<lparr>coin_value := 0\<rparr>) ''h(pk0)'' ''h(pk1)'' (2000 + j)"
    "length (filter is_invalid_event (emitted net)) = k"
    "filter is_confirmed_event (emitted net) = []"
  using assms unfolding drift_state_def by (elim exE conjE) simp

lemma drift_state_intro:
  assumes "agents net = [m, b1, w, b3, b4]"
    "agent_id m = 0" "agent_id b1 = 1" "agent_id w = 2" "agent_id b3 = 3" "agent_id b4 = 4"
    "getId ideal (agent_wallet m) = ''h(pk0)''" "getId ideal (agent_wallet b1) = ''h(pk1)''"
    "coins (agent_wallet m) = replicate (30 - k) (coinX\<lparr>coin_value := 0\<rparr>)"
    "score (reputation m) = 100" "score (reputation b1) = 100"
      "score (reputation w) = 100" "score (reputation b3) = 100" "score (reputation b4) = 100"
    "requiredWitnesses net = 3"
    "\<And>x. pendingTransactions net x \<noteq> None \<Longrightarrow>
        \<exists>j<k. x = txId_of ideal (coinX\<lparr>coin_value := 0\<rparr>) ''h(pk0)'' ''h(pk1)'' (2000 + j)"
    "length (filter is_invalid_event (emitted net)) = k"
    "filter is_confirmed_event (emitted net) = []"
  shows "drift_state k net"
  unfolding drift_state_def
  apply (rule exI [of _ m], rule exI [of _ b1], rule exI [of _ w], rule exI [of _ b3],
         rule exI [of _ b4])
  using assms by simp

lemma drift_state_step:
  assumes inv: "drift_state k net" and more: "k < 30"
  shows "drift_state (Suc k) (snd (Network_transferCoin ideal (2000 + k) R net 0 1 0))"
proof -
  let ?c = "coinX\<lparr>coin_value := 0\<rparr>"
  let ?tx = "txId_of ideal ?c ''h(pk0)'' ''h(pk1)'' (2000 + k)"
  show ?thesis
  proof (rule drift_state_elim [OF inv])
  fix m b1 w b3 b4
  assume roster: "agents net = [m, b1, w, b3, b4]"
    and ids: "agent_id m = 0" "agent_id b1 = 1" "agent_id w = 2" "agent_id b3 = 3" "agent_id b4 = 4"
    and wallets: "getId ideal (agent_wallet m) = ''h(pk0)''" "getId ideal (agent_wallet b1) = ''h(pk1)''"
    and held: "coins (agent_wallet m) = replicate (30 - k) ?c"
    and scores: "score (reputation m) = 100" "score (reputation b1) = 100"
      "score (reputation w) = 100" "score (reputation b3) = 100" "score (reputation b4) = 100"
    and quorum: "requiredWitnesses net = 3"
    and pending: "\<And>x. pendingTransactions net x \<noteq> None \<Longrightarrow>
        \<exists>j<k. x = txId_of ideal ?c ''h(pk0)'' ''h(pk1)'' (2000 + j)"
    and invalids: "length (filter is_invalid_event (emitted net)) = k"
    and confirmed: "filter is_confirmed_event (emitted net) = []"
  have "30 - k = Suc (29 - k)" using more by simp
  then have held': "coins (agent_wallet m) = ?c # replicate (29 - k) ?c"
    using held by simp
  define t where "t = \<lparr>tr_coin = Some ?c,
      tr_signature = sign ideal (signData ideal (agent_wallet m) ?c ''h(pk1)'' (2000 + k))
                       (privateKey (agent_wallet m)),
      tr_sender = ''h(pk0)'', tr_recipient = ''h(pk1)'', tr_timestamp = 2000 + k\<rparr>"
  have new: "pendingTransactions net ?tx = None"
  proof (rule ccontr)
    assume "pendingTransactions net ?tx \<noteq> None"
    then obtain j where j: "j < k" "?tx = txId_of ideal ?c ''h(pk0)'' ''h(pk1)'' (2000 + j)"
      using pending by blast
    have "2000 + k = 2000 + j" using j(2) by (rule txId_times)
    then show False using j(1) by simp
  qed
  obtain v a2' t' where run: "validateTransfer ideal (2000 + k) w t = (v, a2', t')"
    by (rule prod_cases3)
  have coin: "tr_coin t = Some ?c" by (simp add: t_def)
  have zero: "coin_value ?c \<le> 0" by simp
  have "\<not> valid (fst (validateTransfer ideal (2000 + k) w t))"
    using coin zero by (rule validateTransfer_zero_invalid)
  then have "\<not> valid v" by (simp add: run)
  then obtain why where v: "v = Invalid why" by (cases v) auto
  have verdict: "validateTransfer ideal (2000 + k) w t = (Invalid why, a2', t')"
    using run by (simp only: v)
  have a2_eq: "a2' = fst (snd (validateTransfer ideal (2000 + k) w t))"
    by (simp only: verdict fst_conv snd_conv)
  have a2_id: "agent_id a2' = 2"
    unfolding a2_eq using validateTransfer_identity [of ideal "2000 + k" w t] ids(3) by simp
  have a2_score: "score (reputation a2') = 100"
    unfolding a2_eq using scores(3) by (rule validateTransfer_full_score)
  have ne: "''h(pk0)'' \<noteq> ''h(pk1)''" by simp
  note r = transfer_rejected [where net = net and ?a0.0 = m and ?a1.0 = b1 and ?a2.0 = w
      and ?a3.0 = b3 and ?a4.0 = b4 and E = ideal and ?w0.0 = "''h(pk0)''"
      and ?w1.0 = "''h(pk1)''" and c = ?c and rest = "replicate (29 - k) ?c" and t = t
      and now = "2000 + k" and why = why and a2' = a2' and t' = t' and R = R,
      OF roster ids wallets ne held' quorum t_def new verdict]
  let ?net' = "snd (Network_transferCoin ideal (2000 + k) R net 0 1 0)"
  let ?m' = "m\<lparr>agent_wallet := recordTransaction (2000 + k) ''send'' ?c (Some ''h(pk1)'')
                                 ((agent_wallet m)\<lparr>coins := replicate (29 - k) ?c\<rparr>)\<rparr>"
  have m_id: "agent_id ?m' = 0" using ids(1) by simp
  have m_wallet: "getId ideal (agent_wallet ?m') = ''h(pk0)''"
    using wallets(1) by (simp add: getId_def recordTransaction_def)
  have "30 - Suc k = 29 - k" by simp
  then have m_coins: "coins (agent_wallet ?m') = replicate (30 - Suc k) ?c"
    by (simp add: recordTransaction_def)
  have m_score: "score (reputation ?m') = 100" using scores(1) by simp
  have emitted': "emitted ?net' = emitted net @ [TransactionNew ?tx, TransactionInvalid ?tx why]"
    by (rule r(3))
  have pending': "\<exists>j<Suc k. x = txId_of ideal ?c ''h(pk0)'' ''h(pk1)'' (2000 + j)"
    if "pendingTransactions ?net' x \<noteq> None" for x
  proof (cases "x = ?tx")
    case True
    have "k < Suc k" by simp
    then show ?thesis using True by (intro exI [of _ k]) simp
  next
    case False
    then have "pendingTransactions ?net' x = pendingTransactions net x"
      by (rule r(5))
    then have "pendingTransactions net x \<noteq> None" using that by simp
    then obtain j where j: "j < k" "x = txId_of ideal ?c ''h(pk0)'' ''h(pk1)'' (2000 + j)"
      using pending by blast
    have "j < Suc k" using j(1) by simp
    then show ?thesis using j(2) by (intro exI [of _ j]) simp
  qed
  have inv_count: "length (filter is_invalid_event (emitted ?net')) = Suc k"
    unfolding emitted' using invalids by simp
  have conf_none: "filter is_confirmed_event (emitted ?net') = []"
    unfolding emitted' using confirmed by simp
  show ?thesis
    by (rule drift_state_intro [OF r(2) m_id ids(2) a2_id ids(4,5) m_wallet wallets(2) m_coins
          m_score scores(2) a2_score scores(4,5) r(4) pending' inv_count conf_none])
  qed
qed

lemma drift_state_run: "k \<le> 30 \<Longrightarrow> drift_state k (forged_run R k)"
proof (induction k)
  case 0
  then show ?case by (simp add: drift_state_start)
next
  case (Suc k)
  then have "drift_state k (forged_run R k)" "k < 30" by simp_all
  then show ?case using drift_state_step by simp
qed

text \<open>
  C6 (the code departs from the claim). Scenario D: all agents start at score 100; the
  malicious agent 0 makes 30 transfers of forged coins, each of them rejected by a witness
  (30 \<^verbatim>\<open>transaction:invalid\<close> events, no \<^verbatim>\<open>transaction:confirmed\<close>). Afterwards the score
  of agent 0 is still 100, as is every other agent's.
\<close>

theorem malicious_sender_keeps_reputation:
  "map (\<lambda>a. score (reputation a)) (agents drift_net) = [100, 100, 100, 100, 100]
   \<and> length (filter is_invalid_event (emitted (forged_run R 30))) = 30
   \<and> filter is_confirmed_event (emitted (forged_run R 30)) = []
   \<and> map (\<lambda>a. score (reputation a)) (agents (forged_run R 30)) = [100, 100, 100, 100, 100]"
proof -
  have start: "map (\<lambda>a. score (reputation a)) (agents drift_net) = [100, 100, 100, 100, 100]"
    by (simp add: drift_roster)
  have "drift_state 30 (forged_run R 30)"
    by (rule drift_state_run) simp
  then show ?thesis
    using start unfolding drift_state_def by auto
qed

end
